theory Spec2Isabelle
  imports Main
begin

section \<open>JavaScript strings\<close>

text \<open>
  A JavaScript string is a sequence of UTF-16 code units, and \<open>length\<close>, \<open>slice\<close>,
  \<open>includes\<close> and \<open>===\<close> all work on code units. A code unit is modelled as a natural
  number (below 65536 in every string of the program) and a string as a list of them.
  \<open>str\<close> writes an ASCII literal; a code unit outside printable ASCII is written as a
  number (10 is the line feed, 34 the double quote, 8212 the em dash U+2014).
\<close>

type_synonym jschar = nat
type_synonym jsstring = "jschar list"

definition str :: "string \<Rightarrow> jsstring" where
  "str s = map of_char s"

subsection \<open>Code points\<close>

text \<open>
  The ECMAScript operations \<open>StringToCodePoints\<close> and \<open>CodePointsToString\<close>: a high
  surrogate followed by a low surrogate is one code point above U+FFFF; any other code
  unit, a lone surrogate too, is the code point of the same number.
\<close>

definition isHighSurrogate :: "jschar \<Rightarrow> bool" where
  "isHighSurrogate c = (0xD800 \<le> c \<and> c \<le> 0xDBFF)"

definition isLowSurrogate :: "jschar \<Rightarrow> bool" where
  "isLowSurrogate c = (0xDC00 \<le> c \<and> c \<le> 0xDFFF)"

definition surrogatePairToCodePoint :: "jschar \<Rightarrow> jschar \<Rightarrow> nat" where
  "surrogatePairToCodePoint lead trail = (lead - 0xD800) * 0x400 + (trail - 0xDC00) + 0x10000"

fun stringToCodePoints :: "jsstring \<Rightarrow> nat list" where
  "stringToCodePoints [] = []"
| "stringToCodePoints [c] = [c]"
| "stringToCodePoints (c # d # s) =
     (if isHighSurrogate c \<and> isLowSurrogate d
      then surrogatePairToCodePoint c d # stringToCodePoints s
      else c # stringToCodePoints (d # s))"

definition utf16EncodeCodePoint :: "nat \<Rightarrow> jsstring" where
  "utf16EncodeCodePoint cp =
     (if 0x10000 \<le> cp \<and> cp < 0x110000
      then [(cp - 0x10000) div 0x400 + 0xD800, (cp - 0x10000) mod 0x400 + 0xDC00]
      else [cp])"

definition codePointsToString :: "nat list \<Rightarrow> jsstring" where
  "codePointsToString cps = concat (map utf16EncodeCodePoint cps)"

subsection \<open>Case conversion\<close>

text \<open>
  \<open>String.prototype.toLowerCase\<close> converts the code points of the string with the
  locale-insensitive lowercase mapping of the Unicode Character Database: the simple
  mappings of \<open>UnicodeData.txt\<close>, the one unconditional special mapping of
  \<open>SpecialCasing.txt\<close> that lengthens the text (U+0130 becomes U+0069 U+0307), and the
  capital sigma U+03A3, which becomes the final sigma U+03C2 in the context
  \<open>Final_Sigma\<close> and the small sigma U+03C3 elsewhere.

  The tables below are those of Unicode 14.0 (Unicode 15.0 has the same lowercase
  mappings). \<open>LOWERCASE\<close> lists every code point with a simple lowercase mapping other
  than itself, apart from U+0130 and U+03A3, as runs \<open>(lo, hi, step, img)\<close> in
  ascending order: the code points \<open>lo\<close>, \<open>lo + step\<close>, ... up to \<open>hi\<close> map to \<open>img\<close>,
  \<open>img + step\<close>, ... \<open>CASE_IGNORABLE\<close> lists the code points with the property
  \<open>Case_Ignorable\<close> and \<open>CASED\<close> those with the property \<open>Cased\<close> that are not
  case-ignorable, both as ascending runs \<open>(lo, hi)\<close>.
\<close>

definition LOWERCASE :: "(nat \<times> nat \<times> nat \<times> nat) list" where
  "LOWERCASE = [
   (0x0041, 0x005A, 1, 0x0061), (0x00C0, 0x00D6, 1, 0x00E0), (0x00D8, 0x00DE, 1, 0x00F8),
   (0x0100, 0x012E, 2, 0x0101), (0x0132, 0x0136, 2, 0x0133), (0x0139, 0x0147, 2, 0x013A),
   (0x014A, 0x0176, 2, 0x014B), (0x0178, 0x0178, 1, 0x00FF), (0x0179, 0x017D, 2, 0x017A),
   (0x0181, 0x0181, 1, 0x0253), (0x0182, 0x0184, 2, 0x0183), (0x0186, 0x0186, 1, 0x0254),
   (0x0187, 0x0187, 1, 0x0188), (0x0189, 0x018A, 1, 0x0256), (0x018B, 0x018B, 1, 0x018C),
   (0x018E, 0x018E, 1, 0x01DD), (0x018F, 0x018F, 1, 0x0259), (0x0190, 0x0190, 1, 0x025B),
   (0x0191, 0x0191, 1, 0x0192), (0x0193, 0x0193, 1, 0x0260), (0x0194, 0x0194, 1, 0x0263),
   (0x0196, 0x0196, 1, 0x0269), (0x0197, 0x0197, 1, 0x0268), (0x0198, 0x0198, 1, 0x0199),
   (0x019C, 0x019C, 1, 0x026F), (0x019D, 0x019D, 1, 0x0272), (0x019F, 0x019F, 1, 0x0275),
   (0x01A0, 0x01A4, 2, 0x01A1), (0x01A6, 0x01A6, 1, 0x0280), (0x01A7, 0x01A7, 1, 0x01A8),
   (0x01A9, 0x01A9, 1, 0x0283), (0x01AC, 0x01AC, 1, 0x01AD), (0x01AE, 0x01AE, 1, 0x0288),
   (0x01AF, 0x01AF, 1, 0x01B0), (0x01B1, 0x01B2, 1, 0x028A), (0x01B3, 0x01B5, 2, 0x01B4),
   (0x01B7, 0x01B7, 1, 0x0292), (0x01B8, 0x01B8, 1, 0x01B9), (0x01BC, 0x01BC, 1, 0x01BD),
   (0x01C4, 0x01C4, 1, 0x01C6), (0x01C5, 0x01C5, 1, 0x01C6), (0x01C7, 0x01C7, 1, 0x01C9),
   (0x01C8, 0x01C8, 1, 0x01C9), (0x01CA, 0x01CA, 1, 0x01CC), (0x01CB, 0x01DB, 2, 0x01CC),
   (0x01DE, 0x01EE, 2, 0x01DF), (0x01F1, 0x01F1, 1, 0x01F3), (0x01F2, 0x01F4, 2, 0x01F3),
   (0x01F6, 0x01F6, 1, 0x0195), (0x01F7, 0x01F7, 1, 0x01BF), (0x01F8, 0x021E, 2, 0x01F9),
   (0x0220, 0x0220, 1, 0x019E), (0x0222, 0x0232, 2, 0x0223), (0x023A, 0x023A, 1, 0x2C65),
   (0x023B, 0x023B, 1, 0x023C), (0x023D, 0x023D, 1, 0x019A), (0x023E, 0x023E, 1, 0x2C66),
   (0x0241, 0x0241, 1, 0x0242), (0x0243, 0x0243, 1, 0x0180), (0x0244, 0x0244, 1, 0x0289),
   (0x0245, 0x0245, 1, 0x028C), (0x0246, 0x024E, 2, 0x0247), (0x0370, 0x0372, 2, 0x0371),
   (0x0376, 0x0376, 1, 0x0377), (0x037F, 0x037F, 1, 0x03F3), (0x0386, 0x0386, 1, 0x03AC),
   (0x0388, 0x038A, 1, 0x03AD), (0x038C, 0x038C, 1, 0x03CC), (0x038E, 0x038F, 1, 0x03CD),
   (0x0391, 0x03A1, 1, 0x03B1), (0x03A4, 0x03AB, 1, 0x03C4), (0x03CF, 0x03CF, 1, 0x03D7),
   (0x03D8, 0x03EE, 2, 0x03D9), (0x03F4, 0x03F4, 1, 0x03B8), (0x03F7, 0x03F7, 1, 0x03F8),
   (0x03F9, 0x03F9, 1, 0x03F2), (0x03FA, 0x03FA, 1, 0x03FB), (0x03FD, 0x03FF, 1, 0x037B),
   (0x0400, 0x040F, 1, 0x0450), (0x0410, 0x042F, 1, 0x0430), (0x0460, 0x0480, 2, 0x0461),
   (0x048A, 0x04BE, 2, 0x048B), (0x04C0, 0x04C0, 1, 0x04CF), (0x04C1, 0x04CD, 2, 0x04C2),
   (0x04D0, 0x052E, 2, 0x04D1), (0x0531, 0x0556, 1, 0x0561), (0x10A0, 0x10C5, 1, 0x2D00),
   (0x10C7, 0x10C7, 1, 0x2D27), (0x10CD, 0x10CD, 1, 0x2D2D), (0x13A0, 0x13EF, 1, 0xAB70),
   (0x13F0, 0x13F5, 1, 0x13F8), (0x1C90, 0x1CBA, 1, 0x10D0), (0x1CBD, 0x1CBF, 1, 0x10FD),
   (0x1E00, 0x1E94, 2, 0x1E01), (0x1E9E, 0x1E9E, 1, 0x00DF), (0x1EA0, 0x1EFE, 2, 0x1EA1),
   (0x1F08, 0x1F0F, 1, 0x1F00), (0x1F18, 0x1F1D, 1, 0x1F10), (0x1F28, 0x1F2F, 1, 0x1F20),
   (0x1F38, 0x1F3F, 1, 0x1F30), (0x1F48, 0x1F4D, 1, 0x1F40), (0x1F59, 0x1F5F, 2, 0x1F51),
   (0x1F68, 0x1F6F, 1, 0x1F60), (0x1F88, 0x1F8F, 1, 0x1F80), (0x1F98, 0x1F9F, 1, 0x1F90),
   (0x1FA8, 0x1FAF, 1, 0x1FA0), (0x1FB8, 0x1FB9, 1, 0x1FB0), (0x1FBA, 0x1FBB, 1, 0x1F70),
   (0x1FBC, 0x1FBC, 1, 0x1FB3), (0x1FC8, 0x1FCB, 1, 0x1F72), (0x1FCC, 0x1FCC, 1, 0x1FC3),
   (0x1FD8, 0x1FD9, 1, 0x1FD0), (0x1FDA, 0x1FDB, 1, 0x1F76), (0x1FE8, 0x1FE9, 1, 0x1FE0),
   (0x1FEA, 0x1FEB, 1, 0x1F7A), (0x1FEC, 0x1FEC, 1, 0x1FE5), (0x1FF8, 0x1FF9, 1, 0x1F78),
   (0x1FFA, 0x1FFB, 1, 0x1F7C), (0x1FFC, 0x1FFC, 1, 0x1FF3), (0x2126, 0x2126, 1, 0x03C9),
   (0x212A, 0x212A, 1, 0x006B), (0x212B, 0x212B, 1, 0x00E5), (0x2132, 0x2132, 1, 0x214E),
   (0x2160, 0x216F, 1, 0x2170), (0x2183, 0x2183, 1, 0x2184), (0x24B6, 0x24CF, 1, 0x24D0),
   (0x2C00, 0x2C2F, 1, 0x2C30), (0x2C60, 0x2C60, 1, 0x2C61), (0x2C62, 0x2C62, 1, 0x026B),
   (0x2C63, 0x2C63, 1, 0x1D7D), (0x2C64, 0x2C64, 1, 0x027D), (0x2C67, 0x2C6B, 2, 0x2C68),
   (0x2C6D, 0x2C6D, 1, 0x0251), (0x2C6E, 0x2C6E, 1, 0x0271), (0x2C6F, 0x2C6F, 1, 0x0250),
   (0x2C70, 0x2C70, 1, 0x0252), (0x2C72, 0x2C72, 1, 0x2C73), (0x2C75, 0x2C75, 1, 0x2C76),
   (0x2C7E, 0x2C7F, 1, 0x023F), (0x2C80, 0x2CE2, 2, 0x2C81), (0x2CEB, 0x2CED, 2, 0x2CEC),
   (0x2CF2, 0x2CF2, 1, 0x2CF3), (0xA640, 0xA66C, 2, 0xA641), (0xA680, 0xA69A, 2, 0xA681),
   (0xA722, 0xA72E, 2, 0xA723), (0xA732, 0xA76E, 2, 0xA733), (0xA779, 0xA77B, 2, 0xA77A),
   (0xA77D, 0xA77D, 1, 0x1D79), (0xA77E, 0xA786, 2, 0xA77F), (0xA78B, 0xA78B, 1, 0xA78C),
   (0xA78D, 0xA78D, 1, 0x0265), (0xA790, 0xA792, 2, 0xA791), (0xA796, 0xA7A8, 2, 0xA797),
   (0xA7AA, 0xA7AA, 1, 0x0266), (0xA7AB, 0xA7AB, 1, 0x025C), (0xA7AC, 0xA7AC, 1, 0x0261),
   (0xA7AD, 0xA7AD, 1, 0x026C), (0xA7AE, 0xA7AE, 1, 0x026A), (0xA7B0, 0xA7B0, 1, 0x029E),
   (0xA7B1, 0xA7B1, 1, 0x0287), (0xA7B2, 0xA7B2, 1, 0x029D), (0xA7B3, 0xA7B3, 1, 0xAB53),
   (0xA7B4, 0xA7C2, 2, 0xA7B5), (0xA7C4, 0xA7C4, 1, 0xA794), (0xA7C5, 0xA7C5, 1, 0x0282),
   (0xA7C6, 0xA7C6, 1, 0x1D8E), (0xA7C7, 0xA7C9, 2, 0xA7C8), (0xA7D0, 0xA7D0, 1, 0xA7D1),
   (0xA7D6, 0xA7D8, 2, 0xA7D7), (0xA7F5, 0xA7F5, 1, 0xA7F6), (0xFF21, 0xFF3A, 1, 0xFF41),
   (0x10400, 0x10427, 1, 0x10428), (0x104B0, 0x104D3, 1, 0x104D8), (0x10570, 0x1057A, 1, 0x10597),
   (0x1057C, 0x1058A, 1, 0x105A3), (0x1058C, 0x10592, 1, 0x105B3), (0x10594, 0x10595, 1, 0x105BB),
   (0x10C80, 0x10CB2, 1, 0x10CC0), (0x118A0, 0x118BF, 1, 0x118C0), (0x16E40, 0x16E5F, 1, 0x16E60),
   (0x1E900, 0x1E921, 1, 0x1E922)]"

definition CASED :: "(nat \<times> nat) list" where
  "CASED = [
   (0x0041, 0x005A), (0x0061, 0x007A), (0x00AA, 0x00AA), (0x00B5, 0x00B5), (0x00BA, 0x00BA),
   (0x00C0, 0x00D6), (0x00D8, 0x00F6), (0x00F8, 0x01BA), (0x01BC, 0x01BF), (0x01C4, 0x0293),
   (0x0295, 0x02AF), (0x0370, 0x0373), (0x0376, 0x0377), (0x037B, 0x037D), (0x037F, 0x037F),
   (0x0386, 0x0386), (0x0388, 0x038A), (0x038C, 0x038C), (0x038E, 0x03A1), (0x03A3, 0x03F5),
   (0x03F7, 0x0481), (0x048A, 0x052F), (0x0531, 0x0556), (0x0560, 0x0588), (0x10A0, 0x10C5),
   (0x10C7, 0x10C7), (0x10CD, 0x10CD), (0x10D0, 0x10FA), (0x10FD, 0x10FF), (0x13A0, 0x13F5),
   (0x13F8, 0x13FD), (0x1C80, 0x1C88), (0x1C90, 0x1CBA), (0x1CBD, 0x1CBF), (0x1D00, 0x1D2B),
   (0x1D6B, 0x1D77), (0x1D79, 0x1D9A), (0x1E00, 0x1F15), (0x1F18, 0x1F1D), (0x1F20, 0x1F45),
   (0x1F48, 0x1F4D), (0x1F50, 0x1F57), (0x1F59, 0x1F59), (0x1F5B, 0x1F5B), (0x1F5D, 0x1F5D),
   (0x1F5F, 0x1F7D), (0x1F80, 0x1FB4), (0x1FB6, 0x1FBC), (0x1FBE, 0x1FBE), (0x1FC2, 0x1FC4),
   (0x1FC6, 0x1FCC), (0x1FD0, 0x1FD3), (0x1FD6, 0x1FDB), (0x1FE0, 0x1FEC), (0x1FF2, 0x1FF4),
   (0x1FF6, 0x1FFC), (0x2102, 0x2102), (0x2107, 0x2107), (0x210A, 0x2113), (0x2115, 0x2115),
   (0x2119, 0x211D), (0x2124, 0x2124), (0x2126, 0x2126), (0x2128, 0x2128), (0x212A, 0x212D),
   (0x212F, 0x2134), (0x2139, 0x2139), (0x213C, 0x213F), (0x2145, 0x2149), (0x214E, 0x214E),
   (0x2160, 0x217F), (0x2183, 0x2184), (0x24B6, 0x24E9), (0x2C00, 0x2C7B), (0x2C7E, 0x2CE4),
   (0x2CEB, 0x2CEE), (0x2CF2, 0x2CF3), (0x2D00, 0x2D25), (0x2D27, 0x2D27), (0x2D2D, 0x2D2D),
   (0xA640, 0xA66D), (0xA680, 0xA69B), (0xA722, 0xA76F), (0xA771, 0xA787), (0xA78B, 0xA78E),
   (0xA790, 0xA7CA), (0xA7D0, 0xA7D1), (0xA7D3, 0xA7D3), (0xA7D5, 0xA7D9), (0xA7F5, 0xA7F6),
   (0xA7FA, 0xA7FA), (0xAB30, 0xAB5A), (0xAB60, 0xAB68), (0xAB70, 0xABBF), (0xFB00, 0xFB06),
   (0xFB13, 0xFB17), (0xFF21, 0xFF3A), (0xFF41, 0xFF5A), (0x10400, 0x1044F), (0x104B0, 0x104D3),
   (0x104D8, 0x104FB), (0x10570, 0x1057A), (0x1057C, 0x1058A), (0x1058C, 0x10592),
   (0x10594, 0x10595), (0x10597, 0x105A1), (0x105A3, 0x105B1), (0x105B3, 0x105B9),
   (0x105BB, 0x105BC), (0x10C80, 0x10CB2), (0x10CC0, 0x10CF2), (0x118A0, 0x118DF),
   (0x16E40, 0x16E7F), (0x1D400, 0x1D454), (0x1D456, 0x1D49C), (0x1D49E, 0x1D49F),
   (0x1D4A2, 0x1D4A2), (0x1D4A5, 0x1D4A6), (0x1D4A9, 0x1D4AC), (0x1D4AE, 0x1D4B9),
   (0x1D4BB, 0x1D4BB), (0x1D4BD, 0x1D4C3), (0x1D4C5, 0x1D505), (0x1D507, 0x1D50A),
   (0x1D50D, 0x1D514), (0x1D516, 0x1D51C), (0x1D51E, 0x1D539), (0x1D53B, 0x1D53E),
   (0x1D540, 0x1D544), (0x1D546, 0x1D546), (0x1D54A, 0x1D550), (0x1D552, 0x1D6A5),
   (0x1D6A8, 0x1D6C0), (0x1D6C2, 0x1D6DA), (0x1D6DC, 0x1D6FA), (0x1D6FC, 0x1D714),
   (0x1D716, 0x1D734), (0x1D736, 0x1D74E), (0x1D750, 0x1D76E), (0x1D770, 0x1D788),
   (0x1D78A, 0x1D7A8), (0x1D7AA, 0x1D7C2), (0x1D7C4, 0x1D7CB), (0x1DF00, 0x1DF09),
   (0x1DF0B, 0x1DF1E), (0x1E900, 0x1E943), (0x1F130, 0x1F149), (0x1F150, 0x1F169),
   (0x1F170, 0x1F189)]"

definition CASE_IGNORABLE :: "(nat \<times> nat) list" where
  "CASE_IGNORABLE = [
   (0x0027, 0x0027), (0x002E, 0x002E), (0x003A, 0x003A), (0x005E, 0x005E), (0x0060, 0x0060),
   (0x00A8, 0x00A8), (0x00AD, 0x00AD), (0x00AF, 0x00AF), (0x00B4, 0x00B4), (0x00B7, 0x00B8),
   (0x02B0, 0x036F), (0x0374, 0x0375), (0x037A, 0x037A), (0x0384, 0x0385), (0x0387, 0x0387),
   (0x0483, 0x0489), (0x0559, 0x0559), (0x055F, 0x055F), (0x0591, 0x05BD), (0x05BF, 0x05BF),
   (0x05C1, 0x05C2), (0x05C4, 0x05C5), (0x05C7, 0x05C7), (0x05F4, 0x05F4), (0x0600, 0x0605),
   (0x0610, 0x061A), (0x061C, 0x061C), (0x0640, 0x0640), (0x064B, 0x065F), (0x0670, 0x0670),
   (0x06D6, 0x06DD), (0x06DF, 0x06E8), (0x06EA, 0x06ED), (0x070F, 0x070F), (0x0711, 0x0711),
   (0x0730, 0x074A), (0x07A6, 0x07B0), (0x07EB, 0x07F5), (0x07FA, 0x07FA), (0x07FD, 0x07FD),
   (0x0816, 0x082D), (0x0859, 0x085B), (0x0888, 0x0888), (0x0890, 0x0891), (0x0898, 0x089F),
   (0x08C9, 0x0902), (0x093A, 0x093A), (0x093C, 0x093C), (0x0941, 0x0948), (0x094D, 0x094D),
   (0x0951, 0x0957), (0x0962, 0x0963), (0x0971, 0x0971), (0x0981, 0x0981), (0x09BC, 0x09BC),
   (0x09C1, 0x09C4), (0x09CD, 0x09CD), (0x09E2, 0x09E3), (0x09FE, 0x09FE), (0x0A01, 0x0A02),
   (0x0A3C, 0x0A3C), (0x0A41, 0x0A42), (0x0A47, 0x0A48), (0x0A4B, 0x0A4D), (0x0A51, 0x0A51),
   (0x0A70, 0x0A71), (0x0A75, 0x0A75), (0x0A81, 0x0A82), (0x0ABC, 0x0ABC), (0x0AC1, 0x0AC5),
   (0x0AC7, 0x0AC8), (0x0ACD, 0x0ACD), (0x0AE2, 0x0AE3), (0x0AFA, 0x0AFF), (0x0B01, 0x0B01),
   (0x0B3C, 0x0B3C), (0x0B3F, 0x0B3F), (0x0B41, 0x0B44), (0x0B4D, 0x0B4D), (0x0B55, 0x0B56),
   (0x0B62, 0x0B63), (0x0B82, 0x0B82), (0x0BC0, 0x0BC0), (0x0BCD, 0x0BCD), (0x0C00, 0x0C00),
   (0x0C04, 0x0C04), (0x0C3C, 0x0C3C), (0x0C3E, 0x0C40), (0x0C46, 0x0C48), (0x0C4A, 0x0C4D),
   (0x0C55, 0x0C56), (0x0C62, 0x0C63), (0x0C81, 0x0C81), (0x0CBC, 0x0CBC), (0x0CBF, 0x0CBF),
   (0x0CC6, 0x0CC6), (0x0CCC, 0x0CCD), (0x0CE2, 0x0CE3), (0x0D00, 0x0D01), (0x0D3B, 0x0D3C),
   (0x0D41, 0x0D44), (0x0D4D, 0x0D4D), (0x0D62, 0x0D63), (0x0D81, 0x0D81), (0x0DCA, 0x0DCA),
   (0x0DD2, 0x0DD4), (0x0DD6, 0x0DD6), (0x0E31, 0x0E31), (0x0E34, 0x0E3A), (0x0E46, 0x0E4E),
   (0x0EB1, 0x0EB1), (0x0EB4, 0x0EBC), (0x0EC6, 0x0EC6), (0x0EC8, 0x0ECD), (0x0F18, 0x0F19),
   (0x0F35, 0x0F35), (0x0F37, 0x0F37), (0x0F39, 0x0F39), (0x0F71, 0x0F7E), (0x0F80, 0x0F84),
   (0x0F86, 0x0F87), (0x0F8D, 0x0F97), (0x0F99, 0x0FBC), (0x0FC6, 0x0FC6), (0x102D, 0x1030),
   (0x1032, 0x1037), (0x1039, 0x103A), (0x103D, 0x103E), (0x1058, 0x1059), (0x105E, 0x1060),
   (0x1071, 0x1074), (0x1082, 0x1082), (0x1085, 0x1086), (0x108D, 0x108D), (0x109D, 0x109D),
   (0x10FC, 0x10FC), (0x135D, 0x135F), (0x1712, 0x1714), (0x1732, 0x1733), (0x1752, 0x1753),
   (0x1772, 0x1773), (0x17B4, 0x17B5), (0x17B7, 0x17BD), (0x17C6, 0x17C6), (0x17C9, 0x17D3),
   (0x17D7, 0x17D7), (0x17DD, 0x17DD), (0x180B, 0x180F), (0x1843, 0x1843), (0x1885, 0x1886),
   (0x18A9, 0x18A9), (0x1920, 0x1922), (0x1927, 0x1928), (0x1932, 0x1932), (0x1939, 0x193B),
   (0x1A17, 0x1A18), (0x1A1B, 0x1A1B), (0x1A56, 0x1A56), (0x1A58, 0x1A5E), (0x1A60, 0x1A60),
   (0x1A62, 0x1A62), (0x1A65, 0x1A6C), (0x1A73, 0x1A7C), (0x1A7F, 0x1A7F), (0x1AA7, 0x1AA7),
   (0x1AB0, 0x1ACE), (0x1B00, 0x1B03), (0x1B34, 0x1B34), (0x1B36, 0x1B3A), (0x1B3C, 0x1B3C),
   (0x1B42, 0x1B42), (0x1B6B, 0x1B73), (0x1B80, 0x1B81), (0x1BA2, 0x1BA5), (0x1BA8, 0x1BA9),
   (0x1BAB, 0x1BAD), (0x1BE6, 0x1BE6), (0x1BE8, 0x1BE9), (0x1BED, 0x1BED), (0x1BEF, 0x1BF1),
   (0x1C2C, 0x1C33), (0x1C36, 0x1C37), (0x1C78, 0x1C7D), (0x1CD0, 0x1CD2), (0x1CD4, 0x1CE0),
   (0x1CE2, 0x1CE8), (0x1CED, 0x1CED), (0x1CF4, 0x1CF4), (0x1CF8, 0x1CF9), (0x1D2C, 0x1D6A),
   (0x1D78, 0x1D78), (0x1D9B, 0x1DFF), (0x1FBD, 0x1FBD), (0x1FBF, 0x1FC1), (0x1FCD, 0x1FCF),
   (0x1FDD, 0x1FDF), (0x1FED, 0x1FEF), (0x1FFD, 0x1FFE), (0x200B, 0x200F), (0x2018, 0x2019),
   (0x2024, 0x2024), (0x2027, 0x2027), (0x202A, 0x202E), (0x2060, 0x2064), (0x2066, 0x206F),
   (0x2071, 0x2071), (0x207F, 0x207F), (0x2090, 0x209C), (0x20D0, 0x20F0), (0x2C7C, 0x2C7D),
   (0x2CEF, 0x2CF1), (0x2D6F, 0x2D6F), (0x2D7F, 0x2D7F), (0x2DE0, 0x2DFF), (0x2E2F, 0x2E2F),
   (0x3005, 0x3005), (0x302A, 0x302D), (0x3031, 0x3035), (0x303B, 0x303B), (0x3099, 0x309E),
   (0x30FC, 0x30FE), (0xA015, 0xA015), (0xA4F8, 0xA4FD), (0xA60C, 0xA60C), (0xA66F, 0xA672),
   (0xA674, 0xA67D), (0xA67F, 0xA67F), (0xA69C, 0xA69F), (0xA6F0, 0xA6F1), (0xA700, 0xA721),
   (0xA770, 0xA770), (0xA788, 0xA78A), (0xA7F2, 0xA7F4), (0xA7F8, 0xA7F9), (0xA802, 0xA802),
   (0xA806, 0xA806), (0xA80B, 0xA80B), (0xA825, 0xA826), (0xA82C, 0xA82C), (0xA8C4, 0xA8C5),
   (0xA8E0, 0xA8F1), (0xA8FF, 0xA8FF), (0xA926, 0xA92D), (0xA947, 0xA951), (0xA980, 0xA982),
   (0xA9B3, 0xA9B3), (0xA9B6, 0xA9B9), (0xA9BC, 0xA9BD), (0xA9CF, 0xA9CF), (0xA9E5, 0xA9E6),
   (0xAA29, 0xAA2E), (0xAA31, 0xAA32), (0xAA35, 0xAA36), (0xAA43, 0xAA43), (0xAA4C, 0xAA4C),
   (0xAA70, 0xAA70), (0xAA7C, 0xAA7C), (0xAAB0, 0xAAB0), (0xAAB2, 0xAAB4), (0xAAB7, 0xAAB8),
   (0xAABE, 0xAABF), (0xAAC1, 0xAAC1), (0xAADD, 0xAADD), (0xAAEC, 0xAAED), (0xAAF3, 0xAAF4),
   (0xAAF6, 0xAAF6), (0xAB5B, 0xAB5F), (0xAB69, 0xAB6B), (0xABE5, 0xABE5), (0xABE8, 0xABE8),
   (0xABED, 0xABED), (0xFB1E, 0xFB1E), (0xFBB2, 0xFBC2), (0xFE00, 0xFE0F), (0xFE13, 0xFE13),
   (0xFE20, 0xFE2F), (0xFE52, 0xFE52), (0xFE55, 0xFE55), (0xFEFF, 0xFEFF), (0xFF07, 0xFF07),
   (0xFF0E, 0xFF0E), (0xFF1A, 0xFF1A), (0xFF3E, 0xFF3E), (0xFF40, 0xFF40), (0xFF70, 0xFF70),
   (0xFF9E, 0xFF9F), (0xFFE3, 0xFFE3), (0xFFF9, 0xFFFB), (0x101FD, 0x101FD), (0x102E0, 0x102E0),
   (0x10376, 0x1037A), (0x10780, 0x10785), (0x10787, 0x107B0), (0x107B2, 0x107BA),
   (0x10A01, 0x10A03), (0x10A05, 0x10A06), (0x10A0C, 0x10A0F), (0x10A38, 0x10A3A),
   (0x10A3F, 0x10A3F), (0x10AE5, 0x10AE6), (0x10D24, 0x10D27), (0x10EAB, 0x10EAC),
   (0x10F46, 0x10F50), (0x10F82, 0x10F85), (0x11001, 0x11001), (0x11038, 0x11046),
   (0x11070, 0x11070), (0x11073, 0x11074), (0x1107F, 0x11081), (0x110B3, 0x110B6),
   (0x110B9, 0x110BA), (0x110BD, 0x110BD), (0x110C2, 0x110C2), (0x110CD, 0x110CD),
   (0x11100, 0x11102), (0x11127, 0x1112B), (0x1112D, 0x11134), (0x11173, 0x11173),
   (0x11180, 0x11181), (0x111B6, 0x111BE), (0x111C9, 0x111CC), (0x111CF, 0x111CF),
   (0x1122F, 0x11231), (0x11234, 0x11234), (0x11236, 0x11237), (0x1123E, 0x1123E),
   (0x112DF, 0x112DF), (0x112E3, 0x112EA), (0x11300, 0x11301), (0x1133B, 0x1133C),
   (0x11340, 0x11340), (0x11366, 0x1136C), (0x11370, 0x11374), (0x11438, 0x1143F),
   (0x11442, 0x11444), (0x11446, 0x11446), (0x1145E, 0x1145E), (0x114B3, 0x114B8),
   (0x114BA, 0x114BA), (0x114BF, 0x114C0), (0x114C2, 0x114C3), (0x115B2, 0x115B5),
   (0x115BC, 0x115BD), (0x115BF, 0x115C0), (0x115DC, 0x115DD), (0x11633, 0x1163A),
   (0x1163D, 0x1163D), (0x1163F, 0x11640), (0x116AB, 0x116AB), (0x116AD, 0x116AD),
   (0x116B0, 0x116B5), (0x116B7, 0x116B7), (0x1171D, 0x1171F), (0x11722, 0x11725),
   (0x11727, 0x1172B), (0x1182F, 0x11837), (0x11839, 0x1183A), (0x1193B, 0x1193C),
   (0x1193E, 0x1193E), (0x11943, 0x11943), (0x119D4, 0x119D7), (0x119DA, 0x119DB),
   (0x119E0, 0x119E0), (0x11A01, 0x11A0A), (0x11A33, 0x11A38), (0x11A3B, 0x11A3E),
   (0x11A47, 0x11A47), (0x11A51, 0x11A56), (0x11A59, 0x11A5B), (0x11A8A, 0x11A96),
   (0x11A98, 0x11A99), (0x11C30, 0x11C36), (0x11C38, 0x11C3D), (0x11C3F, 0x11C3F),
   (0x11C92, 0x11CA7), (0x11CAA, 0x11CB0), (0x11CB2, 0x11CB3), (0x11CB5, 0x11CB6),
   (0x11D31, 0x11D36), (0x11D3A, 0x11D3A), (0x11D3C, 0x11D3D), (0x11D3F, 0x11D45),
   (0x11D47, 0x11D47), (0x11D90, 0x11D91), (0x11D95, 0x11D95), (0x11D97, 0x11D97),
   (0x11EF3, 0x11EF4), (0x13430, 0x13438), (0x16AF0, 0x16AF4), (0x16B30, 0x16B36),
   (0x16B40, 0x16B43), (0x16F4F, 0x16F4F), (0x16F8F, 0x16F9F), (0x16FE0, 0x16FE1),
   (0x16FE3, 0x16FE4), (0x1AFF0, 0x1AFF3), (0x1AFF5, 0x1AFFB), (0x1AFFD, 0x1AFFE),
   (0x1BC9D, 0x1BC9E), (0x1BCA0, 0x1BCA3), (0x1CF00, 0x1CF2D), (0x1CF30, 0x1CF46),
   (0x1D167, 0x1D169), (0x1D173, 0x1D182), (0x1D185, 0x1D18B), (0x1D1AA, 0x1D1AD),
   (0x1D242, 0x1D244), (0x1DA00, 0x1DA36), (0x1DA3B, 0x1DA6C), (0x1DA75, 0x1DA75),
   (0x1DA84, 0x1DA84), (0x1DA9B, 0x1DA9F), (0x1DAA1, 0x1DAAF), (0x1E000, 0x1E006),
   (0x1E008, 0x1E018), (0x1E01B, 0x1E021), (0x1E023, 0x1E024), (0x1E026, 0x1E02A),
   (0x1E130, 0x1E13D), (0x1E2AE, 0x1E2AE), (0x1E2EC, 0x1E2EF), (0x1E8D0, 0x1E8D6),
   (0x1E944, 0x1E94B), (0x1F3FB, 0x1F3FF), (0xE0001, 0xE0001), (0xE0020, 0xE007F),
   (0xE0100, 0xE01EF)]"

fun lookupRange :: "(nat \<times> nat \<times> nat \<times> nat) list \<Rightarrow> nat \<Rightarrow> nat option" where
  "lookupRange [] cp = None"
| "lookupRange ((lo, hi, step, img) # runs) cp =
     (if cp < lo then None
      else if cp \<le> hi
      then (if (cp - lo) mod step = 0 then Some (img + (cp - lo)) else None)
      else lookupRange runs cp)"

fun inRanges :: "(nat \<times> nat) list \<Rightarrow> nat \<Rightarrow> bool" where
  "inRanges [] cp = False"
| "inRanges ((lo, hi) # runs) cp =
     (if cp < lo then False else if cp \<le> hi then True else inRanges runs cp)"

definition isCased :: "nat \<Rightarrow> bool" where
  "isCased cp = inRanges CASED cp"

definition isCaseIgnorable :: "nat \<Rightarrow> bool" where
  "isCaseIgnorable cp = inRanges CASE_IGNORABLE cp"

text \<open>The lowercase mapping of one code point other than the capital sigma.\<close>

definition toLowerFull :: "nat \<Rightarrow> nat list" where
  "toLowerFull cp =
     (if cp = 0x0130 then [0x0069, 0x0307]
      else case lookupRange LOWERCASE cp of Some img \<Rightarrow> [img] | None \<Rightarrow> [cp])"

text \<open>
  \<open>Final_Sigma\<close>: the sigma is preceded by a cased letter and then any number of
  case-ignorable code points, and is not followed by any number of case-ignorable code
  points and then a cased letter. As in ICU, on which the JavaScript engines rely, the
  case-ignorable code points are skipped first, so a code point counts as a cased letter
  only if it is not case-ignorable. The flag \<open>after\<close> tells whether the text before the
  code point ends with a cased letter and then case-ignorable code points.
\<close>

fun followedByCasedLetter :: "nat list \<Rightarrow> bool" where
  "followedByCasedLetter [] = False"
| "followedByCasedLetter (cp # cps) =
     (if isCaseIgnorable cp then followedByCasedLetter cps else isCased cp)"

definition toLowerAt :: "bool \<Rightarrow> nat \<Rightarrow> nat list \<Rightarrow> nat list" where
  "toLowerAt after cp cps =
     (if cp = 0x03A3
      then [if after \<and> \<not> followedByCasedLetter cps then 0x03C2 else 0x03C3]
      else toLowerFull cp)"

fun unicodeToLowercase :: "bool \<Rightarrow> nat list \<Rightarrow> nat list" where
  "unicodeToLowercase after [] = []"
| "unicodeToLowercase after (cp # cps) =
     toLowerAt after cp cps
     @ unicodeToLowercase (if isCaseIgnorable cp then after else isCased cp) cps"

definition toLowerCase :: "jsstring \<Rightarrow> jsstring" where
  "toLowerCase s = codePointsToString (unicodeToLowercase False (stringToCodePoints s))"

subsection \<open>White space, search and slices\<close>

text \<open>
  The code units that \<open>trim\<close>, \<open>trimEnd\<close> and the regular expression class \<open>\s\<close> treat
  as white space: the ECMAScript WhiteSpace and LineTerminator productions.
\<close>

definition isWhiteSpace :: "jschar \<Rightarrow> bool" where
  "isWhiteSpace c =
     (c = 9 \<or> c = 10 \<or> c = 11 \<or> c = 12 \<or> c = 13 \<or> c = 32 \<or> c = 160 \<or> c = 5760
      \<or> (8192 \<le> c \<and> c \<le> 8202) \<or> c = 8232 \<or> c = 8233 \<or> c = 8239 \<or> c = 8287
      \<or> c = 12288 \<or> c = 65279)"

definition trimStart :: "jsstring \<Rightarrow> jsstring" where
  "trimStart s = dropWhile isWhiteSpace s"

definition trimEnd :: "jsstring \<Rightarrow> jsstring" where
  "trimEnd s = rev (dropWhile isWhiteSpace (rev s))"

definition trim :: "jsstring \<Rightarrow> jsstring" where
  "trim s = trimEnd (trimStart s)"

text \<open>\<open>s.includes(q)\<close>: \<open>q\<close> occurs in \<open>s\<close> as a contiguous run of code units.\<close>

fun startsWith :: "jsstring \<Rightarrow> jsstring \<Rightarrow> bool" where
  "startsWith s [] = True"
| "startsWith [] (q # qs) = False"
| "startsWith (c # s) (q # qs) = (c = q \<and> startsWith s qs)"

fun includes' :: "jsstring \<Rightarrow> jsstring \<Rightarrow> bool" where
  "includes' [] q = (q = [])"
| "includes' (c # s) q = (startsWith (c # s) q \<or> includes' s q)"

text \<open>
  \<open>xs.slice(start, end)\<close> on strings and arrays, for integer arguments: a negative
  index counts from the end, and both indices are clamped to the length.
\<close>

definition slice :: "'a list \<Rightarrow> int \<Rightarrow> int \<Rightarrow> 'a list" where
  "slice xs start end' =
     (let len = int (length xs);
          k = (if start < 0 then max (len + start) 0 else min start len);
          final = (if end' < 0 then max (len + end') 0 else min end' len)
      in take (nat (final - k)) (drop (nat k) xs))"

text \<open>\<open>parts.join(sep)\<close> on an array of strings.\<close>

fun join :: "jsstring list \<Rightarrow> jsstring \<Rightarrow> jsstring" where
  "join [] sep = []"
| "join [x] sep = x"
| "join (x # y # ys) sep = x @ sep @ join (y # ys) sep"

subsection \<open>Auxiliary definitions for the proofs about \<open>toLowerCase\<close>\<close>

text \<open>
  A check on the images \<open>img\<close>, \<open>img + step\<close>, ... up to \<open>end'\<close> of a run of \<open>LOWERCASE\<close>,
  used to show that the image of a lowercase mapping is not mapped again: they are in none
  of the given runs.
\<close>

fun imagesClear :: "nat \<Rightarrow> nat \<Rightarrow> nat \<Rightarrow> (nat \<times> nat \<times> nat \<times> nat) list \<Rightarrow> bool" where
  "imagesClear img end' step [] = True"
| "imagesClear img end' step ((lo2, hi2, step2, img2) # runs) =
     (if hi2 < img then imagesClear img end' step runs
      else if end' < lo2 then imagesClear img end' step runs
      else if step = step2 \<and> img mod step \<noteq> lo2 mod step then imagesClear img end' step runs
      else if img = end' \<and> (img < lo2 \<or> (img - lo2) mod step2 \<noteq> 0)
      then imagesClear img end' step runs
      else False)"

text \<open>
  A list of code points in which no high surrogate is followed by a low surrogate: such a
  list is what \<open>stringToCodePoints\<close> returns, and it is read back from its encoding.
\<close>

fun pairFree :: "nat list \<Rightarrow> bool" where
  "pairFree [] = True"
| "pairFree [cp] = True"
| "pairFree (cp # cq # cps) = (\<not> (isHighSurrogate cp \<and> isLowSurrogate cq) \<and> pairFree (cq # cps))"

text \<open>The white space code units of \<open>isWhiteSpace\<close>, as runs \<open>(lo, hi)\<close>.\<close>

definition WHITE_SPACE :: "(nat \<times> nat) list" where
  "WHITE_SPACE = [(9, 13), (32, 32), (160, 160), (5760, 5760), (8192, 8202), (8232, 8233),
     (8239, 8239), (8287, 8287), (12288, 12288), (65279, 65279)]"

text \<open>
  The code units that need no table to be lowercased: those below U+00C0, where only A to Z
  change, and those of three runs of symbol blocks without case (U+2000 to U+20FF,
  U+2190 to U+245F and U+2500 to U+2BFF; the em dash, the arrows and the check mark of the
  catalogs are there).
\<close>

definition plainUnit :: "jschar \<Rightarrow> bool" where
  "plainUnit c =
     (c < 0xC0 \<or> (0x2000 \<le> c \<and> c \<le> 0x20FF) \<or> (0x2190 \<le> c \<and> c \<le> 0x245F)
      \<or> (0x2500 \<le> c \<and> c \<le> 0x2BFF))"

definition lowerAscii :: "jschar \<Rightarrow> jschar" where
  "lowerAscii c = (if 0x41 \<le> c \<and> c \<le> 0x5A then c + 0x20 else c)"

section \<open>Data model\<close>

text \<open>\<open>shared/categories.ts\<close>: the ten categories, each of which is its own string.\<close>

datatype RuleCategory =
    ModuleStructure | ModuleBoundaries | ModuleCommunication | DataIsolation
  | DependencyManagement | RoutesAndControllers | SharedKernel | TestingStrategy
  | ExternalIntegrations | Migration

fun categoryString :: "RuleCategory \<Rightarrow> jsstring" where
  "categoryString ModuleStructure = str ''module-structure''"
| "categoryString ModuleBoundaries = str ''module-boundaries''"
| "categoryString ModuleCommunication = str ''module-communication''"
| "categoryString DataIsolation = str ''data-isolation''"
| "categoryString DependencyManagement = str ''dependency-management''"
| "categoryString RoutesAndControllers = str ''routes-and-controllers''"
| "categoryString SharedKernel = str ''shared-kernel''"
| "categoryString TestingStrategy = str ''testing-strategy''"
| "categoryString ExternalIntegrations = str ''external-integrations''"
| "categoryString Migration = str ''migration''"

fun CATEGORY_LABELS :: "RuleCategory \<Rightarrow> jsstring" where
  "CATEGORY_LABELS ModuleStructure = str ''Module Structure''"
| "CATEGORY_LABELS ModuleBoundaries = str ''Module Boundaries''"
| "CATEGORY_LABELS ModuleCommunication = str ''Module Communication''"
| "CATEGORY_LABELS DataIsolation = str ''Data Isolation''"
| "CATEGORY_LABELS DependencyManagement = str ''Dependency Management''"
| "CATEGORY_LABELS RoutesAndControllers = str ''Routes & Controllers''"
| "CATEGORY_LABELS SharedKernel = str ''Shared Kernel''"
| "CATEGORY_LABELS TestingStrategy = str ''Testing Strategy''"
| "CATEGORY_LABELS ExternalIntegrations = str ''External Integrations''"
| "CATEGORY_LABELS Migration = str ''Migration & Evolution''"

text \<open>\<open>shared/types.ts\<close>.\<close>

datatype ExampleLabel = Good | Bad

fun labelString :: "ExampleLabel \<Rightarrow> jsstring" where
  "labelString Good = str ''Good''"
| "labelString Bad = str ''Bad''"

record CodeExample =
  label :: ExampleLabel
  language :: jsstring
  code :: jsstring

datatype Relationship = Reinforces | Implements | Extends | Complements

fun relationshipString :: "Relationship \<Rightarrow> jsstring" where
  "relationshipString Reinforces = str ''reinforces''"
| "relationshipString Implements = str ''implements''"
| "relationshipString Extends = str ''extends''"
| "relationshipString Complements = str ''complements''"

record CleanCodeReference =
  principleId :: jsstring
  relationship :: Relationship
  note' :: jsstring

text \<open>
  \<open>rule-catalog/anti-patterns.ts\<close> and \<open>rule-catalog/rules.ts\<close>. An \<open>ArchitectureRule\<close>
  has every field of an \<open>AntiPattern\<close> and two more, \<open>rationale\<close> and the optional
  \<open>source\<close>, so it is the record extension; a function that reads only the common
  fields accepts both.
\<close>

record AntiPattern =
  id' :: jsstring
  name :: jsstring
  category :: RuleCategory
  description :: jsstring
  examples :: "CodeExample list"
  tags :: "jsstring list"
  cleanCodeRefs :: "CleanCodeReference list"

record ArchitectureRule = AntiPattern +
  rationale :: jsstring
  source :: "jsstring option"

section \<open>The static catalogs\<close>

text \<open>
  The array literals \<open>RULES\<close> (\<open>rule-catalog/rules.ts\<close>, 35 entries) and
  \<open>ANTI_PATTERNS\<close> (\<open>rule-catalog/anti-patterns.ts\<close>, 16 entries), one definition for
  each entry, named after its id, in the order of the source. A string of several lines
  (the template literals of the code examples) is written as its lines joined by the line
  feed; the apostrophe (39), the double quote (34), the backslash (92) and the characters
  outside ASCII (the em dash 8212, the arrow 8594, the check mark 10003) are written as
  code units.
\<close>

definition rule_domain_centric_modules :: ArchitectureRule where
  "rule_domain_centric_modules =
     \<lparr> id' = str ''domain-centric-modules'',
       name = str ''Domain-Centric Modules'',
       category = ModuleStructure,
       description =
         str ''Organize modules around business domains, not technical layers. Each module represents a cohesive business capability (e.g. `orders/`, `payments/`, `users/`), not a layer (e.g. `controllers/`, `services/`, `repositories/`).'',
       examples =
         [
           \<lparr> label = Bad, language = str ''text'',
             code =
               join
                [str ''src/'',
                 str ''  controllers/'',
                 str ''    orderController.ts'',
                 str ''    userController.ts'',
                 str ''  services/'',
                 str ''    orderService.ts'',
                 str ''    userService.ts'',
                 str ''  repositories/'',
                 str ''    orderRepository.ts'',
                 str ''    userRepository.ts'']
                [10] \<rparr>,
           \<lparr> label = Good, language = str ''text'',
             code =
               join
                [str ''src/'',
                 str ''  modules/'',
                 str ''    orders/'',
                 str ''      order.service.ts'',
                 str ''      order.repository.ts'',
                 str ''      order.types.ts'',
                 str ''      index.ts'',
                 str ''    users/'',
                 str ''      user.service.ts'',
                 str ''      user.repository.ts'',
                 str ''      user.types.ts'',
                 str ''      index.ts'']
                [10] \<rparr>
         ],
       tags = map str [''module'', ''structure'', ''domain'', ''organization'', ''vertical-slice''],
       cleanCodeRefs =
         [
           \<lparr> principleId = str ''high-cohesion'', relationship = Reinforces,
             note' = str ''Domain-centric modules keep related code together, maximizing cohesion'' \<rparr>,
           \<lparr> principleId = str ''organize-for-change'', relationship = Extends,
             note' = str ''Business changes affect a single module instead of multiple layers'' \<rparr>
         ],
       rationale =
         str ''Domain-centric organization aligns code structure with business understanding. When a business requirement changes, all related code lives in one place instead of being scattered across layers.'',
       source = Some (str ''Kamil Grzybek '' @ [8212] @ str '' Modular Monolith'') \<rparr>"

definition rule_vertical_slice_per_module :: ArchitectureRule where
  "rule_vertical_slice_per_module =
     \<lparr> id' = str ''vertical-slice-per-module'',
       name = str ''Vertical Slice per Module'',
       category = ModuleStructure,
       description =
         str ''Each module should contain all layers needed to fulfill its responsibility: API routes, services, repositories, types, and validation. A module is a self-contained vertical slice through the architecture.'',
       examples =
         [
           \<lparr> label = Good, language = str ''text'',
             code =
               join
                [str ''modules/orders/'',
                 str ''  order.routes.ts       # API layer'',
                 str ''  order.service.ts      # Business logic'',
                 str ''  order.repository.ts   # Data access'',
                 str ''  order.types.ts        # Domain types'',
                 str ''  order.validation.ts   # Input validation'',
                 str ''  index.ts              # Public API'']
                [10] \<rparr>,
           \<lparr> label = Bad, language = str ''text'',
             code =
               join
                [str ''# Module split across layers - no vertical slice'',
                 str ''routes/orders.ts'',
                 str ''services/orders.ts'',
                 str ''models/orders.ts'',
                 str ''# Changes to '' @ [34] @ str ''orders'' @ [34] @ str '' require touching 3+ directories'']
                [10] \<rparr>
         ],
       tags = map str [''module'', ''vertical-slice'', ''structure'', ''layers'', ''self-contained''],
       cleanCodeRefs =
         [
           \<lparr> principleId = str ''single-responsibility-principle'', relationship = Implements,
             note' = str ''Each module has a single business responsibility with all needed layers'' \<rparr>
         ],
       rationale =
         str ''Vertical slices minimize cross-cutting changes. Adding a feature means working within one module directory rather than editing files across the entire project.'',
       source = Some (str ''Jimmy Bogard '' @ [8212] @ str '' Vertical Slice Architecture'') \<rparr>"

definition rule_standard_module_layout :: ArchitectureRule where
  "rule_standard_module_layout =
     \<lparr> id' = str ''standard-module-layout'',
       name = str ''Standard Module Layout'',
       category = ModuleStructure,
       description =
         str ''Every module follows a predictable layout with standard files: service (business logic), repository (data access), types (domain models), validation (input schemas), and index.ts (public API). Consistency across modules reduces cognitive load.'',
       examples =
         [
           \<lparr> label = Good, language = str ''typescript'',
             code =
               join
                [str ''// Standard module layout - every module follows this'',
                 str ''// modules/{name}/'',
                 str ''//   {name}.service.ts     '' @ [8212] @ str '' Business logic'',
                 str ''//   {name}.repository.ts  '' @ [8212] @ str '' Data access'',
                 str ''//   {name}.types.ts       '' @ [8212] @ str '' Domain types & interfaces'',
                 str ''//   {name}.validation.ts  '' @ [8212] @ str '' Zod schemas for input'',
                 str ''//   {name}.routes.ts      '' @ [8212] @ str '' API routes (if applicable)'',
                 str ''//   index.ts              '' @ [8212] @ str '' Public API barrel export'']
                [10] \<rparr>,
           \<lparr> label = Bad, language = str ''text'',
             code =
               join
                [str ''# Inconsistent layouts across modules'',
                 str ''modules/orders/'',
                 str ''  handlers.ts'',
                 str ''  db.ts'',
                 str ''  helpers.ts'',
                 str ''modules/users/'',
                 str ''  userService.ts'',
                 str ''  userModel.ts'',
                 str ''  utils/'',
                 str ''    validate.ts'']
                [10] \<rparr>
         ],
       tags = map str [''module'', ''layout'', ''convention'', ''standard'', ''consistency''],
       cleanCodeRefs =
         [
           \<lparr> principleId = str ''pick-one-word-per-concept'', relationship = Extends,
             note' = str ''Consistent naming across modules '' @ [8212] @ str '' same file names, same patterns'' \<rparr>
         ],
       rationale =
         str ''A standard layout means developers know exactly where to find things in any module. New modules are quick to scaffold and review because the structure is familiar.'',
       source = None \<rparr>"

definition rule_self_contained_initialization :: ArchitectureRule where
  "rule_self_contained_initialization =
     \<lparr> id' = str ''self-contained-initialization'',
       name = str ''Self-Contained Initialization'',
       category = ModuleStructure,
       description =
         str ''Each module handles its own composition and initialization. Services are wired together within the module, not by an external bootstrapper. The module'' @ [39] @ str ''s index.ts creates and exports ready-to-use instances.'',
       examples =
         [
           \<lparr> label = Good, language = str ''typescript'',
             code =
               join
                [str ''// modules/orders/index.ts'',
                 str ''import { OrderService } from '' @ [34] @ str ''./order.service.js'' @ [34] @ str '';'',
                 str ''import { OrderRepository } from '' @ [34] @ str ''./order.repository.js'' @ [34] @ str '';'',
                 str ''import { prisma } from '' @ [34] @ str ''../../shared/prisma.js'' @ [34] @ str '';'',
                 [],
                 str ''const orderRepository = new OrderRepository(prisma);'',
                 str ''export const orderService = new OrderService(orderRepository);'',
                 [],
                 str ''// Public types'',
                 str ''export type { Order, CreateOrderInput } from '' @ [34] @ str ''./order.types.js'' @ [34] @ str '';'']
                [10] \<rparr>,
           \<lparr> label = Bad, language = str ''typescript'',
             code =
               join
                [str ''// app-bootstrap.ts '' @ [8212] @ str '' Centralizes ALL module wiring'',
                 str ''import { OrderService } from '' @ [34] @ str ''./modules/orders/order.service.js'' @ [34] @ str '';'',
                 str ''import { OrderRepository } from '' @ [34] @ str ''./modules/orders/order.repository.js'' @ [34] @ str '';'',
                 str ''import { UserService } from '' @ [34] @ str ''./modules/users/user.service.js'' @ [34] @ str '';'',
                 str ''// ...dozens more imports from module internals'',
                 [],
                 str ''const orderRepo = new OrderRepository(prisma);'',
                 str ''const orderService = new OrderService(orderRepo);'',
                 str ''// Every module'' @ [39] @ str ''s internals exposed to the bootstrapper'']
                [10] \<rparr>
         ],
       tags = map str [''module'', ''initialization'', ''composition'', ''self-contained'', ''bootstrap''],
       cleanCodeRefs =
         [
           \<lparr> principleId = str ''separate-construction-from-use'', relationship = Implements,
             note' = str ''Module separates object construction (index.ts) from use (consumers import the public API)'' \<rparr>,
           \<lparr> principleId = str ''use-dependency-injection'', relationship = Reinforces,
             note' = str ''Dependencies are injected within the module'' @ [39] @ str ''s composition root'' \<rparr>
         ],
       rationale =
         str ''Self-contained initialization means a module can be understood, tested, and replaced without understanding the global setup. It reduces coupling to the application'' @ [39] @ str ''s bootstrap phase.'',
       source = None \<rparr>"

definition rule_define_public_api :: ArchitectureRule where
  "rule_define_public_api =
     \<lparr> id' = str ''define-public-api'',
       name = str ''Define Public API'',
       category = ModuleBoundaries,
       description =
         str ''Every module must expose its public API through an index.ts barrel file. Only types, functions, and instances exported from index.ts are part of the module'' @ [39] @ str ''s contract. Everything else is an implementation detail.'',
       examples =
         [
           \<lparr> label = Good, language = str ''typescript'',
             code =
               join
                [str ''// modules/orders/index.ts '' @ [8212] @ str '' The module'' @ [39] @ str ''s public contract'',
                 str ''export { orderService } from '' @ [34] @ str ''./order.service.js'' @ [34] @ str '';'',
                 str ''export type { Order, CreateOrderInput } from '' @ [34] @ str ''./order.types.js'' @ [34] @ str '';'',
                 str ''export type { OrderService } from '' @ [34] @ str ''./order.service.js'' @ [34] @ str '';'',
                 [],
                 str ''// NOT exported: OrderRepository, internal helpers, DB schemas'']
                [10] \<rparr>,
           \<lparr> label = Bad, language = str ''typescript'',
             code =
               join
                [str ''// No index.ts '' @ [8212] @ str '' consumers import directly from internals'',
                 str ''import { OrderRepository } from '' @ [34] @ str ''../orders/order.repository.js'' @ [34] @ str '';'',
                 str ''import { mapOrderToDTO } from '' @ [34] @ str ''../orders/internal/mappers.js'' @ [34] @ str '';'']
                [10] \<rparr>
         ],
       tags = map str [''boundary'', ''public-api'', ''barrel'', ''index'', ''contract'', ''encapsulation''],
       cleanCodeRefs =
         [
           \<lparr> principleId = str ''data-abstraction'', relationship = Reinforces,
             note' = str ''Public API abstracts module internals '' @ [8212] @ str '' consumers see the interface, not the implementation'' \<rparr>,
           \<lparr> principleId = str ''interface-segregation-principle'', relationship = Implements,
             note' = str ''Module exposes only what consumers need, not everything it contains'' \<rparr>
         ],
       rationale =
         str ''A well-defined public API is the foundation of module boundaries. It makes the contract explicit, enables independent evolution of internals, and prevents accidental coupling.'',
       source = Some (str ''Kamil Grzybek '' @ [8212] @ str '' Modular Monolith'') \<rparr>"

definition rule_hide_implementation_details :: ArchitectureRule where
  "rule_hide_implementation_details =
     \<lparr> id' = str ''hide-implementation-details'',
       name = str ''Hide Implementation Details'',
       category = ModuleBoundaries,
       description =
         str ''Module internals (repositories, mappers, helpers, database schemas) must never be imported directly by other modules. Only the public API surface (index.ts exports) is accessible.'',
       examples =
         [
           \<lparr> label = Bad, language = str ''typescript'',
             code =
               join
                [str ''// Direct import of another module'' @ [39] @ str ''s internal file'',
                 str ''import { OrderRepository } from '' @ [34] @ str ''../orders/order.repository.js'' @ [34] @ str '';'',
                 str ''import { hashPassword } from '' @ [34] @ str ''../users/internal/crypto.js'' @ [34] @ str '';'']
                [10] \<rparr>,
           \<lparr> label = Good, language = str ''typescript'',
             code =
               join
                [str ''// Import only from the module'' @ [39] @ str ''s public API'',
                 str ''import { orderService } from '' @ [34] @ str ''../orders/index.js'' @ [34] @ str '';'',
                 str ''import type { Order } from '' @ [34] @ str ''../orders/index.js'' @ [34] @ str '';'']
                [10] \<rparr>
         ],
       tags = map str [''boundary'', ''encapsulation'', ''implementation'', ''hiding'', ''internal''],
       cleanCodeRefs =
         [
           \<lparr> principleId = str ''law-of-demeter'', relationship = Extends,
             note' = str ''Don'' @ [39] @ str ''t reach into another module'' @ [39] @ str ''s internals '' @ [8212] @ str '' talk to its public API'' \<rparr>,
           \<lparr> principleId = str ''avoid-inappropriate-intimacy'', relationship = Reinforces,
             note' = str ''Modules should not know each other'' @ [39] @ str ''s internal structure'' \<rparr>
         ],
       rationale =
         str ''Hiding implementation details allows modules to refactor freely without breaking consumers. It enforces loose coupling at the architectural level.'',
       source = None \<rparr>"

definition rule_dto_at_boundaries :: ArchitectureRule where
  "rule_dto_at_boundaries =
     \<lparr> id' = str ''dto-at-boundaries'',
       name = str ''DTOs at Boundaries'',
       category = ModuleBoundaries,
       description =
         str ''Use Data Transfer Objects (DTOs) at module boundaries. Never pass internal entities or database models across module boundaries. DTOs represent the contract; internal models can change freely.'',
       examples =
         [
           \<lparr> label = Bad, language = str ''typescript'',
             code =
               join
                [str ''// Exposing Prisma model directly'',
                 str ''export function getOrder(id: string): Promise<PrismaOrder> {'',
                 str ''  return prisma.order.findUnique({ where: { id } });'',
                 str ''}'']
                [10] \<rparr>,
           \<lparr> label = Good, language = str ''typescript'',
             code =
               join
                [str ''// Return a DTO, not the internal model'',
                 str ''export interface OrderDTO {'',
                 str ''  id: string;'',
                 str ''  status: string;'',
                 str ''  totalCents: number;'',
                 str ''  createdAt: string;'',
                 str ''}'',
                 [],
                 str ''export async function getOrder(id: string): Promise<OrderDTO | null> {'',
                 str ''  const order = await prisma.order.findUnique({ where: { id } });'',
                 str ''  return order ? toOrderDTO(order) : null;'',
                 str ''}'']
                [10] \<rparr>
         ],
       tags = map str [''boundary'', ''dto'', ''contract'', ''decoupling'', ''data-transfer''],
       cleanCodeRefs =
         [
           \<lparr> principleId = str ''data-transfer-objects'', relationship = Reinforces,
             note' = str ''DTOs are the right tool for transferring data across module boundaries'' \<rparr>
         ],
       rationale =
         str ''DTOs decouple the module'' @ [39] @ str ''s internal model from its public contract. Internal schema changes don'' @ [39] @ str ''t break consumers as long as the DTO remains stable.'',
       source = None \<rparr>"

definition rule_stable_contracts :: ArchitectureRule where
  "rule_stable_contracts =
     \<lparr> id' = str ''stable-contracts'',
       name = str ''Stable Contracts'',
       category = ModuleBoundaries,
       description =
         str ''Public module contracts (exported types, function signatures) should be stable. Changes to public APIs require versioning or migration strategies. Breaking changes are communicated explicitly.'',
       examples =
         [
           \<lparr> label = Good, language = str ''typescript'',
             code =
               join
                [str ''// Additive change '' @ [8212] @ str '' backwards compatible'',
                 str ''export interface OrderDTO {'',
                 str ''  id: string;'',
                 str ''  status: string;'',
                 str ''  totalCents: number;'',
                 str ''  // New field with optional to avoid breaking consumers'',
                 str ''  currency?: string;'',
                 str ''}'']
                [10] \<rparr>,
           \<lparr> label = Bad, language = str ''typescript'',
             code =
               join
                [str ''// Breaking change '' @ [8212] @ str '' renamed field without migration'',
                 str ''export interface OrderDTO {'',
                 str ''  id: string;'',
                 str ''  status: string;'',
                 str ''  // Was: totalCents, now: amountInCents '' @ [8212] @ str '' breaks all consumers'',
                 str ''  amountInCents: number;'',
                 str ''}'']
                [10] \<rparr>
         ],
       tags = map str [''boundary'', ''contract'', ''stability'', ''versioning'', ''backwards-compatible''],
       cleanCodeRefs =
         [
           \<lparr> principleId = str ''open-closed-principle'', relationship = Implements,
             note' = str ''Module contracts are open for extension (new fields) but closed for modification (no breaking changes)'' \<rparr>
         ],
       rationale =
         str ''Stable contracts allow modules to evolve independently. When a contract must change, explicit versioning prevents silent breakage across the codebase.'',
       source = None \<rparr>"

definition rule_no_direct_module_imports :: ArchitectureRule where
  "rule_no_direct_module_imports =
     \<lparr> id' = str ''no-direct-module-imports'',
       name = str ''No Direct Module Imports'',
       category = ModuleCommunication,
       description =
         str ''Modules NEVER import directly from another module'' @ [39] @ str ''s internal files. All cross-module communication goes through the public API (index.ts). This is the most fundamental boundary rule.'',
       examples =
         [
           \<lparr> label = Bad, language = str ''typescript'',
             code =
               join
                [str ''// VIOLATION: importing internal file from another module'',
                 str ''import { OrderRepository } from '' @ [34] @ str ''../orders/order.repository.js'' @ [34] @ str '';'',
                 str ''import { calculateTotal } from '' @ [34] @ str ''../orders/helpers/pricing.js'' @ [34] @ str '';'']
                [10] \<rparr>,
           \<lparr> label = Good, language = str ''typescript'',
             code =
               join
                [str ''// Correct: import from the module'' @ [39] @ str ''s public API only'',
                 str ''import { orderService, type Order } from '' @ [34] @ str ''../orders/index.js'' @ [34] @ str '';'',
                 [],
                 str ''const order = await orderService.getById(orderId);'']
                [10] \<rparr>
         ],
       tags = map str [''communication'', ''import'', ''boundary'', ''coupling'', ''direct-import''],
       cleanCodeRefs =
         [
           \<lparr> principleId = str ''avoid-inappropriate-intimacy'', relationship = Implements,
             note' = str ''Direct imports are the most common form of inappropriate intimacy between modules'' \<rparr>,
           \<lparr> principleId = str ''dependency-inversion-principle'', relationship = Reinforces,
             note' = str ''Depend on the module'' @ [39] @ str ''s public interface, not its concrete internals'' \<rparr>
         ],
       rationale =
         str ''Direct imports create tight coupling. When module A imports module B'' @ [39] @ str ''s internal file, any refactoring in B can break A. Public APIs provide a stable interface.'',
       source = None \<rparr>"

definition rule_sync_via_service_interface :: ArchitectureRule where
  "rule_sync_via_service_interface =
     \<lparr> id' = str ''sync-via-service-interface'',
       name = str ''Sync via Service Interface'',
       category = ModuleCommunication,
       description =
         str ''When module A needs data from module B synchronously, it calls B'' @ [39] @ str ''s exposed service interface. The service is exported from B'' @ [39] @ str ''s index.ts and used directly. This is appropriate for queries and reads.'',
       examples =
         [
           \<lparr> label = Good, language = str ''typescript'',
             code =
               join
                [str ''// modules/shipping/shipping.service.ts'',
                 str ''import { orderService } from '' @ [34] @ str ''../orders/index.js'' @ [34] @ str '';'',
                 [],
                 str ''export class ShippingService {'',
                 str ''  async calculateShipping(orderId: string) {'',
                 str ''    // Sync call through order module'' @ [39] @ str ''s public API'',
                 str ''    const order = await orderService.getById(orderId);'',
                 str ''    return this.computeRate(order.totalCents, order.address);'',
                 str ''  }'',
                 str ''}'']
                [10] \<rparr>,
           \<lparr> label = Bad, language = str ''typescript'',
             code =
               join
                [str ''// WRONG: querying another module'' @ [39] @ str ''s database directly'',
                 str ''import { prisma } from '' @ [34] @ str ''../../shared/prisma.js'' @ [34] @ str '';'',
                 [],
                 str ''export class ShippingService {'',
                 str ''  async calculateShipping(orderId: string) {'',
                 str ''    const order = await prisma.order.findUnique({ where: { id: orderId } });'',
                 str ''    return this.computeRate(order.totalCents, order.address);'',
                 str ''  }'',
                 str ''}'']
                [10] \<rparr>
         ],
       tags = map str [''communication'', ''sync'', ''service'', ''interface'', ''query''],
       cleanCodeRefs =
         [
           \<lparr> principleId = str ''law-of-demeter'', relationship = Reinforces,
             note' = str ''Talk to the service interface, don'' @ [39] @ str ''t reach through to the database'' \<rparr>
         ],
       rationale =
         str ''Service interfaces provide a clear, typed contract for synchronous communication. They'' @ [39] @ str ''re simple, traceable, and suitable for read operations where immediate response is needed.'',
       source = None \<rparr>"

definition rule_async_via_events :: ArchitectureRule where
  "rule_async_via_events =
     \<lparr> id' = str ''async-via-events'',
       name = str ''Async via Events'',
       category = ModuleCommunication,
       description =
         str ''For operations where module A needs to notify module B without waiting for a response, use an internal event bus. Events are fire-and-forget and enable loose coupling between modules.'',
       examples =
         [
           \<lparr> label = Good, language = str ''typescript'',
             code =
               join
                [str ''// modules/orders/order.service.ts'',
                 str ''import { eventBus } from '' @ [34] @ str ''../../shared/event-bus.js'' @ [34] @ str '';'',
                 [],
                 str ''export class OrderService {'',
                 str ''  async createOrder(input: CreateOrderInput) {'',
                 str ''    const order = await this.repository.create(input);'',
                 [],
                 str ''    // Notify other modules without direct dependency'',
                 str ''    eventBus.emit('' @ [34] @ str ''order.created'' @ [34] @ str '', {'',
                 str ''      orderId: order.id,'',
                 str ''      userId: order.userId,'',
                 str ''      totalCents: order.totalCents,'',
                 str ''    });'',
                 [],
                 str ''    return order;'',
                 str ''  }'',
                 str ''}'',
                 [],
                 str ''// modules/notifications/notification.listener.ts'',
                 str ''eventBus.on('' @ [34] @ str ''order.created'' @ [34] @ str '', async (event) => {'',
                 str ''  await sendOrderConfirmationEmail(event.userId, event.orderId);'',
                 str ''});'']
                [10] \<rparr>,
           \<lparr> label = Bad, language = str ''typescript'',
             code =
               join
                [str ''// WRONG: direct call creates coupling'',
                 str ''import { notificationService } from '' @ [34] @ str ''../notifications/index.js'' @ [34] @ str '';'',
                 str ''import { analyticsService } from '' @ [34] @ str ''../analytics/index.js'' @ [34] @ str '';'',
                 str ''import { inventoryService } from '' @ [34] @ str ''../inventory/index.js'' @ [34] @ str '';'',
                 [],
                 str ''export class OrderService {'',
                 str ''  async createOrder(input: CreateOrderInput) {'',
                 str ''    const order = await this.repository.create(input);'',
                 str ''    // Order module '' @ [34] @ str ''knows'' @ [34] @ str '' about all these modules'',
                 str ''    await notificationService.sendConfirmation(order);'',
                 str ''    await analyticsService.trackPurchase(order);'',
                 str ''    await inventoryService.decrementStock(order);'',
                 str ''    return order;'',
                 str ''  }'',
                 str ''}'']
                [10] \<rparr>
         ],
       tags = map str [''communication'', ''async'', ''events'', ''event-bus'', ''fire-and-forget'', ''decoupling''],
       cleanCodeRefs =
         [
           \<lparr> principleId = str ''open-closed-principle'', relationship = Implements,
             note' = str ''New listeners can be added without modifying the emitting module'' \<rparr>,
           \<lparr> principleId = str ''single-responsibility-principle'', relationship = Reinforces,
             note' = str ''The order module'' @ [39] @ str ''s job is to create orders, not to manage all side effects'' \<rparr>
         ],
       rationale =
         str ''Events decouple the sender from the receiver. Module A doesn'' @ [39] @ str ''t need to know who listens. This is ideal for side effects: sending emails, updating caches, triggering workflows.'',
       source = None \<rparr>"

definition rule_anti_corruption_layer :: ArchitectureRule where
  "rule_anti_corruption_layer =
     \<lparr> id' = str ''anti-corruption-layer'',
       name = str ''Anti-Corruption Layer'',
       category = ModuleCommunication,
       description =
         str ''When integrating with another module or external system whose model differs from yours, introduce an Anti-Corruption Layer (ACL) that translates between the foreign model and your internal model.'',
       examples =
         [
           \<lparr> label = Good, language = str ''typescript'',
             code =
               join
                [str ''// modules/shipping/acl/order-translator.ts'',
                 str ''import type { Order } from '' @ [34] @ str ''../../orders/index.js'' @ [34] @ str '';'',
                 str ''import type { ShippableItem } from '' @ [34] @ str ''../shipping.types.js'' @ [34] @ str '';'',
                 [],
                 str ''// Translates the orders module'' @ [39] @ str ''s model to shipping'' @ [39] @ str ''s model'',
                 str ''export function toShippableItem(order: Order): ShippableItem {'',
                 str ''  return {'',
                 str ''    reference: order.id,'',
                 str ''    weightGrams: order.items.reduce((sum, i) => sum + i.weight, 0),'',
                 str ''    destination: order.shippingAddress,'',
                 str ''  };'',
                 str ''}'']
                [10] \<rparr>,
           \<lparr> label = Bad, language = str ''typescript'',
             code =
               join
                [str ''// Shipping logic uses Order types directly '' @ [8212] @ str '' foreign model leaks in'',
                 str ''export class ShippingService {'',
                 str ''  async ship(order: Order) {'',
                 str ''    // Using order.items[0].product.category '' @ [8212] @ str '' deep coupling'',
                 str ''    if (order.items[0].product.category === '' @ [34] @ str ''fragile'' @ [34] @ str '') {'',
                 str ''      // Shipping knows about product categories'',
                 str ''    }'',
                 str ''  }'',
                 str ''}'']
                [10] \<rparr>
         ],
       tags = map str [''communication'', ''acl'', ''anti-corruption'', ''translation'', ''adapter''],
       cleanCodeRefs =
         [
           \<lparr> principleId = str ''data-abstraction'', relationship = Implements,
             note' = str ''ACL abstracts the foreign model, exposing only what the module needs'' \<rparr>
         ],
       rationale =
         str ''An ACL prevents foreign concepts from leaking into your module. If the external model changes, only the ACL needs updating '' @ [8212] @ str '' your business logic stays clean.'',
       source = Some (str ''Eric Evans '' @ [8212] @ str '' Domain-Driven Design'') \<rparr>"

definition rule_separate_module_data :: ArchitectureRule where
  "rule_separate_module_data =
     \<lparr> id' = str ''separate-module-data'',
       name = str ''Separate Module Data'',
       category = DataIsolation,
       description =
         str ''Each module owns its data. No other module may read or write another module'' @ [39] @ str ''s database tables, collections, or storage directly. Cross-module data access goes through the owning module'' @ [39] @ str ''s service.'',
       examples =
         [
           \<lparr> label = Bad, language = str ''typescript'',
             code =
               join
                [str ''// Shipping module directly queries orders table'',
                 str ''const order = await prisma.order.findUnique({ where: { id: orderId } });'']
                [10] \<rparr>,
           \<lparr> label = Good, language = str ''typescript'',
             code =
               join
                [str ''// Shipping module asks orders module for the data'',
                 str ''import { orderService } from '' @ [34] @ str ''../orders/index.js'' @ [34] @ str '';'',
                 str ''const order = await orderService.getById(orderId);'']
                [10] \<rparr>
         ],
       tags = map str [''data'', ''isolation'', ''ownership'', ''database'', ''separation''],
       cleanCodeRefs =
         [
           \<lparr> principleId = str ''avoid-inappropriate-intimacy'', relationship = Extends,
             note' = str ''Data-level intimacy is the deepest form '' @ [8212] @ str '' modules must not access each other'' @ [39] @ str ''s data stores'' \<rparr>
         ],
       rationale =
         str ''Data ownership is the strongest boundary. When modules share data directly, any schema change can cascade through the system. Service-mediated access provides a stable interface.'',
       source = Some (str ''Sam Newman '' @ [8212] @ str '' Building Microservices'') \<rparr>"

definition rule_no_cross_module_joins :: ArchitectureRule where
  "rule_no_cross_module_joins =
     \<lparr> id' = str ''no-cross-module-joins'',
       name = str ''No Cross-Module Joins'',
       category = DataIsolation,
       description =
         str ''Never perform database JOINs across tables owned by different modules. If you need combined data, query each module'' @ [39] @ str ''s service separately and join in application code.'',
       examples =
         [
           \<lparr> label = Bad, language = str ''typescript'',
             code =
               join
                [str ''// SQL JOIN across module boundaries'',
                 str ''const result = await prisma.$queryRaw`'',
                 str ''  SELECT o.*, u.email'',
                 str ''  FROM orders o'',
                 str ''  JOIN users u ON o.user_id = u.id'',
                 str ''  WHERE o.status = '' @ [39] @ str ''pending'' @ [39],
                 str ''`;'']
                [10] \<rparr>,
           \<lparr> label = Good, language = str ''typescript'',
             code =
               join
                [str ''// Query each module separately, join in code'',
                 str ''const pendingOrders = await orderService.getByStatus('' @ [34] @ str ''pending'' @ [34] @ str '');'',
                 str ''const userIds = [...new Set(pendingOrders.map(o => o.userId))];'',
                 str ''const users = await userService.getByIds(userIds);'',
                 [],
                 str ''const enriched = pendingOrders.map(order => ({'',
                 str ''  ...order,'',
                 str ''  userEmail: users.find(u => u.id === order.userId)?.email,'',
                 str ''}));'']
                [10] \<rparr>
         ],
       tags = map str [''data'', ''join'', ''query'', ''cross-module'', ''database'', ''isolation''],
       cleanCodeRefs =
         [
           \<lparr> principleId = str ''single-responsibility-principle'', relationship = Reinforces,
             note' = str ''Each module manages its own data access '' @ [8212] @ str '' no shared queries'' \<rparr>
         ],
       rationale =
         str ''Cross-module JOINs create invisible coupling at the database level. They break if either module'' @ [39] @ str ''s schema changes and make future module extraction nearly impossible.'',
       source = None \<rparr>"

definition rule_logical_schema_separation :: ArchitectureRule where
  "rule_logical_schema_separation =
     \<lparr> id' = str ''logical-schema-separation'',
       name = str ''Logical Schema Separation'',
       category = DataIsolation,
       description =
         str ''In a monolith with a single database (e.g., Prisma), use logical separation to indicate which module owns which tables. Use naming conventions, schema comments, or separate Prisma schema files per module.'',
       examples =
         [
           \<lparr> label = Good, language = str ''prisma'',
             code =
               join
                [str ''// schema.prisma '' @ [8212] @ str '' Logical separation with comments'',
                 str ''// === MODULE: orders ==='',
                 str ''model Order {'',
                 str ''  id        String   @id @default(uuid())'',
                 str ''  status    String'',
                 str ''  totalCents Int'',
                 str ''  userId    String   // FK reference, not a Prisma relation'',
                 str ''  createdAt DateTime @default(now())'',
                 str ''}'',
                 [],
                 str ''// === MODULE: users ==='',
                 str ''model User {'',
                 str ''  id    String @id @default(uuid())'',
                 str ''  email String @unique'',
                 str ''  name  String'',
                 str ''}'']
                [10] \<rparr>,
           \<lparr> label = Bad, language = str ''prisma'',
             code =
               join
                [str ''// No ownership indication '' @ [8212] @ str '' who owns what?'',
                 str ''model Order {'',
                 str ''  id     String @id'',
                 str ''  user   User   @relation(fields: [userId], references: [id])'',
                 str ''  userId String'',
                 str ''}'',
                 str ''model User {'',
                 str ''  id     String  @id'',
                 str ''  orders Order[] // Bidirectional relation crosses module boundary'',
                 str ''}'']
                [10] \<rparr>
         ],
       tags = map str [''data'', ''schema'', ''prisma'', ''logical-separation'', ''naming''],
       cleanCodeRefs =
         [
           \<lparr> principleId = str ''use-intention-revealing-names'', relationship = Reinforces,
             note' = str ''Schema comments and naming conventions reveal data ownership'' \<rparr>
         ],
       rationale =
         str ''Even with a shared database, logical ownership makes it clear who is responsible for what. This prepares the system for future extraction if needed.'',
       source = None \<rparr>"

definition rule_data_ownership_principle :: ArchitectureRule where
  "rule_data_ownership_principle =
     \<lparr> id' = str ''data-ownership-principle'',
       name = str ''Data Ownership Principle'',
       category = DataIsolation,
       description =
         str ''The module that creates the data is responsible for its entire lifecycle: creation, reads, updates, deletion, and validation. Other modules request operations through the owning module'' @ [39] @ str ''s service.'',
       examples =
         [
           \<lparr> label = Good, language = str ''typescript'',
             code =
               join
                [str ''// Only the users module can create/update/delete users'',
                 str ''// modules/users/user.service.ts'',
                 str ''export class UserService {'',
                 str ''  async create(input: CreateUserInput): Promise<UserDTO> { /* ... */ }'',
                 str ''  async update(id: string, input: UpdateUserInput): Promise<UserDTO> { /* ... */ }'',
                 str ''  async deactivate(id: string): Promise<void> { /* ... */ }'',
                 str ''}'',
                 [],
                 str ''// Other modules call the service '' @ [8212] @ str '' never write to user tables directly'']
                [10] \<rparr>,
           \<lparr> label = Bad, language = str ''typescript'',
             code =
               join
                [str ''// Admin module directly updates user table'',
                 str ''// modules/admin/admin.service.ts'',
                 str ''async deactivateUser(userId: string) {'',
                 str ''  await prisma.user.update({'',
                 str ''    where: { id: userId },'',
                 str ''    data: { active: false },'',
                 str ''  });'',
                 str ''}'']
                [10] \<rparr>
         ],
       tags = map str [''data'', ''ownership'', ''lifecycle'', ''crud'', ''source-of-truth''],
       cleanCodeRefs =
         [
           \<lparr> principleId = str ''single-responsibility-principle'', relationship = Reinforces,
             note' = str ''One module responsible for each data entity'' @ [39] @ str ''s lifecycle'' \<rparr>
         ],
       rationale =
         str ''Clear ownership prevents conflicting writes, inconsistent validation, and orphaned data. One module is the source of truth for each piece of data.'',
       source = None \<rparr>"

definition rule_acyclic_dependency_graph :: ArchitectureRule where
  "rule_acyclic_dependency_graph =
     \<lparr> id' = str ''acyclic-dependency-graph'',
       name = str ''Acyclic Dependency Graph'',
       category = DependencyManagement,
       description =
         str ''The module dependency graph must be a Directed Acyclic Graph (DAG). No circular dependencies between modules. If A depends on B, B must never depend on A (directly or transitively).'',
       examples =
         [
           \<lparr> label = Bad, language = str ''typescript'',
             code =
               join
                [str ''// Circular: orders '' @ [8594] @ str '' users '' @ [8594] @ str '' orders'',
                 str ''// modules/orders/order.service.ts'',
                 str ''import { userService } from '' @ [34] @ str ''../users/index.js'' @ [34] @ str '';'',
                 [],
                 str ''// modules/users/user.service.ts'',
                 str ''import { orderService } from '' @ [34] @ str ''../orders/index.js'' @ [34] @ str ''; // CYCLE!'']
                [10] \<rparr>,
           \<lparr> label = Good, language = str ''typescript'',
             code =
               join
                [str ''// Break cycle with events or a shared interface'',
                 str ''// modules/orders/order.service.ts'',
                 str ''import { userService } from '' @ [34] @ str ''../users/index.js'' @ [34] @ str ''; // OK: one direction'',
                 [],
                 str ''// modules/users/user.service.ts'',
                 str ''// Does NOT import from orders. Uses events instead:'',
                 str ''eventBus.on('' @ [34] @ str ''order.created'' @ [34] @ str '', async ({ userId }) => {'',
                 str ''  await userService.incrementOrderCount(userId);'',
                 str ''});'']
                [10] \<rparr>
         ],
       tags = map str [''dependency'', ''acyclic'', ''dag'', ''circular'', ''graph'', ''cycle''],
       cleanCodeRefs =
         [
           \<lparr> principleId = str ''dependency-inversion-principle'', relationship = Implements,
             note' = str ''Break cycles by depending on abstractions (interfaces/events) instead of concrete modules'' \<rparr>
         ],
       rationale =
         str ''Circular dependencies make modules impossible to understand, test, or extract independently. They indicate unclear boundaries that need redesigning.'',
       source = Some (str ''Robert C. Martin '' @ [8212] @ str '' Clean Architecture'') \<rparr>"

definition rule_depend_on_abstractions :: ArchitectureRule where
  "rule_depend_on_abstractions =
     \<lparr> id' = str ''depend-on-abstractions'',
       name = str ''Depend on Abstractions'',
       category = DependencyManagement,
       description =
         str ''Modules should depend on interfaces and types, not concrete implementations. When a module needs capability from another module, depend on the exported interface, not the concrete class.'',
       examples =
         [
           \<lparr> label = Good, language = str ''typescript'',
             code =
               join
                [str ''// modules/orders/order.types.ts'',
                 str ''export interface PaymentGateway {'',
                 str ''  charge(amount: number, currency: string): Promise<PaymentResult>;'',
                 str ''}'',
                 [],
                 str ''// modules/orders/order.service.ts'',
                 str ''export class OrderService {'',
                 str ''  constructor(private payment: PaymentGateway) {}'',
                 str ''}'',
                 [],
                 str ''// modules/payments/index.ts exports the implementation'',
                 str ''export const paymentGateway: PaymentGateway = new StripePayment();'']
                [10] \<rparr>,
           \<lparr> label = Bad, language = str ''typescript'',
             code =
               join
                [str ''// Direct dependency on concrete class'',
                 str ''import { StripePayment } from '' @ [34] @ str ''../payments/stripe-payment.js'' @ [34] @ str '';'',
                 [],
                 str ''export class OrderService {'',
                 str ''  private payment = new StripePayment(); // Tight coupling'',
                 str ''}'']
                [10] \<rparr>
         ],
       tags = map str [''dependency'', ''abstraction'', ''interface'', ''coupling'', ''inversion''],
       cleanCodeRefs =
         [
           \<lparr> principleId = str ''dependency-inversion-principle'', relationship = Reinforces,
             note' = str ''High-level modules should not depend on low-level modules '' @ [8212] @ str '' both depend on abstractions'' \<rparr>,
           \<lparr> principleId = str ''open-closed-principle'', relationship = Complements,
             note' = str ''Abstraction-based deps allow extending behavior without modifying the consumer'' \<rparr>
         ],
       rationale =
         str ''Depending on abstractions allows swapping implementations without changing consumers. It enables testing with mocks and reduces coupling between modules.'',
       source = None \<rparr>"

definition rule_dependency_direction :: ArchitectureRule where
  "rule_dependency_direction =
     \<lparr> id' = str ''dependency-direction'',
       name = str ''Dependency Direction'',
       category = DependencyManagement,
       description =
         str ''Dependencies should flow in one direction: infrastructure '' @ [8594] @ str '' application '' @ [8594] @ str '' domain. Higher-level modules (domain) should never depend on lower-level modules (infrastructure).'',
       examples =
         [
           \<lparr> label = Good, language = str ''text'',
             code =
               join
                [str ''Dependency flow:'',
                 str ''  Routes (infra) '' @ [8594] @ str '' Service (app) '' @ [8594] @ str '' Types/Interfaces (domain)'',
                 str ''  Repository (infra) '' @ [8594] @ str '' implements '' @ [8594] @ str '' RepositoryInterface (domain)'',
                 [],
                 str ''Domain layer has ZERO external dependencies.'']
                [10] \<rparr>,
           \<lparr> label = Bad, language = str ''typescript'',
             code =
               join
                [str ''// Domain type depending on infrastructure'',
                 str ''import { PrismaClient } from '' @ [34] @ str ''@prisma/client'' @ [34] @ str ''; // WRONG in domain layer'',
                 [],
                 str ''export interface Order {'',
                 str ''  prismaModel: PrismaClient; // Infrastructure leaking into domain'',
                 str ''}'']
                [10] \<rparr>
         ],
       tags = map str [''dependency'', ''direction'', ''flow'', ''layers'', ''domain'', ''infrastructure''],
       cleanCodeRefs =
         [
           \<lparr> principleId = str ''separate-construction-from-use'', relationship = Complements,
             note' = str ''Infrastructure is constructed and injected '' @ [8212] @ str '' domain uses abstractions'' \<rparr>
         ],
       rationale =
         str ''Unidirectional dependency flow makes the system predictable. Domain logic stays pure and testable, free from infrastructure concerns.'',
       source = Some (str ''Robert C. Martin '' @ [8212] @ str '' Clean Architecture'') \<rparr>"

definition rule_thin_routes :: ArchitectureRule where
  "rule_thin_routes =
     \<lparr> id' = str ''thin-routes'',
       name = str ''Thin Routes'',
       category = RoutesAndControllers,
       description =
         str ''Route handlers should be thin: validate input, call the service, return response. No business logic, no direct database access, no complex transformations in the route.'',
       examples =
         [
           \<lparr> label = Good, language = str ''typescript'',
             code =
               join
                [str ''// Thin route: validate '' @ [8594] @ str '' call service '' @ [8594] @ str '' respond'',
                 str ''app.post('' @ [34] @ str ''/orders'' @ [34] @ str '', async (req, res) => {'',
                 str ''  const input = createOrderSchema.parse(req.body);'',
                 str ''  const order = await orderService.create(input);'',
                 str ''  res.status(201).json(order);'',
                 str ''});'']
                [10] \<rparr>,
           \<lparr> label = Bad, language = str ''typescript'',
             code =
               join
                [str ''// Fat route: business logic inside the handler'',
                 str ''app.post('' @ [34] @ str ''/orders'' @ [34] @ str '', async (req, res) => {'',
                 str ''  const { items, userId } = req.body;'',
                 str ''  // Business logic that belongs in service:'',
                 str ''  const total = items.reduce((sum, i) => sum + i.price * i.qty, 0);'',
                 str ''  if (total > 10000) {'',
                 str ''    await sendHighValueAlert(userId);'',
                 str ''  }'',
                 str ''  const order = await prisma.order.create({'',
                 str ''    data: { items, userId, total, status: '' @ [34] @ str ''pending'' @ [34] @ str '' },'',
                 str ''  });'',
                 str ''  await prisma.user.update({'',
                 str ''    where: { id: userId },'',
                 str ''    data: { lastOrderAt: new Date() },'',
                 str ''  });'',
                 str ''  res.json(order);'',
                 str ''});'']
                [10] \<rparr>
         ],
       tags = map str [''route'', ''controller'', ''thin'', ''handler'', ''api'', ''validation''],
       cleanCodeRefs =
         [
           \<lparr> principleId = str ''do-one-thing'', relationship = Implements,
             note' = str ''A thin route does one thing: bridge HTTP to the service layer'' \<rparr>,
           \<lparr> principleId = str ''keep-functions-small'', relationship = Reinforces,
             note' = str ''Routes stay small when business logic lives in services'' \<rparr>
         ],
       rationale =
         str ''Thin routes keep the API layer as a simple adapter. Business logic in services is reusable and testable; business logic in routes is neither.'',
       source = None \<rparr>"

definition rule_one_route_one_module :: ArchitectureRule where
  "rule_one_route_one_module =
     \<lparr> id' = str ''one-route-one-module'',
       name = str ''One Route, One Module'',
       category = RoutesAndControllers,
       description =
         str ''Each route belongs to exactly one module. A route file lives within its module directory and only calls that module'' @ [39] @ str ''s service. Cross-module operations are handled by the service, not the route.'',
       examples =
         [
           \<lparr> label = Good, language = str ''typescript'',
             code =
               join
                [str ''// modules/orders/order.routes.ts'',
                 str ''// Only calls orderService '' @ [8212] @ str '' belongs to orders module'',
                 str ''app.get('' @ [34] @ str ''/orders/:id'' @ [34] @ str '', async (req, res) => {'',
                 str ''  const order = await orderService.getById(req.params.id);'',
                 str ''  res.json(order);'',
                 str ''});'']
                [10] \<rparr>,
           \<lparr> label = Bad, language = str ''typescript'',
             code =
               join
                [str ''// Route importing from multiple modules directly'',
                 str ''import { orderService } from '' @ [34] @ str ''../orders/index.js'' @ [34] @ str '';'',
                 str ''import { userService } from '' @ [34] @ str ''../users/index.js'' @ [34] @ str '';'',
                 str ''import { paymentService } from '' @ [34] @ str ''../payments/index.js'' @ [34] @ str '';'',
                 [],
                 str ''app.post('' @ [34] @ str ''/checkout'' @ [34] @ str '', async (req, res) => {'',
                 str ''  const user = await userService.getById(req.body.userId);'',
                 str ''  const order = await orderService.create(req.body);'',
                 str ''  await paymentService.charge(order.totalCents);'',
                 str ''  res.json({ order });'',
                 str ''});'',
                 str ''// This '' @ [34] @ str ''checkout'' @ [34] @ str '' route belongs to no specific module'']
                [10] \<rparr>
         ],
       tags = map str [''route'', ''module'', ''ownership'', ''api'', ''single''],
       cleanCodeRefs =
         [
           \<lparr> principleId = str ''single-responsibility-principle'', relationship = Implements,
             note' = str ''Each route file has one reason to change '' @ [8212] @ str '' its owning module'' @ [39] @ str ''s requirements'' \<rparr>
         ],
       rationale =
         str ''When routes belong to one module, the API surface is clear. It prevents routes from becoming orchestrators that couple multiple modules together.'',
       source = None \<rparr>"

definition rule_request_validation_at_edge :: ArchitectureRule where
  "rule_request_validation_at_edge =
     \<lparr> id' = str ''request-validation-at-edge'',
       name = str ''Request Validation at Edge'',
       category = RoutesAndControllers,
       description =
         str ''Validate request input at the route/controller level (the edge), not deep inside services. Use Zod schemas or similar to validate and parse input before passing it to the service.'',
       examples =
         [
           \<lparr> label = Good, language = str ''typescript'',
             code =
               join
                [str ''// Validation at the edge with Zod'',
                 str ''import { createOrderSchema } from '' @ [34] @ str ''./order.validation.js'' @ [34] @ str '';'',
                 [],
                 str ''app.post('' @ [34] @ str ''/orders'' @ [34] @ str '', async (req, res) => {'',
                 str ''  const input = createOrderSchema.parse(req.body); // Validated & typed'',
                 str ''  const order = await orderService.create(input);   // Service trusts input'',
                 str ''  res.status(201).json(order);'',
                 str ''});'']
                [10] \<rparr>,
           \<lparr> label = Bad, language = str ''typescript'',
             code =
               join
                [str ''// Validation buried inside the service'',
                 str ''export class OrderService {'',
                 str ''  async create(rawBody: unknown) {'',
                 str ''    if (!rawBody || typeof rawBody !== '' @ [34] @ str ''object'' @ [34] @ str '') throw new Error('' @ [34] @ str ''Invalid'' @ [34] @ str '');'',
                 str ''    const { items } = rawBody as any;'',
                 str ''    if (!Array.isArray(items)) throw new Error('' @ [34] @ str ''Items required'' @ [34] @ str '');'',
                 str ''    // Mixing validation with business logic'',
                 str ''  }'',
                 str ''}'']
                [10] \<rparr>
         ],
       tags = map str [''route'', ''validation'', ''edge'', ''zod'', ''input'', ''parsing''],
       cleanCodeRefs =
         [
           \<lparr> principleId = str ''single-responsibility-principle'', relationship = Reinforces,
             note' = str ''Routes validate input; services handle business logic'' \<rparr>,
           \<lparr> principleId = str ''prefer-exceptions-to-error-codes'', relationship = Complements,
             note' = str ''Zod throws on invalid input '' @ [8212] @ str '' clean exception-based validation'' \<rparr>
         ],
       rationale =
         str ''Validating at the edge means services receive trusted, typed data. It separates HTTP concerns (parsing, validation) from business logic (processing).'',
       source = None \<rparr>"

definition rule_minimal_shared_code :: ArchitectureRule where
  "rule_minimal_shared_code =
     \<lparr> id' = str ''minimal-shared-code'',
       name = str ''Minimal Shared Code'',
       category = SharedKernel,
       description =
         str ''The shared kernel (code used by multiple modules) should be minimal and extremely stable. Limit it to: logger, database client, event bus, base types, and configuration. Nothing else.'',
       examples =
         [
           \<lparr> label = Good, language = str ''text'',
             code =
               join
                [str ''shared/'',
                 str ''  prisma.ts       # Database client instance'',
                 str ''  event-bus.ts    # Internal event bus'',
                 str ''  logger.ts       # Application logger'',
                 str ''  errors.ts       # Base error classes'',
                 str ''  types.ts        # Truly shared types (Pagination, Result)'']
                [10] \<rparr>,
           \<lparr> label = Bad, language = str ''text'',
             code =
               join
                [str ''shared/'',
                 str ''  prisma.ts'',
                 str ''  logger.ts'',
                 str ''  email-sender.ts       # Should be in notifications module'',
                 str ''  price-calculator.ts   # Should be in orders module'',
                 str ''  date-utils.ts         # Should be duplicated or in a lib'',
                 str ''  api-client.ts         # Should be in integrations module'',
                 str ''  validators/           # Each module should own its validation'']
                [10] \<rparr>
         ],
       tags = map str [''shared'', ''kernel'', ''minimal'', ''coupling'', ''common''],
       cleanCodeRefs =
         [
           \<lparr> principleId = str ''classes-should-be-small'', relationship = Extends,
             note' = str ''Like classes, the shared kernel should be small '' @ [8212] @ str '' only the essentials'' \<rparr>
         ],
       rationale =
         str ''Every piece of shared code is a coupling point. The more you share, the harder it is to change anything. A minimal kernel means minimal coupling.'',
       source = Some (str ''Eric Evans '' @ [8212] @ str '' Domain-Driven Design'') \<rparr>"

definition rule_prefer_duplication_over_coupling :: ArchitectureRule where
  "rule_prefer_duplication_over_coupling =
     \<lparr> id' = str ''prefer-duplication-over-coupling'',
       name = str ''Prefer Duplication over Coupling'',
       category = SharedKernel,
       description =
         str ''When two modules need similar code, prefer duplicating it in each module rather than extracting it to shared. Coupling between modules is more expensive than local duplication.'',
       examples =
         [
           \<lparr> label = Good, language = str ''typescript'',
             code =
               join
                [str ''// modules/orders/order.validation.ts'',
                 str ''const emailSchema = z.string().email();'',
                 [],
                 str ''// modules/users/user.validation.ts'',
                 str ''const emailSchema = z.string().email();'',
                 str ''// Same code, but each module can evolve independently'']
                [10] \<rparr>,
           \<lparr> label = Bad, language = str ''typescript'',
             code =
               join
                [str ''// shared/validators.ts '' @ [8212] @ str '' Forces coupling'',
                 str ''export const emailSchema = z.string().email().min(5);'',
                 str ''// Change here breaks BOTH orders and users'',
                 str ''// What if orders needs .min(3) but users needs .min(5)?'']
                [10] \<rparr>
         ],
       tags = map str [''shared'', ''duplication'', ''coupling'', ''dry'', ''independence''],
       cleanCodeRefs =
         [
           \<lparr> principleId = str ''dry-principle'', relationship = Complements,
             note' = str ''DRY applies within a module. Across modules, controlled duplication is preferred over coupling'' \<rparr>
         ],
       rationale =
         str ''Duplication is a local problem; coupling is a global problem. Two modules with similar validation code can evolve independently. Shared code forces them to change in lockstep.'',
       source = Some (str ''Sandi Metz '' @ [8212] @ str '' The Wrong Abstraction'') \<rparr>"

definition rule_shared_types_only :: ArchitectureRule where
  "rule_shared_types_only =
     \<lparr> id' = str ''shared-types-only'',
       name = str ''Shared Types Only'',
       category = SharedKernel,
       description =
         str ''The shared kernel should contain only types, interfaces, and constants '' @ [8212] @ str '' never implementations. If you need shared behavior, use dependency injection or events instead of shared code.'',
       examples =
         [
           \<lparr> label = Good, language = str ''typescript'',
             code =
               join
                [str ''// shared/types.ts '' @ [8212] @ str '' Types only, no implementation'',
                 str ''export interface Paginated<T> {'',
                 str ''  items: T[];'',
                 str ''  total: number;'',
                 str ''  page: number;'',
                 str ''  pageSize: number;'',
                 str ''}'',
                 [],
                 str ''export interface Result<T, E = Error> {'',
                 str ''  ok: boolean;'',
                 str ''  data?: T;'',
                 str ''  error?: E;'',
                 str ''}'']
                [10] \<rparr>,
           \<lparr> label = Bad, language = str ''typescript'',
             code =
               join
                [str ''// shared/pagination.ts '' @ [8212] @ str '' Implementation in shared kernel'',
                 str ''export function paginate<T>(items: T[], page: number, size: number): Paginated<T> {'',
                 str ''  const start = (page - 1) * size;'',
                 str ''  return {'',
                 str ''    items: items.slice(start, start + size),'',
                 str ''    total: items.length,'',
                 str ''    page,'',
                 str ''    pageSize: size,'',
                 str ''  };'',
                 str ''}'']
                [10] \<rparr>
         ],
       tags = map str [''shared'', ''types'', ''interface'', ''implementation'', ''kernel''],
       cleanCodeRefs =
         [
           \<lparr> principleId = str ''interface-segregation-principle'', relationship = Reinforces,
             note' = str ''Share only the minimal interface needed '' @ [8212] @ str '' types are inherently segregated'' \<rparr>
         ],
       rationale =
         str ''Types are the safest thing to share because they have no behavior. Shared implementations create coupling and make it hard to reason about which module controls which behavior.'',
       source = None \<rparr>"

definition rule_test_module_in_isolation :: ArchitectureRule where
  "rule_test_module_in_isolation =
     \<lparr> id' = str ''test-module-in-isolation'',
       name = str ''Test Module in Isolation'',
       category = TestingStrategy,
       description =
         str ''Each module should be testable independently. Unit tests for a module should not require other modules to be running or initialized. Mock external dependencies.'',
       examples =
         [
           \<lparr> label = Good, language = str ''typescript'',
             code =
               join
                [str ''// Test order service in isolation'',
                 str ''describe('' @ [34] @ str ''OrderService'' @ [34] @ str '', () => {'',
                 str ''  const mockRepo = { create: vi.fn(), getById: vi.fn() };'',
                 str ''  const service = new OrderService(mockRepo);'',
                 [],
                 str ''  it('' @ [34] @ str ''creates an order'' @ [34] @ str '', async () => {'',
                 str ''    mockRepo.create.mockResolvedValue({ id: '' @ [34] @ str ''1'' @ [34] @ str '', status: '' @ [34] @ str ''pending'' @ [34] @ str '' });'',
                 str ''    const result = await service.create({ items: [], userId: '' @ [34] @ str ''u1'' @ [34] @ str '' });'',
                 str ''    expect(result.status).toBe('' @ [34] @ str ''pending'' @ [34] @ str '');'',
                 str ''  });'',
                 str ''});'']
                [10] \<rparr>,
           \<lparr> label = Bad, language = str ''typescript'',
             code =
               join
                [str ''// Test requires REAL database and other modules'',
                 str ''describe('' @ [34] @ str ''OrderService'' @ [34] @ str '', () => {'',
                 str ''  it('' @ [34] @ str ''creates an order'' @ [34] @ str '', async () => {'',
                 str ''    // Needs real user in database'',
                 str ''    await prisma.user.create({ data: { id: '' @ [34] @ str ''u1'' @ [34] @ str '', email: '' @ [34] @ str ''a@b.com'' @ [34] @ str '' } });'',
                 str ''    // Needs payment module running'',
                 str ''    const result = await orderService.create({ items: [], userId: '' @ [34] @ str ''u1'' @ [34] @ str '' });'',
                 str ''  });'',
                 str ''});'']
                [10] \<rparr>
         ],
       tags = map str [''testing'', ''isolation'', ''unit-test'', ''mock'', ''independent''],
       cleanCodeRefs =
         [
           \<lparr> principleId = str ''independent-tests'', relationship = Extends,
             note' = str ''Module-level isolation ensures tests are independent of other modules'' \<rparr>,
           \<lparr> principleId = str ''fast-tests'', relationship = Reinforces,
             note' = str ''Isolated module tests with mocks run fast'' \<rparr>
         ],
       rationale =
         str ''Isolated tests are fast, reliable, and pinpoint failures precisely. If testing one module requires another, the modules are too coupled.'',
       source = None \<rparr>"

definition rule_contract_tests_at_boundaries :: ArchitectureRule where
  "rule_contract_tests_at_boundaries =
     \<lparr> id' = str ''contract-tests-at-boundaries'',
       name = str ''Contract Tests at Boundaries'',
       category = TestingStrategy,
       description =
         str ''Test the module'' @ [39] @ str ''s public API (contract) rather than its internal implementation. Tests should exercise the exported functions and verify the expected DTOs.'',
       examples =
         [
           \<lparr> label = Good, language = str ''typescript'',
             code =
               join
                [str ''// Test the public API contract'',
                 str ''import { orderService, type OrderDTO } from '' @ [34] @ str ''../orders/index.js'' @ [34] @ str '';'',
                 [],
                 str ''describe('' @ [34] @ str ''Orders module contract'' @ [34] @ str '', () => {'',
                 str ''  it('' @ [34] @ str ''getById returns OrderDTO shape'' @ [34] @ str '', async () => {'',
                 str ''    const order = await orderService.getById('' @ [34] @ str ''test-id'' @ [34] @ str '');'',
                 str ''    expect(order).toMatchObject({'',
                 str ''      id: expect.any(String),'',
                 str ''      status: expect.any(String),'',
                 str ''      totalCents: expect.any(Number),'',
                 str ''    });'',
                 str ''  });'',
                 str ''});'']
                [10] \<rparr>,
           \<lparr> label = Bad, language = str ''typescript'',
             code =
               join
                [str ''// Testing internal implementation details'',
                 str ''import { OrderRepository } from '' @ [34] @ str ''../orders/order.repository.js'' @ [34] @ str '';'',
                 str ''import { mapToDTO } from '' @ [34] @ str ''../orders/internal/mappers.js'' @ [34] @ str '';'',
                 [],
                 str ''describe('' @ [34] @ str ''Order internals'' @ [34] @ str '', () => {'',
                 str ''  it('' @ [34] @ str ''maps entity to DTO correctly'' @ [34] @ str '', () => {'',
                 str ''    // This test breaks if you rename the mapper'',
                 str ''  });'',
                 str ''});'']
                [10] \<rparr>
         ],
       tags = map str [''testing'', ''contract'', ''boundary'', ''public-api'', ''integration''],
       cleanCodeRefs =
         [
           \<lparr> principleId = str ''test-boundary-conditions'', relationship = Extends,
             note' = str ''Module boundaries are the most critical boundary conditions to test'' \<rparr>
         ],
       rationale =
         str ''Contract tests survive refactoring. If you test internals, every refactoring breaks tests. Contract tests verify what matters: the module delivers what it promises.'',
       source = None \<rparr>"

definition rule_mock_other_modules :: ArchitectureRule where
  "rule_mock_other_modules =
     \<lparr> id' = str ''mock-other-modules'',
       name = str ''Mock Other Modules'',
       category = TestingStrategy,
       description =
         str ''When testing a module that depends on another module, mock the dependency at the module boundary (its public API). Never mock internal classes of another module.'',
       examples =
         [
           \<lparr> label = Good, language = str ''typescript'',
             code =
               join
                [str ''// Mock the orders module'' @ [39] @ str ''s public API'',
                 str ''vi.mock('' @ [34] @ str ''../orders/index.js'' @ [34] @ str '', () => ({'',
                 str ''  orderService: {'',
                 str ''    getById: vi.fn().mockResolvedValue({'',
                 str ''      id: '' @ [34] @ str ''1'' @ [34] @ str '','',
                 str ''      status: '' @ [34] @ str ''paid'' @ [34] @ str '','',
                 str ''      totalCents: 5000,'',
                 str ''    }),'',
                 str ''  },'',
                 str ''}));'',
                 [],
                 str ''// Now test shipping module with mocked orders'',
                 str ''describe('' @ [34] @ str ''ShippingService'' @ [34] @ str '', () => { /* ... */ });'']
                [10] \<rparr>,
           \<lparr> label = Bad, language = str ''typescript'',
             code =
               join
                [str ''// Mocking internal implementation of another module'',
                 str ''vi.mock('' @ [34] @ str ''../orders/order.repository.js'' @ [34] @ str '', () => ({ /* ... */ }));'',
                 str ''vi.mock('' @ [34] @ str ''../orders/internal/pricing.js'' @ [34] @ str '', () => ({ /* ... */ }));'',
                 str ''// Breaks when orders module refactors its internals'']
                [10] \<rparr>
         ],
       tags = map str [''testing'', ''mock'', ''module'', ''boundary'', ''dependency''],
       cleanCodeRefs =
         [
           \<lparr> principleId = str ''independent-tests'', relationship = Reinforces,
             note' = str ''Mocking at module boundaries keeps tests independent'' \<rparr>
         ],
       rationale =
         str ''Mocking at module boundaries keeps tests focused on the module under test. It verifies integration contracts without requiring the full dependency chain.'',
       source = None \<rparr>"

definition rule_isolated_integration_module :: ArchitectureRule where
  "rule_isolated_integration_module =
     \<lparr> id' = str ''isolated-integration-module'',
       name = str ''Isolated Integration Module'',
       category = ExternalIntegrations,
       description =
         str ''Each external integration (Stripe, SendGrid, S3, etc.) should live in its own module or within the consuming module behind a client wrapper. External API details must not leak into business logic.'',
       examples =
         [
           \<lparr> label = Good, language = str ''text'',
             code =
               join
                [str ''modules/'',
                 str ''  payments/'',
                 str ''    stripe-client.ts     # Stripe-specific implementation'',
                 str ''    payment.service.ts   # Business logic uses PaymentGateway interface'',
                 str ''    payment.types.ts     # PaymentGateway interface definition'',
                 str ''    index.ts'']
                [10] \<rparr>,
           \<lparr> label = Bad, language = str ''typescript'',
             code =
               join
                [str ''// Stripe details scattered across modules'',
                 str ''// modules/orders/order.service.ts'',
                 str ''import Stripe from '' @ [34] @ str ''stripe'' @ [34] @ str '';'',
                 str ''const stripe = new Stripe(process.env.STRIPE_KEY);'',
                 [],
                 str ''export class OrderService {'',
                 str ''  async checkout(orderId: string) {'',
                 str ''    // Stripe API details in order business logic'',
                 str ''    const intent = await stripe.paymentIntents.create({ ... });'',
                 str ''  }'',
                 str ''}'']
                [10] \<rparr>
         ],
       tags = map str [''integration'', ''external'', ''isolation'', ''module'', ''provider''],
       cleanCodeRefs =
         [
           \<lparr> principleId = str ''single-responsibility-principle'', relationship = Implements,
             note' = str ''Integration module'' @ [39] @ str ''s sole responsibility is wrapping the external API'' \<rparr>,
           \<lparr> principleId = str ''separate-construction-from-use'', relationship = Reinforces,
             note' = str ''External client is constructed in the integration module, consumed through its interface'' \<rparr>
         ],
       rationale =
         str ''Isolating integrations means switching providers or updating API versions only affects one module. Business logic stays clean of external API specifics.'',
       source = None \<rparr>"

definition rule_dedicated_client_wrapper :: ArchitectureRule where
  "rule_dedicated_client_wrapper =
     \<lparr> id' = str ''dedicated-client-wrapper'',
       name = str ''Dedicated Client Wrapper'',
       category = ExternalIntegrations,
       description =
         str ''Create a dedicated client wrapper for each external API. The wrapper translates between the external API'' @ [39] @ str ''s model and your internal model, handles authentication, retries, and error mapping.'',
       examples =
         [
           \<lparr> label = Good, language = str ''typescript'',
             code =
               join
                [str ''// modules/notifications/email-client.ts'',
                 str ''export class EmailClient {'',
                 str ''  constructor(private apiKey: string) {}'',
                 [],
                 str ''  async send(params: SendEmailParams): Promise<EmailResult> {'',
                 str ''    try {'',
                 str ''      const response = await fetch('' @ [34] @ str ''https://api.sendgrid.com/v3/mail/send'' @ [34] @ str '', {'',
                 str ''        method: '' @ [34] @ str ''POST'' @ [34] @ str '','',
                 str ''        headers: { Authorization: `Bearer ${this.apiKey}` },'',
                 str ''        body: JSON.stringify(this.toSendGridFormat(params)),'',
                 str ''      });'',
                 str ''      return this.parseResponse(response);'',
                 str ''    } catch (error) {'',
                 str ''      throw new EmailSendError('' @ [34] @ str ''Failed to send email'' @ [34] @ str '', { cause: error });'',
                 str ''    }'',
                 str ''  }'',
                 [],
                 str ''  private toSendGridFormat(params: SendEmailParams) { /* ... */ }'',
                 str ''  private parseResponse(response: Response): EmailResult { /* ... */ }'',
                 str ''}'']
                [10] \<rparr>,
           \<lparr> label = Bad, language = str ''typescript'',
             code =
               join
                [str ''// Direct API calls scattered throughout services'',
                 str ''export class OrderService {'',
                 str ''  async notifyUser(email: string, orderId: string) {'',
                 str ''    await fetch('' @ [34] @ str ''https://api.sendgrid.com/v3/mail/send'' @ [34] @ str '', {'',
                 str ''      headers: { Authorization: `Bearer ${process.env.SENDGRID_KEY}` },'',
                 str ''      body: JSON.stringify({ /* SendGrid-specific format */ }),'',
                 str ''    });'',
                 str ''  }'',
                 str ''}'']
                [10] \<rparr>
         ],
       tags = map str [''integration'', ''client'', ''wrapper'', ''api'', ''external'', ''adapter''],
       cleanCodeRefs =
         [
           \<lparr> principleId = str ''data-abstraction'', relationship = Implements,
             note' = str ''The wrapper abstracts the external API behind a clean internal interface'' \<rparr>,
           \<lparr> principleId = str ''use-exceptions-not-return-codes'', relationship = Complements,
             note' = str ''Client wrapper translates HTTP errors to meaningful exceptions'' \<rparr>
         ],
       rationale =
         str ''A client wrapper is your Anti-Corruption Layer for external systems. It provides a stable internal interface even when the external API changes.'',
       source = None \<rparr>"

definition rule_integration_change_isolation :: ArchitectureRule where
  "rule_integration_change_isolation =
     \<lparr> id' = str ''integration-change-isolation'',
       name = str ''Integration Change Isolation'',
       category = ExternalIntegrations,
       description =
         str ''When an external system changes (new API version, provider switch), only the integration module should need to change. No business logic or other modules should be affected.'',
       examples =
         [
           \<lparr> label = Good, language = str ''typescript'',
             code =
               join
                [str ''// Switching from Stripe to PayPal '' @ [8212] @ str '' only payment module changes'',
                 str ''// modules/payments/paypal-client.ts (new)'',
                 str ''export class PayPalClient implements PaymentGateway {'',
                 str ''  async charge(amount: number, currency: string): Promise<PaymentResult> {'',
                 str ''    // PayPal-specific implementation'',
                 str ''  }'',
                 str ''}'',
                 [],
                 str ''// modules/payments/index.ts '' @ [8212] @ str '' swap the implementation'',
                 str ''export const paymentGateway: PaymentGateway = new PayPalClient();'',
                 str ''// All consumers still use PaymentGateway interface '' @ [8212] @ str '' zero changes needed'']
                [10] \<rparr>,
           \<lparr> label = Bad, language = str ''typescript'',
             code =
               join
                [str ''// Switching payment provider requires changing every consumer'',
                 str ''// Must update: orders, subscriptions, invoices, refunds...'',
                 str ''// Because they all import Stripe directly'']
                [10] \<rparr>
         ],
       tags = map str [''integration'', ''change'', ''isolation'', ''provider'', ''swap''],
       cleanCodeRefs =
         [
           \<lparr> principleId = str ''open-closed-principle'', relationship = Implements,
             note' = str ''System is open to new integrations but closed for modification of existing business logic'' \<rparr>
         ],
       rationale =
         str ''This is the payoff of proper integration isolation. Switching from SendGrid to Mailgun or upgrading Stripe API v1 to v2 becomes a localized change.'',
       source = None \<rparr>"

definition rule_strangler_fig_pattern :: ArchitectureRule where
  "rule_strangler_fig_pattern =
     \<lparr> id' = str ''strangler-fig-pattern'',
       name = str ''Strangler Fig Pattern'',
       category = Migration,
       description =
         str ''Migrate from legacy to modular architecture incrementally. New features go into proper modules. Legacy code is gradually replaced module by module, never in a big-bang rewrite.'',
       examples =
         [
           \<lparr> label = Good, language = str ''text'',
             code =
               join
                [str ''Phase 1: New features '' @ [8594] @ str '' proper modules'',
                 str ''Phase 2: Extract highest-value legacy area into module'',
                 str ''Phase 3: Route traffic to new module, keep legacy as fallback'',
                 str ''Phase 4: Remove legacy code when new module is proven'',
                 str ''Phase 5: Repeat for next area'']
                [10] \<rparr>,
           \<lparr> label = Bad, language = str ''text'',
             code =
               join
                [[34] @ str ''Let'' @ [39] @ str ''s rewrite the entire system from scratch'' @ [34],
                 str ''- 6 months later: still rewriting, no value delivered'',
                 str ''- Old system still in production, diverging'',
                 str ''- Team demoralized, project cancelled'']
                [10] \<rparr>
         ],
       tags = map str [''migration'', ''strangler'', ''incremental'', ''legacy'', ''rewrite''],
       cleanCodeRefs =
         [
           \<lparr> principleId = str ''simple-design-runs-all-tests'', relationship = Complements,
             note' = str ''Each migration step must pass all tests '' @ [8212] @ str '' incremental confidence'' \<rparr>
         ],
       rationale =
         str ''Big-bang rewrites have a high failure rate. Strangler fig allows continuous delivery while migrating, and each step delivers value.'',
       source = Some (str ''Martin Fowler '' @ [8212] @ str '' Strangler Fig Application'') \<rparr>"

definition rule_extract_module_gradually :: ArchitectureRule where
  "rule_extract_module_gradually =
     \<lparr> id' = str ''extract-module-gradually'',
       name = str ''Extract Module Gradually'',
       category = Migration,
       description =
         str ''When extracting code into a module, do it gradually: first identify the boundary, then move code behind a public API, then enforce the boundary. Don'' @ [39] @ str ''t try to extract and refactor simultaneously.'',
       examples =
         [
           \<lparr> label = Good, language = str ''text'',
             code =
               join
                [str ''Step 1: Create modules/orders/ directory'',
                 str ''Step 2: Move order-related files (don'' @ [39] @ str ''t refactor yet)'',
                 str ''Step 3: Create index.ts with public API'',
                 str ''Step 4: Update all imports to use index.ts'',
                 str ''Step 5: Now refactor internals safely'']
                [10] \<rparr>,
           \<lparr> label = Bad, language = str ''text'',
             code =
               join
                [str ''Step 1: Create modules/orders/'',
                 str ''Step 2: Move files AND refactor AND rename AND add tests'',
                 str ''         AND change the database schema AND...'',
                 [8594] @ str '' Massive PR, impossible to review, high risk of bugs'']
                [10] \<rparr>
         ],
       tags = map str [''migration'', ''extraction'', ''gradual'', ''refactoring'', ''boundary''],
       cleanCodeRefs =
         [
           \<lparr> principleId = str ''do-one-thing'', relationship = Reinforces,
             note' = str ''Each extraction step does one thing: move, then organize, then enforce'' \<rparr>
         ],
       rationale =
         str ''Gradual extraction reduces risk. Each step is small, reviewable, and reversible. Trying to extract and perfect at the same time leads to scope creep.'',
       source = None \<rparr>"

definition rule_start_monolith_first :: ArchitectureRule where
  "rule_start_monolith_first =
     \<lparr> id' = str ''start-monolith-first'',
       name = str ''Start Monolith First'',
       category = Migration,
       description =
         str ''Start with a monolithic architecture and modularize when complexity justifies it. Premature modularization adds overhead without value. Wait until you understand the domain boundaries.'',
       examples =
         [
           \<lparr> label = Good, language = str ''text'',
             code =
               join
                [str ''Month 1-3: Simple monolith, fast iteration'',
                 str ''Month 4-6: Patterns emerge, some areas more complex'',
                 str ''Month 7+:  Extract high-complexity areas into modules'',
                 str ''           (Now you KNOW where the boundaries are)'']
                [10] \<rparr>,
           \<lparr> label = Bad, language = str ''text'',
             code =
               join
                [str ''Day 1: Design 15 modules based on assumptions'',
                 str ''Day 2: Realize '' @ [34] @ str ''orders'' @ [34] @ str '' and '' @ [34] @ str ''cart'' @ [34] @ str '' should be one module'',
                 str ''Day 3: Realize '' @ [34] @ str ''notifications'' @ [34] @ str '' needs to be split'',
                 str ''Day 4: Rewrite module boundaries AGAIN'',
                 [8594] @ str '' More time on architecture than features'']
                [10] \<rparr>
         ],
       tags = map str [''migration'', ''monolith'', ''start'', ''premature'', ''boundaries''],
       cleanCodeRefs =
         [
           \<lparr> principleId = str ''simple-design-minimal'', relationship = Reinforces,
             note' = str ''Minimal design: don'' @ [39] @ str ''t add module boundaries until they'' @ [39] @ str ''re needed'' \<rparr>
         ],
       rationale =
         str ''Early in a project, domain boundaries are unclear. Starting with a monolith lets you discover real boundaries through usage. Modularize when you have evidence, not assumptions.'',
       source = Some (str ''Martin Fowler '' @ [8212] @ str '' MonolithFirst'') \<rparr>"

definition rule_measure_before_splitting :: ArchitectureRule where
  "rule_measure_before_splitting =
     \<lparr> id' = str ''measure-before-splitting'',
       name = str ''Measure Before Splitting'',
       category = Migration,
       description =
         str ''Before extracting a module or splitting to a service, measure coupling and cohesion. Use dependency analysis, change frequency, and team ownership to decide. Data-driven decisions, not gut feelings.'',
       examples =
         [
           \<lparr> label = Good, language = str ''text'',
             code =
               join
                [str ''Before splitting, analyze:'',
                 [10003] @ str '' Import graph: which files depend on which?'',
                 [10003] @ str '' Change coupling: which files change together?'',
                 [10003] @ str '' Team ownership: does one team own this area?'',
                 [10003] @ str '' Deployment: does this area need independent deployment?'',
                 [10003] @ str '' Scale: does this area need independent scaling?'']
                [10] \<rparr>,
           \<lparr> label = Bad, language = str ''text'',
             code =
               join
                [[34] @ str ''Orders feels too big, let'' @ [39] @ str ''s split it into'',
                 str '' order-creation, order-fulfillment, and order-history'' @ [34],
                 [8594] @ str '' No data to support this split'',
                 [8594] @ str '' High communication overhead between new modules'',
                 [8594] @ str '' Essentially a distributed monolith'']
                [10] \<rparr>
         ],
       tags = map str [''migration'', ''measure'', ''coupling'', ''cohesion'', ''split'', ''metrics''],
       cleanCodeRefs =
         [
           \<lparr> principleId = str ''high-cohesion'', relationship = Reinforces,
             note' = str ''Measure cohesion '' @ [8212] @ str '' if a module'' @ [39] @ str ''s parts don'' @ [39] @ str ''t belong together, split is warranted'' \<rparr>
         ],
       rationale =
         str ''Splitting based on instinct often creates distributed monoliths. Measuring coupling and cohesion provides evidence for where real boundaries exist.'',
       source = None \<rparr>"

definition antiPattern_shared_database_anti_pattern :: AntiPattern where
  "antiPattern_shared_database_anti_pattern =
     \<lparr> id' = str ''shared-database-anti-pattern'',
       name = str ''Shared Database'',
       category = DataIsolation,
       description =
         str ''Multiple modules read from and write to the same database tables directly. This creates invisible coupling where schema changes in one module break others. Each module must own its data exclusively.'',
       examples =
         [
           \<lparr> label = Bad, language = str ''typescript'',
             code =
               join
                [str ''// Orders module writes to users table directly'',
                 str ''await prisma.user.update({'',
                 str ''  where: { id: userId },'',
                 str ''  data: { lastOrderAt: new Date() },'',
                 str ''});'']
                [10] \<rparr>,
           \<lparr> label = Good, language = str ''typescript'',
             code =
               join
                [str ''// Orders module asks users module to update'',
                 str ''import { userService } from '' @ [34] @ str ''../users/index.js'' @ [34] @ str '';'',
                 str ''await userService.recordLastOrder(userId);'']
                [10] \<rparr>
         ],
       tags = map str [''anti-pattern'', ''database'', ''shared'', ''coupling'', ''data''],
       cleanCodeRefs =
         [
           \<lparr> principleId = str ''avoid-inappropriate-intimacy'', relationship = Reinforces,
             note' = str ''Shared database access is the deepest form of inappropriate intimacy'' \<rparr>
         ] \<rparr>"

definition antiPattern_god_module :: AntiPattern where
  "antiPattern_god_module =
     \<lparr> id' = str ''god-module'',
       name = str ''God Module'',
       category = ModuleStructure,
       description =
         str ''A single module that handles too many responsibilities with no clear boundary. It grows indefinitely because no one knows where else to put new code. Split by business domain.'',
       examples =
         [
           \<lparr> label = Bad, language = str ''text'',
             code =
               join
                [str ''modules/core/'',
                 str ''  user.service.ts'',
                 str ''  order.service.ts'',
                 str ''  payment.service.ts'',
                 str ''  notification.service.ts'',
                 str ''  analytics.service.ts'',
                 str ''  # Everything is in '' @ [34] @ str ''core'' @ [34] @ str '' '' @ [8212] @ str '' it'' @ [39] @ str ''s a monolith inside a monolith'']
                [10] \<rparr>,
           \<lparr> label = Good, language = str ''text'',
             code =
               join
                [str ''modules/'',
                 str ''  users/         # Only user logic'',
                 str ''  orders/        # Only order logic'',
                 str ''  payments/      # Only payment logic'',
                 str ''  notifications/ # Only notification logic'']
                [10] \<rparr>
         ],
       tags = map str [''anti-pattern'', ''god-module'', ''responsibility'', ''boundary'', ''split''],
       cleanCodeRefs =
         [
           \<lparr> principleId = str ''single-responsibility-principle'', relationship = Reinforces,
             note' = str ''A god module violates SRP at the module level '' @ [8212] @ str '' multiple reasons to change'' \<rparr>,
           \<lparr> principleId = str ''classes-should-be-small'', relationship = Extends,
             note' = str ''Just as classes should be small, modules should be focused'' \<rparr>
         ] \<rparr>"

definition antiPattern_circular_dependency :: AntiPattern where
  "antiPattern_circular_dependency =
     \<lparr> id' = str ''circular-dependency'',
       name = str ''Circular Dependency'',
       category = DependencyManagement,
       description =
         str ''Module A depends on B, and B depends on A (directly or transitively). This makes both modules impossible to understand, test, or deploy independently. Break cycles with events or interfaces.'',
       examples =
         [
           \<lparr> label = Bad, language = str ''typescript'',
             code =
               join
                [str ''// modules/orders/order.service.ts'',
                 str ''import { userService } from '' @ [34] @ str ''../users/index.js'' @ [34] @ str '';'',
                 [],
                 str ''// modules/users/user.service.ts'',
                 str ''import { orderService } from '' @ [34] @ str ''../orders/index.js'' @ [34] @ str '';'',
                 str ''// CIRCULAR: orders '' @ [8594] @ str '' users '' @ [8594] @ str '' orders'']
                [10] \<rparr>,
           \<lparr> label = Good, language = str ''typescript'',
             code =
               join
                [str ''// Break cycle: orders depends on users, users uses events'',
                 str ''// modules/orders/order.service.ts'',
                 str ''import { userService } from '' @ [34] @ str ''../users/index.js'' @ [34] @ str ''; // OK'',
                 [],
                 str ''// modules/users/user.service.ts '' @ [8212] @ str '' no import from orders'',
                 str ''eventBus.on('' @ [34] @ str ''order.created'' @ [34] @ str '', async ({ userId }) => {'',
                 str ''  await userService.incrementOrderCount(userId);'',
                 str ''});'']
                [10] \<rparr>
         ],
       tags = map str [''anti-pattern'', ''circular'', ''cycle'', ''dependency'', ''coupling''],
       cleanCodeRefs =
         [
           \<lparr> principleId = str ''dependency-inversion-principle'', relationship = Implements,
             note' = str ''Break cycles by introducing abstractions (interfaces or events)'' \<rparr>
         ] \<rparr>"

definition antiPattern_business_logic_in_routes :: AntiPattern where
  "antiPattern_business_logic_in_routes =
     \<lparr> id' = str ''business-logic-in-routes'',
       name = str ''Business Logic in Routes'',
       category = RoutesAndControllers,
       description =
         str ''Route handlers contain business logic, database queries, and complex transformations instead of delegating to a service. Makes logic untestable and unreusable.'',
       examples =
         [
           \<lparr> label = Bad, language = str ''typescript'',
             code =
               join
                [str ''app.post('' @ [34] @ str ''/orders'' @ [34] @ str '', async (req, res) => {'',
                 str ''  const items = req.body.items;'',
                 str ''  let total = 0;'',
                 str ''  for (const item of items) {'',
                 str ''    const product = await prisma.product.findUnique({ where: { id: item.id } });'',
                 str ''    if (!product || product.stock < item.qty) {'',
                 str ''      return res.status(400).json({ error: '' @ [34] @ str ''Out of stock'' @ [34] @ str '' });'',
                 str ''    }'',
                 str ''    total += product.price * item.qty;'',
                 str ''  }'',
                 str ''  const order = await prisma.order.create({ data: { total, items, userId: req.userId } });'',
                 str ''  await prisma.product.updateMany({ /* decrement stock */ });'',
                 str ''  res.json(order);'',
                 str ''});'']
                [10] \<rparr>,
           \<lparr> label = Good, language = str ''typescript'',
             code =
               join
                [str ''app.post('' @ [34] @ str ''/orders'' @ [34] @ str '', async (req, res) => {'',
                 str ''  const input = createOrderSchema.parse(req.body);'',
                 str ''  const order = await orderService.create(input);'',
                 str ''  res.status(201).json(order);'',
                 str ''});'']
                [10] \<rparr>
         ],
       tags = map str [''anti-pattern'', ''route'', ''business-logic'', ''fat-controller''],
       cleanCodeRefs =
         [
           \<lparr> principleId = str ''do-one-thing'', relationship = Reinforces,
             note' = str ''Routes should do one thing: bridge HTTP to the service layer'' \<rparr>,
           \<lparr> principleId = str ''keep-functions-small'', relationship = Reinforces,
             note' = str ''Fat routes are long functions '' @ [8212] @ str '' extract to service'' \<rparr>
         ] \<rparr>"

definition antiPattern_leaky_abstraction :: AntiPattern where
  "antiPattern_leaky_abstraction =
     \<lparr> id' = str ''leaky-abstraction'',
       name = str ''Leaky Abstraction'',
       category = ModuleBoundaries,
       description =
         str ''Module'' @ [39] @ str ''s public API leaks internal implementation details: Prisma models, internal error types, database column names, or infrastructure types. The public API should expose only domain concepts.'',
       examples =
         [
           \<lparr> label = Bad, language = str ''typescript'',
             code =
               join
                [str ''// Public API leaks Prisma types'',
                 str ''export async function getUser(id: string): Promise<PrismaUser> {'',
                 str ''  return prisma.user.findUniqueOrThrow({ where: { id } });'',
                 str ''}'',
                 str ''// Consumers now depend on Prisma '' @ [8212] @ str '' internal detail'']
                [10] \<rparr>,
           \<lparr> label = Good, language = str ''typescript'',
             code =
               join
                [str ''export interface UserDTO {'',
                 str ''  id: string;'',
                 str ''  email: string;'',
                 str ''  name: string;'',
                 str ''}'',
                 [],
                 str ''export async function getUser(id: string): Promise<UserDTO | null> {'',
                 str ''  const user = await prisma.user.findUnique({ where: { id } });'',
                 str ''  return user ? { id: user.id, email: user.email, name: user.name } : null;'',
                 str ''}'']
                [10] \<rparr>
         ],
       tags = map str [''anti-pattern'', ''leaky'', ''abstraction'', ''boundary'', ''implementation''],
       cleanCodeRefs =
         [
           \<lparr> principleId = str ''data-abstraction'', relationship = Reinforces,
             note' = str ''Proper abstraction hides implementation '' @ [8212] @ str '' leaky abstractions expose it'' \<rparr>
         ] \<rparr>"

definition antiPattern_cross_module_direct_import :: AntiPattern where
  "antiPattern_cross_module_direct_import =
     \<lparr> id' = str ''cross-module-direct-import'',
       name = str ''Cross-Module Direct Import'',
       category = ModuleCommunication,
       description =
         str ''Importing internal files from another module instead of using its public API (index.ts). This bypasses the module boundary and creates tight coupling to implementation details.'',
       examples =
         [
           \<lparr> label = Bad, language = str ''typescript'',
             code =
               join
                [str ''// Importing internal file directly'',
                 str ''import { OrderRepository } from '' @ [34] @ str ''../orders/order.repository.js'' @ [34] @ str '';'',
                 str ''import { hashPassword } from '' @ [34] @ str ''../users/internal/crypto.js'' @ [34] @ str '';'',
                 str ''import { ORDER_STATUS } from '' @ [34] @ str ''../orders/constants.js'' @ [34] @ str '';'']
                [10] \<rparr>,
           \<lparr> label = Good, language = str ''typescript'',
             code =
               join
                [str ''// Import only from public API'',
                 str ''import { orderService, type Order, OrderStatus } from '' @ [34] @ str ''../orders/index.js'' @ [34] @ str '';'']
                [10] \<rparr>
         ],
       tags = map str [''anti-pattern'', ''import'', ''direct'', ''boundary'', ''violation''],
       cleanCodeRefs =
         [
           \<lparr> principleId = str ''law-of-demeter'', relationship = Reinforces,
             note' = str ''Don'' @ [39] @ str ''t reach into another module'' @ [39] @ str ''s internals'' \<rparr>
         ] \<rparr>"

definition antiPattern_cross_module_db_access :: AntiPattern where
  "antiPattern_cross_module_db_access =
     \<lparr> id' = str ''cross-module-db-access'',
       name = str ''Cross-Module DB Access'',
       category = DataIsolation,
       description =
         str ''One module directly queries or modifies another module'' @ [39] @ str ''s database tables. Even read-only access is a violation because it couples to the schema.'',
       examples =
         [
           \<lparr> label = Bad, language = str ''typescript'',
             code =
               join
                [str ''// Shipping module directly queries orders table'',
                 str ''const orders = await prisma.order.findMany({'',
                 str ''  where: { status: '' @ [34] @ str ''ready_to_ship'' @ [34] @ str '' },'',
                 str ''});'']
                [10] \<rparr>,
           \<lparr> label = Good, language = str ''typescript'',
             code =
               join
                [str ''// Shipping asks orders module for the data'',
                 str ''const orders = await orderService.getReadyToShip();'']
                [10] \<rparr>
         ],
       tags = map str [''anti-pattern'', ''database'', ''cross-module'', ''query'', ''access''],
       cleanCodeRefs =
         [
           \<lparr> principleId = str ''avoid-inappropriate-intimacy'', relationship = Reinforces,
             note' = str ''Direct DB access is intimate knowledge of another module'' @ [39] @ str ''s data structure'' \<rparr>
         ] \<rparr>"

definition antiPattern_distributed_monolith :: AntiPattern where
  "antiPattern_distributed_monolith =
     \<lparr> id' = str ''distributed-monolith'',
       name = str ''Distributed Monolith'',
       category = ModuleCommunication,
       description =
         str ''Modules are '' @ [39] @ str ''separated'' @ [39] @ str '' in directories but completely coupled: synchronous calls everywhere, shared database, no clear boundaries. Worst of both worlds: complexity of distribution with rigidity of monolith.'',
       examples =
         [
           \<lparr> label = Bad, language = str ''text'',
             code =
               join
                [str ''modules/'',
                 str ''  orders/    '' @ [8594] @ str '' imports from users, payments, inventory, shipping'',
                 str ''  users/     '' @ [8594] @ str '' imports from orders, payments'',
                 str ''  payments/  '' @ [8594] @ str '' imports from orders, users'',
                 str ''  # Every module depends on every other module'',
                 str ''  # Can'' @ [39] @ str ''t change anything without affecting everything'']
                [10] \<rparr>,
           \<lparr> label = Good, language = str ''text'',
             code =
               join
                [str ''modules/'',
                 str ''  orders/    '' @ [8594] @ str '' depends on: users (read), emits: order.created'',
                 str ''  users/     '' @ [8594] @ str '' depends on: nothing, listens: order.created'',
                 str ''  payments/  '' @ [8594] @ str '' depends on: orders (read), emits: payment.completed'',
                 str ''  # Clear dependency direction, minimal coupling'']
                [10] \<rparr>
         ],
       tags = map str [''anti-pattern'', ''distributed-monolith'', ''coupling'', ''separation''],
       cleanCodeRefs =
         [
           \<lparr> principleId = str ''high-cohesion'', relationship = Reinforces,
             note' = str ''Distributed monolith has low cohesion within modules and high coupling between them'' \<rparr>
         ] \<rparr>"

definition antiPattern_anemic_module :: AntiPattern where
  "antiPattern_anemic_module =
     \<lparr> id' = str ''anemic-module'',
       name = str ''Anemic Module'',
       category = ModuleStructure,
       description =
         str ''A module with no real business logic '' @ [8212] @ str '' it'' @ [39] @ str ''s just a pass-through that delegates everything to another module or the database. If a module adds no value, it shouldn'' @ [39] @ str ''t exist.'',
       examples =
         [
           \<lparr> label = Bad, language = str ''typescript'',
             code =
               join
                [str ''// Anemic module: just passes through to prisma'',
                 str ''export class UserService {'',
                 str ''  async getById(id: string) { return prisma.user.findUnique({ where: { id } }); }'',
                 str ''  async create(data: any) { return prisma.user.create({ data }); }'',
                 str ''  async update(id: string, data: any) { return prisma.user.update({ where: { id }, data }); }'',
                 str ''  // No validation, no business rules, no transformation'',
                 str ''}'']
                [10] \<rparr>,
           \<lparr> label = Good, language = str ''typescript'',
             code =
               join
                [str ''export class UserService {'',
                 str ''  async create(input: CreateUserInput) {'',
                 str ''    const existing = await this.repo.findByEmail(input.email);'',
                 str ''    if (existing) throw new DuplicateEmailError(input.email);'',
                 [],
                 str ''    const hashedPassword = await hash(input.password);'',
                 str ''    const user = await this.repo.create({ ...input, password: hashedPassword });'',
                 [],
                 str ''    eventBus.emit('' @ [34] @ str ''user.created'' @ [34] @ str '', { userId: user.id });'',
                 str ''    return toUserDTO(user);'',
                 str ''  }'',
                 str ''}'']
                [10] \<rparr>
         ],
       tags = map str [''anti-pattern'', ''anemic'', ''pass-through'', ''no-logic'', ''crud''],
       cleanCodeRefs =
         [
           \<lparr> principleId = str ''avoid-feature-envy'', relationship = Extends,
             note' = str ''An anemic module envies no one '' @ [8212] @ str '' it has no behavior of its own'' \<rparr>
         ] \<rparr>"

definition antiPattern_feature_envy_module :: AntiPattern where
  "antiPattern_feature_envy_module =
     \<lparr> id' = str ''feature-envy-module'',
       name = str ''Feature Envy Module'',
       category = ModuleStructure,
       description =
         str ''A module that uses more data and behavior from another module than from its own. This suggests the logic belongs in the other module, or the boundary is drawn incorrectly.'',
       examples =
         [
           \<lparr> label = Bad, language = str ''typescript'',
             code =
               join
                [str ''// Shipping module uses mostly order data'',
                 str ''export class ShippingService {'',
                 str ''  async createShipment(orderId: string) {'',
                 str ''    const order = await orderService.getById(orderId);'',
                 str ''    const items = await orderService.getItems(orderId);'',
                 str ''    const address = await orderService.getShippingAddress(orderId);'',
                 str ''    const weight = await orderService.calculateWeight(orderId);'',
                 str ''    // All data comes from orders '' @ [8212] @ str '' does shipping add any value?'',
                 str ''  }'',
                 str ''}'']
                [10] \<rparr>,
           \<lparr> label = Good, language = str ''typescript'',
             code =
               join
                [str ''// Orders module provides a shipping-ready DTO'',
                 str ''// modules/orders/index.ts'',
                 str ''export interface ShippableOrder {'',
                 str ''  orderId: string;'',
                 str ''  items: ShippableItem[];'',
                 str ''  destination: Address;'',
                 str ''  totalWeightGrams: number;'',
                 str ''}'',
                 str ''export async function getShippableOrder(id: string): Promise<ShippableOrder>;'',
                 [],
                 str ''// Shipping module uses the focused DTO'',
                 str ''const shippable = await orderService.getShippableOrder(orderId);'',
                 str ''const rate = this.calculateRate(shippable.totalWeightGrams, shippable.destination);'']
                [10] \<rparr>
         ],
       tags = map str [''anti-pattern'', ''feature-envy'', ''boundary'', ''misplaced-logic''],
       cleanCodeRefs =
         [
           \<lparr> principleId = str ''avoid-feature-envy'', relationship = Extends,
             note' = str ''Module-level feature envy: a module that envies another module'' @ [39] @ str ''s data'' \<rparr>
         ] \<rparr>"

definition antiPattern_premature_extraction :: AntiPattern where
  "antiPattern_premature_extraction =
     \<lparr> id' = str ''premature-extraction'',
       name = str ''Premature Extraction'',
       category = Migration,
       description =
         str ''Extracting code into a module before understanding the real boundaries. Premature modules often have the wrong boundaries and need to be merged or restructured later.'',
       examples =
         [
           \<lparr> label = Bad, language = str ''text'',
             code =
               join
                [str ''Day 1 of project:'',
                 [34] @ str ''Let'' @ [39] @ str ''s create 12 modules based on our initial design'' @ [34],
                 [8594] @ str '' By month 2, half need to be merged or split'',
                 [8594] @ str '' Wasted effort on wrong boundaries'']
                [10] \<rparr>,
           \<lparr> label = Good, language = str ''text'',
             code =
               join
                [str ''Start simple, extract when patterns emerge:'',
                 str ''1. Keep related code close'',
                 str ''2. Notice which code changes together'',
                 str ''3. When a clear boundary appears, extract to module'',
                 str ''4. The boundary is right when changes are isolated'']
                [10] \<rparr>
         ],
       tags = map str [''anti-pattern'', ''premature'', ''extraction'', ''boundary'', ''early''],
       cleanCodeRefs =
         [
           \<lparr> principleId = str ''simple-design-minimal'', relationship = Reinforces,
             note' = str ''Don'' @ [39] @ str ''t add structure you don'' @ [39] @ str ''t need yet '' @ [8212] @ str '' minimal classes, minimal modules'' \<rparr>
         ] \<rparr>"

definition antiPattern_shared_everything_kernel :: AntiPattern where
  "antiPattern_shared_everything_kernel =
     \<lparr> id' = str ''shared-everything-kernel'',
       name = str ''Shared Everything Kernel'',
       category = SharedKernel,
       description =
         str ''A shared kernel that contains implementations, utilities, helpers, and business logic instead of just types and infrastructure. Becomes a coupling magnet that every module depends on.'',
       examples =
         [
           \<lparr> label = Bad, language = str ''text'',
             code =
               join
                [str ''shared/'',
                 str ''  utils/'',
                 str ''    date-utils.ts        # Business logic in shared'',
                 str ''    price-calculator.ts  # Should be in orders'',
                 str ''    email-validator.ts   # Should be in each module'',
                 str ''    formatters.ts        # Each module should format its own data'',
                 str ''  services/'',
                 str ''    base-service.ts      # God base class'']
                [10] \<rparr>,
           \<lparr> label = Good, language = str ''text'',
             code =
               join
                [str ''shared/'',
                 str ''  prisma.ts      # Infrastructure: DB client'',
                 str ''  event-bus.ts   # Infrastructure: event system'',
                 str ''  logger.ts      # Infrastructure: logging'',
                 str ''  types.ts       # Types only: Paginated<T>, Result<T>'',
                 str ''  errors.ts      # Base error classes'']
                [10] \<rparr>
         ],
       tags = map str [''anti-pattern'', ''shared-kernel'', ''coupling'', ''utility'', ''implementation''],
       cleanCodeRefs =
         [
           \<lparr> principleId = str ''interface-segregation-principle'', relationship = Reinforces,
             note' = str ''Share only minimal interfaces, not broad implementations'' \<rparr>
         ] \<rparr>"

definition antiPattern_event_soup :: AntiPattern where
  "antiPattern_event_soup =
     \<lparr> id' = str ''event-soup'',
       name = str ''Event Soup'',
       category = ModuleCommunication,
       description =
         str ''Too many events without clear naming, documentation, or traceability. When everything communicates via events, it becomes impossible to understand the flow. Use events for decoupling, not for everything.'',
       examples =
         [
           \<lparr> label = Bad, language = str ''typescript'',
             code =
               join
                [str ''// 50+ events with no documentation or naming convention'',
                 str ''eventBus.emit('' @ [34] @ str ''data_changed'' @ [34] @ str '', { ... });'',
                 str ''eventBus.emit('' @ [34] @ str ''update'' @ [34] @ str '', { type: '' @ [34] @ str ''user'' @ [34] @ str '', ... });'',
                 str ''eventBus.emit('' @ [34] @ str ''action'' @ [34] @ str '', { action: '' @ [34] @ str ''purchase'' @ [34] @ str '', ... });'',
                 str ''// Who listens? What happens? Nobody knows'']
                [10] \<rparr>,
           \<lparr> label = Good, language = str ''typescript'',
             code =
               join
                [str ''// Clear naming: {module}.{entity}.{action}'',
                 str ''eventBus.emit('' @ [34] @ str ''orders.order.created'' @ [34] @ str '', {'',
                 str ''  orderId: '' @ [34] @ str ''123'' @ [34] @ str '','',
                 str ''  userId: '' @ [34] @ str ''456'' @ [34] @ str '','',
                 str ''  totalCents: 5000,'',
                 str ''});'',
                 str ''// Documented, typed, traceable'']
                [10] \<rparr>
         ],
       tags = map str [''anti-pattern'', ''events'', ''soup'', ''naming'', ''traceability''],
       cleanCodeRefs =
         [
           \<lparr> principleId = str ''use-intention-revealing-names'', relationship = Reinforces,
             note' = str ''Event names should clearly reveal what happened'' \<rparr>
         ] \<rparr>"

definition antiPattern_tight_temporal_coupling :: AntiPattern where
  "antiPattern_tight_temporal_coupling =
     \<lparr> id' = str ''tight-temporal-coupling'',
       name = str ''Tight Temporal Coupling'',
       category = ModuleCommunication,
       description =
         str ''Modules that depend on a specific execution order: module A must initialize before B, or operation X must complete before Y. This creates fragile, hard-to-debug systems.'',
       examples =
         [
           \<lparr> label = Bad, language = str ''typescript'',
             code =
               join
                [str ''// Modules must initialize in specific order'',
                 str ''await userModule.init();      // Must be first'',
                 str ''await orderModule.init();     // Depends on users being ready'',
                 str ''await paymentModule.init();   // Depends on orders being ready'',
                 str ''// Swap the order '' @ [8594] @ str '' runtime crash'']
                [10] \<rparr>,
           \<lparr> label = Good, language = str ''typescript'',
             code =
               join
                [str ''// Modules initialize independently'',
                 str ''await Promise.all(['',
                 str ''  userModule.init(),'',
                 str ''  orderModule.init(),'',
                 str ''  paymentModule.init(),'',
                 str '']);'',
                 str ''// Each module handles its own readiness'']
                [10] \<rparr>
         ],
       tags = map str [''anti-pattern'', ''temporal'', ''coupling'', ''order'', ''initialization''],
       cleanCodeRefs =
         [
           \<lparr> principleId = str ''avoid-side-effects-in-functions'', relationship = Reinforces,
             note' = str ''Temporal coupling often comes from hidden side effects during initialization'' \<rparr>
         ] \<rparr>"

definition antiPattern_hidden_dependency :: AntiPattern where
  "antiPattern_hidden_dependency =
     \<lparr> id' = str ''hidden-dependency'',
       name = str ''Hidden Dependency'',
       category = DependencyManagement,
       description =
         str ''Modules depend on each other through global state, environment variables, or shared singletons instead of explicit imports. These invisible dependencies make the system unpredictable.'',
       examples =
         [
           \<lparr> label = Bad, language = str ''typescript'',
             code =
               join
                [str ''// Hidden dependency via global state'',
                 str ''// modules/orders/order.service.ts'',
                 str ''export class OrderService {'',
                 str ''  async create(input: CreateOrderInput) {'',
                 str ''    // Depends on global.currentUser being set by auth middleware'',
                 str ''    const userId = (global as any).currentUser.id;'',
                 str ''    // Hidden: nothing in the import graph shows this dependency'',
                 str ''  }'',
                 str ''}'']
                [10] \<rparr>,
           \<lparr> label = Good, language = str ''typescript'',
             code =
               join
                [str ''// Explicit dependency via parameter'',
                 str ''export class OrderService {'',
                 str ''  async create(input: CreateOrderInput, userId: string) {'',
                 str ''    // Dependency is explicit in the function signature'',
                 str ''  }'',
                 str ''}'']
                [10] \<rparr>
         ],
       tags = map str [''anti-pattern'', ''hidden'', ''dependency'', ''global'', ''state'', ''implicit''],
       cleanCodeRefs =
         [
           \<lparr> principleId = str ''avoid-side-effects-in-functions'', relationship = Reinforces,
             note' = str ''Global state access is a hidden side effect'' \<rparr>,
           \<lparr> principleId = str ''use-dependency-injection'', relationship = Reinforces,
             note' = str ''Explicit DI makes all dependencies visible'' \<rparr>
         ] \<rparr>"

definition antiPattern_inconsistent_boundaries :: AntiPattern where
  "antiPattern_inconsistent_boundaries =
     \<lparr> id' = str ''inconsistent-boundaries'',
       name = str ''Inconsistent Boundaries'',
       category = ModuleBoundaries,
       description =
         str ''Some parts of a module have clear boundaries (public API, DTOs) while others leak internals. Partial boundaries are worse than none because they create false confidence.'',
       examples =
         [
           \<lparr> label = Bad, language = str ''typescript'',
             code =
               join
                [str ''// modules/orders/index.ts'',
                 str ''export { orderService } from '' @ [34] @ str ''./order.service.js'' @ [34] @ str '';'',
                 str ''export type { OrderDTO } from '' @ [34] @ str ''./order.types.js'' @ [34] @ str '';'',
                 [],
                 str ''// But also exports internals:'',
                 str ''export { OrderRepository } from '' @ [34] @ str ''./order.repository.js'' @ [34] @ str '';'',
                 str ''export { mapToDTO } from '' @ [34] @ str ''./internal/mappers.js'' @ [34] @ str '';'',
                 str ''// Boundary exists but is not enforced'']
                [10] \<rparr>,
           \<lparr> label = Good, language = str ''typescript'',
             code =
               join
                [str ''// modules/orders/index.ts '' @ [8212] @ str '' Clean, consistent boundary'',
                 str ''export { orderService } from '' @ [34] @ str ''./order.service.js'' @ [34] @ str '';'',
                 str ''export type { OrderDTO, CreateOrderInput } from '' @ [34] @ str ''./order.types.js'' @ [34] @ str '';'',
                 str ''// Nothing else exported '' @ [8212] @ str '' boundary is clear and enforced'']
                [10] \<rparr>
         ],
       tags = map str [''anti-pattern'', ''boundary'', ''inconsistent'', ''partial'', ''leaky''],
       cleanCodeRefs =
         [
           \<lparr> principleId = str ''simple-design-expressive'', relationship = Reinforces,
             note' = str ''A clean boundary clearly expresses what the module provides'' \<rparr>
         ] \<rparr>"

definition RULES :: "ArchitectureRule list" where
  "RULES =
    [
      rule_domain_centric_modules, rule_vertical_slice_per_module,
      rule_standard_module_layout, rule_self_contained_initialization,
      rule_define_public_api, rule_hide_implementation_details, rule_dto_at_boundaries,
      rule_stable_contracts, rule_no_direct_module_imports, rule_sync_via_service_interface,
      rule_async_via_events, rule_anti_corruption_layer, rule_separate_module_data,
      rule_no_cross_module_joins, rule_logical_schema_separation,
      rule_data_ownership_principle, rule_acyclic_dependency_graph,
      rule_depend_on_abstractions, rule_dependency_direction, rule_thin_routes,
      rule_one_route_one_module, rule_request_validation_at_edge, rule_minimal_shared_code,
      rule_prefer_duplication_over_coupling, rule_shared_types_only,
      rule_test_module_in_isolation, rule_contract_tests_at_boundaries,
      rule_mock_other_modules, rule_isolated_integration_module,
      rule_dedicated_client_wrapper, rule_integration_change_isolation,
      rule_strangler_fig_pattern, rule_extract_module_gradually, rule_start_monolith_first,
      rule_measure_before_splitting
    ]"

definition ANTI_PATTERNS :: "AntiPattern list" where
  "ANTI_PATTERNS =
    [
      antiPattern_shared_database_anti_pattern, antiPattern_god_module,
      antiPattern_circular_dependency, antiPattern_business_logic_in_routes,
      antiPattern_leaky_abstraction, antiPattern_cross_module_direct_import,
      antiPattern_cross_module_db_access, antiPattern_distributed_monolith,
      antiPattern_anemic_module, antiPattern_feature_envy_module,
      antiPattern_premature_extraction, antiPattern_shared_everything_kernel,
      antiPattern_event_soup, antiPattern_tight_temporal_coupling,
      antiPattern_hidden_dependency, antiPattern_inconsistent_boundaries
    ]"

section \<open>Scoring (\<open>rule-search/scoring.ts\<close>)\<close>

definition EXACT_ID_MATCH :: int where "EXACT_ID_MATCH = 100"
definition NAME_CONTAINS :: int where "NAME_CONTAINS = 80"
definition TAG_EXACT :: int where "TAG_EXACT = 70"
definition TAG_PARTIAL :: int where "TAG_PARTIAL = 50"
definition DESCRIPTION_CONTAINS :: int where "DESCRIPTION_CONTAINS = 30"
definition CATEGORY_MATCH :: int where "CATEGORY_MATCH = 20"
definition CATEGORY_BOOST_MULTIPLIER :: int where "CATEGORY_BOOST_MULTIPLIER = 15"

text \<open>
  The stored id and the stored tags are compared as they are; only the name and the
  description are lowercased. The \<open>for\<close> loop over the tags is the \<open>foldl\<close>.
\<close>

definition scoreRuleByQuery :: "ArchitectureRule \<Rightarrow> jsstring \<Rightarrow> int" where
  "scoreRuleByQuery rule query =
     (let normalizedQuery = trim (toLowerCase query) in
      if id' rule = normalizedQuery then EXACT_ID_MATCH
      else
        let score0 = (if includes' (toLowerCase (name rule)) normalizedQuery
                      then 0 + NAME_CONTAINS else 0);
            score1 = foldl (\<lambda>score tag.
                        if tag = normalizedQuery then score + TAG_EXACT
                        else if includes' tag normalizedQuery \<or> includes' normalizedQuery tag
                        then score + TAG_PARTIAL
                        else score) score0 (tags rule);
            score2 = (if includes' (toLowerCase (description rule)) normalizedQuery
                      then score1 + DESCRIPTION_CONTAINS else score1);
            score3 = (if includes' (categoryString (category rule)) normalizedQuery
                      then score2 + CATEGORY_MATCH else score2)
        in score3)"

text \<open>\<open>categoryBoosts\<close> is a \<open>Map<RuleCategory, number>\<close>; \<open>get(k) ?? 0\<close> is the \<open>case\<close>.\<close>

definition scoreRuleByTokens ::
  "ArchitectureRule \<Rightarrow> jsstring list \<Rightarrow> (RuleCategory \<rightharpoonup> int) \<Rightarrow> int" where
  "scoreRuleByTokens rule tokens categoryBoosts =
     (let score = foldl (\<lambda>score token. score + scoreRuleByQuery rule token) 0 tokens;
          boost = (case categoryBoosts (category rule) of Some b \<Rightarrow> b | None \<Rightarrow> 0)
      in score + boost * CATEGORY_BOOST_MULTIPLIER)"


section \<open>Tokenizer (\<open>rule-search/tokenizer.ts\<close>)\<close>

definition STOP_WORDS :: "jsstring list" where
  "STOP_WORDS = map str [
     ''a'', ''an'', ''the'', ''is'', ''it'', ''to'', ''in'', ''of'', ''and'', ''or'',
     ''for'', ''on'', ''at'', ''by'', ''be'', ''as'', ''do'', ''if'', ''my'', ''no'',
     ''not'', ''but'', ''was'', ''are'', ''has'', ''had'', ''can'', ''how'', ''what'',
     ''when'', ''this'', ''that'', ''with'', ''from'', ''have'', ''will'', ''been'',
     ''they'', ''them'', ''then'', ''than'', ''some'', ''should'', ''would'', ''could'',
     ''about'', ''which'', ''there'', ''where'', ''their'', ''other'', ''into'', ''very'',
     ''just'', ''also'', ''more'', ''like'', ''want'', ''need'', ''i'', ''me'', ''we'',
     ''you'']"

definition CATEGORY_KEYWORDS :: "(jsstring \<times> RuleCategory) list" where
  "CATEGORY_KEYWORDS = map (\<lambda>(k, c). (str k, c)) [
     (''module'', ModuleStructure), (''modules'', ModuleStructure),
     (''structure'', ModuleStructure), (''layout'', ModuleStructure),
     (''organize'', ModuleStructure), (''organization'', ModuleStructure),
     (''directory'', ModuleStructure), (''folder'', ModuleStructure),
     (''boundary'', ModuleBoundaries), (''boundaries'', ModuleBoundaries),
     (''api'', ModuleBoundaries), (''facade'', ModuleBoundaries),
     (''encapsulation'', ModuleBoundaries), (''contract'', ModuleBoundaries),
     (''public'', ModuleBoundaries), (''barrel'', ModuleBoundaries),
     (''communication'', ModuleCommunication), (''event'', ModuleCommunication),
     (''events'', ModuleCommunication), (''messaging'', ModuleCommunication),
     (''sync'', ModuleCommunication), (''async'', ModuleCommunication),
     (''event-bus'', ModuleCommunication), (''data'', DataIsolation),
     (''database'', DataIsolation), (''schema'', DataIsolation),
     (''isolation'', DataIsolation), (''ownership'', DataIsolation),
     (''table'', DataIsolation), (''tables'', DataIsolation), (''join'', DataIsolation),
     (''prisma'', DataIsolation), (''dependency'', DependencyManagement),
     (''dependencies'', DependencyManagement), (''coupling'', DependencyManagement),
     (''acyclic'', DependencyManagement), (''circular'', DependencyManagement),
     (''cycle'', DependencyManagement), (''dag'', DependencyManagement),
     (''route'', RoutesAndControllers), (''routes'', RoutesAndControllers),
     (''controller'', RoutesAndControllers), (''handler'', RoutesAndControllers),
     (''thin'', RoutesAndControllers), (''endpoint'', RoutesAndControllers),
     (''shared'', SharedKernel), (''kernel'', SharedKernel), (''common'', SharedKernel),
     (''duplication'', SharedKernel), (''test'', TestingStrategy),
     (''testing'', TestingStrategy), (''tests'', TestingStrategy),
     (''mock'', TestingStrategy), (''contract-test'', TestingStrategy),
     (''external'', ExternalIntegrations), (''client'', ExternalIntegrations),
     (''wrapper'', ExternalIntegrations), (''integration'', ExternalIntegrations),
     (''provider'', ExternalIntegrations), (''migration'', Migration),
     (''strangler'', Migration), (''extract'', Migration), (''legacy'', Migration),
     (''monolith'', Migration), (''microservice'', Migration), (''split'', Migration)]"

text \<open>The character class \<open>[a-z0-9\-]\<close>.\<close>

definition isTokenChar :: "jschar \<Rightarrow> bool" where
  "isTokenChar c = ((97 \<le> c \<and> c \<le> 122) \<or> (48 \<le> c \<and> c \<le> 57) \<or> c = 45)"

text \<open>
  \<open>replace(/[^a-z0-9\-]+/g, " ")\<close>: every maximal run of code units outside the class
  becomes one space.
\<close>

function replaceNonToken :: "jsstring \<Rightarrow> jsstring" where
  "replaceNonToken [] = []"
| "replaceNonToken (c # s) =
     (if isTokenChar c then c # replaceNonToken s
      else 32 # replaceNonToken (dropWhile (\<lambda>d. \<not> isTokenChar d) s))"
  by pat_completeness auto
termination
  by (relation "measure length") (auto simp: le_imp_less_Suc length_dropWhile_le)

text \<open>
  \<open>split(/\s+/)\<close>: the pieces between the runs of white space; a run at the start or at
  the end leaves an empty piece there, and the empty string gives one empty piece.
\<close>

function splitWhiteSpace :: "jsstring \<Rightarrow> jsstring list" where
  "splitWhiteSpace s =
     (let piece = takeWhile (\<lambda>c. \<not> isWhiteSpace c) s;
          rest = dropWhile (\<lambda>c. \<not> isWhiteSpace c) s
      in if rest = [] then [piece]
         else piece # splitWhiteSpace (dropWhile isWhiteSpace (tl rest)))"
  by pat_completeness auto
termination
proof (relation "measure length")
  show "wf (measure length)" by simp
next
  fix s piece rest :: jsstring
  assume r: "rest = dropWhile (\<lambda>c. \<not> isWhiteSpace c) s" and ne: "rest \<noteq> []"
  have "length (dropWhile isWhiteSpace (tl rest)) \<le> length (tl rest)"
    by (rule length_dropWhile_le)
  also have "\<dots> < length rest" using ne by (cases rest) auto
  also have "\<dots> \<le> length s" unfolding r by (rule length_dropWhile_le)
  finally show "(dropWhile isWhiteSpace (tl rest), s) \<in> measure length" by simp
qed

definition tokenize :: "jsstring \<Rightarrow> jsstring list" where
  "tokenize text =
     filter (\<lambda>token. length token > 1) (splitWhiteSpace (replaceNonToken (toLowerCase text)))"

definition removeStopWords :: "jsstring list \<Rightarrow> jsstring list" where
  "removeStopWords tokens = filter (\<lambda>token. token \<notin> set STOP_WORDS) tokens"

text \<open>
  The loop of \<open>detectCategoryBoosts\<close> over the tokens, with the \<open>Map\<close> it fills as the
  accumulator. (A token that names a property every JavaScript object inherits, such as
  \<open>constructor\<close>, makes the source store a key that is no category; no lookup by a
  category can see it, and the model leaves it out.)
\<close>

definition detectCategoryBoosts :: "jsstring list \<Rightarrow> (RuleCategory \<rightharpoonup> int)" where
  "detectCategoryBoosts tokens =
     foldl (\<lambda>boosts token.
              case map_of CATEGORY_KEYWORDS token of
                Some cat \<Rightarrow>
                  (let current = (case boosts cat of Some n \<Rightarrow> n | None \<Rightarrow> 0)
                   in boosts(cat \<mapsto> current + 1))
              | None \<Rightarrow> boosts)
           Map.empty tokens"

section \<open>Ranking (\<open>rule-search/scoring.ts\<close>)\<close>

text \<open>
  \<open>Array.prototype.sort\<close> with a comparator is a stable sort: an element goes before
  the first element it does not compare greater than, so equal elements keep their order.
\<close>

fun insertBy :: "('a \<Rightarrow> 'a \<Rightarrow> int) \<Rightarrow> 'a \<Rightarrow> 'a list \<Rightarrow> 'a list" where
  "insertBy cmp x [] = [x]"
| "insertBy cmp x (y # ys) = (if cmp x y \<le> 0 then x # y # ys else y # insertBy cmp x ys)"

definition arraySort :: "('a \<Rightarrow> 'a \<Rightarrow> int) \<Rightarrow> 'a list \<Rightarrow> 'a list" where
  "arraySort cmp xs = foldr (insertBy cmp) xs []"

text \<open>
  \<open>rankRules\<close> as a function of the contents of its argument: the object
  \<open>{ rule, score }\<close> is the pair, and a score is an integer, as every score of the
  program is.
\<close>

definition rankRules :: "'r list \<Rightarrow> ('r \<Rightarrow> int) \<Rightarrow> 'r list" where
  "rankRules rules scoreFn =
     map fst
       (arraySort (\<lambda>a b. snd b - snd a)
         (filter (\<lambda>(rule, score). score > 0)
           (map (\<lambda>rule. (rule, scoreFn rule)) rules)))"

text \<open>
  The same function on a store of arrays, to follow what each call does to which array:
  \<open>map\<close> and \<open>filter\<close> allocate a new array, \<open>sort\<close> sorts the array it is called on
  in place and returns it. An array is the address of its contents; the store keeps the
  arrays of entries and the arrays of \<open>{ rule, score }\<close> objects apart.
\<close>

record 'r heap =
  ruleArrays :: "'r list list"
  scoredArrays :: "('r \<times> int) list list"

definition mapToScored :: "('r \<Rightarrow> 'r \<times> int) \<Rightarrow> nat \<Rightarrow> 'r heap \<Rightarrow> nat \<times> 'r heap" where
  "mapToScored f a h =
     (length (scoredArrays h),
      h\<lparr>scoredArrays := scoredArrays h @ [map f (ruleArrays h ! a)]\<rparr>)"

definition filterScored :: "('r \<times> int \<Rightarrow> bool) \<Rightarrow> nat \<Rightarrow> 'r heap \<Rightarrow> nat \<times> 'r heap" where
  "filterScored p a h =
     (length (scoredArrays h),
      h\<lparr>scoredArrays := scoredArrays h @ [filter p (scoredArrays h ! a)]\<rparr>)"

definition sortScored ::
  "('r \<times> int \<Rightarrow> 'r \<times> int \<Rightarrow> int) \<Rightarrow> nat \<Rightarrow> 'r heap \<Rightarrow> nat \<times> 'r heap" where
  "sortScored cmp a h =
     (a, h\<lparr>scoredArrays := (scoredArrays h)[a := arraySort cmp (scoredArrays h ! a)]\<rparr>)"

definition mapToRules :: "('r \<times> int \<Rightarrow> 'r) \<Rightarrow> nat \<Rightarrow> 'r heap \<Rightarrow> nat \<times> 'r heap" where
  "mapToRules f a h =
     (length (ruleArrays h),
      h\<lparr>ruleArrays := ruleArrays h @ [map f (scoredArrays h ! a)]\<rparr>)"

definition rankRules_heap :: "nat \<Rightarrow> ('r \<Rightarrow> int) \<Rightarrow> 'r heap \<Rightarrow> nat \<times> 'r heap" where
  "rankRules_heap rules scoreFn h =
     (let (scored, h1) = mapToScored (\<lambda>rule. (rule, scoreFn rule)) rules h;
          (kept, h2) = filterScored (\<lambda>(rule, score). score > 0) scored h1;
          (sorted, h3) = sortScored (\<lambda>a b. snd b - snd a) kept h2
      in mapToRules fst sorted h3)"

section \<open>Formatting (\<open>rule-catalog/rule-formatter.ts\<close>)\<close>

text \<open>The decimal digits of an array length, as a template literal prints it.\<close>

function numberToString :: "nat \<Rightarrow> jsstring" where
  "numberToString n =
     (if n < 10 then [48 + n] else numberToString (n div 10) @ [48 + n mod 10])"
  by pat_completeness auto
termination
  by (relation "measure id") auto

definition formatExample :: "CodeExample \<Rightarrow> jsstring list" where
  "formatExample example =
     [ [],
       str ''**'' @ labelString (label example) @ str '':**'',
       [],
       str ''```'' @ language example,
       code example,
       str ''```'' ]"

definition formatCleanCodeRef :: "CleanCodeReference \<Rightarrow> jsstring list" where
  "formatCleanCodeRef ref =
     [ str ''- **'' @ relationshipString (relationship ref) @ str ''** `'' @ principleId ref
         @ str ''` '' @ [8212] @ str '' '' @ note' ref,
       str ''  _Use: search-principle '' @ [34] @ principleId ref @ [34]
         @ str '' in clean-code-mcp_'' ]"

text \<open>\<open>if (rule.source)\<close> holds when the field is present and not the empty string.\<close>

definition formatRuleAsMarkdown :: "ArchitectureRule \<Rightarrow> jsstring" where
  "formatRuleAsMarkdown rule =
     (let lines0 =
            [ str ''## '' @ name rule,
              [],
              str ''**Category:** '' @ CATEGORY_LABELS (category rule),
              str ''**ID:** `'' @ id' rule @ str ''`'',
              [],
              description rule,
              [],
              str ''**Rationale:** '' @ rationale rule ];
          lines1 = (if length (examples rule) > 0
                    then lines0 @ [[], str ''### Examples''] @ concat (map formatExample (examples rule))
                    else lines0);
          lines2 = (if length (cleanCodeRefs rule) > 0
                    then lines1 @ [[], str ''### Related Clean Code Principles'']
                           @ concat (map formatCleanCodeRef (cleanCodeRefs rule))
                    else lines1);
          lines3 = lines2 @ [[], str ''**Tags:** '' @ join (tags rule) (str '', '')];
          lines4 = (case source rule of
                      Some s \<Rightarrow> (if s \<noteq> [] then lines3 @ [str ''**Source:** '' @ s] else lines3)
                    | None \<Rightarrow> lines3)
      in join lines4 [10])"

definition formatAntiPatternAsMarkdown :: "'a AntiPattern_scheme \<Rightarrow> jsstring" where
  "formatAntiPatternAsMarkdown ap =
     (let lines0 =
            [ str ''## '' @ [9888] @ str '' Anti-Pattern: '' @ name ap,
              [],
              str ''**Category:** '' @ CATEGORY_LABELS (category ap),
              str ''**ID:** `'' @ id' ap @ str ''`'',
              [],
              description ap ];
          lines1 = (if length (examples ap) > 0
                    then lines0 @ [[], str ''### Examples''] @ concat (map formatExample (examples ap))
                    else lines0);
          lines2 = (if length (cleanCodeRefs ap) > 0
                    then lines1 @ [[], str ''### Related Clean Code Principles'']
                           @ concat (map formatCleanCodeRef (cleanCodeRefs ap))
                    else lines1);
          lines3 = lines2 @ [[], str ''**Tags:** '' @ join (tags ap) (str '', '')]
      in join lines3 [10])"

text \<open>
  \<open>truncateDescription(description, maxLength = 100)\<close>; its one caller,
  \<open>formatRuleList\<close>, leaves the default.
\<close>

definition truncateDescription :: "jsstring \<Rightarrow> int \<Rightarrow> jsstring" where
  "truncateDescription desc maxLength =
     (if int (length desc) \<le> maxLength then desc
      else trimEnd (slice desc 0 maxLength) @ str ''...'')"

definition formatRuleList :: "'a AntiPattern_scheme list \<Rightarrow> jsstring" where
  "formatRuleList rules =
     (if length rules = 0 then str ''No rules found.''
      else
        let lines0 = [str ''Found **'' @ numberToString (length rules) @ str ''** rule(s):'', []];
            lines1 = lines0 @
              map (\<lambda>rule. str ''- **'' @ name rule @ str ''** (`'' @ id' rule @ str ''`) '' @ [8212]
                            @ str '' '' @ truncateDescription (description rule) 100) rules
        in join lines1 [10])"

section \<open>Search results (\<open>rule-search/format-results.ts\<close>)\<close>


datatype ResultType = RuleResult | AntiPatternResult

text \<open>\<open>{ ...ap, rationale: ap.description }\<close>: the copy has no \<open>source\<close>.\<close>

definition antiPatternsAsRules :: "AntiPattern list \<Rightarrow> ArchitectureRule list" where
  "antiPatternsAsRules antiPatterns =
     map (\<lambda>ap. \<lparr> id' = id' ap, name = name ap, category = category ap,
                 description = description ap, examples = examples ap, tags = tags ap,
                 cleanCodeRefs = cleanCodeRefs ap,
                 rationale = description ap, source = None \<rparr>) antiPatterns"



section \<open>The two search tools\<close>




section \<open>The scoring rules as the specification words them\<close>

text \<open>
  The specification's additive rule system, written from its sentences and not from the
  code: the query is normalized (lowercased, trimmed); an id that equals it
  "case-insensitively, trimmed" gives 100 and nothing else; otherwise 80 for the name, 70
  or 50 for each tag, 30 for the description and 20 for the category are added up.
\<close>

definition spec_normalize :: "jsstring \<Rightarrow> jsstring" where
  "spec_normalize s = trim (toLowerCase s)"

definition spec_tag_points :: "jsstring \<Rightarrow> jsstring \<Rightarrow> int" where
  "spec_tag_points q tag =
     (if tag = q then 70 else if includes' tag q \<or> includes' q tag then 50 else 0)"

definition spec_score :: "ArchitectureRule \<Rightarrow> jsstring \<Rightarrow> int" where
  "spec_score E Q =
     (let q = spec_normalize Q in
      if spec_normalize (id' E) = q then 100
      else (if includes' (toLowerCase (name E)) q then 80 else 0)
           + sum_list (map (spec_tag_points q) (tags E))
           + (if includes' (toLowerCase (description E)) q then 30 else 0)
           + (if includes' (categoryString (category E)) q then 20 else 0))"

section \<open>An entry outside the catalogs\<close>

text \<open>
  \<open>capitalIdRule\<close> is an entry whose stored id has capital letters; the scorer accepts
  any \<open>ArchitectureRule\<close>, and no entry of the catalogs is like it.
\<close>

definition capitalIdRule :: ArchitectureRule where
  "capitalIdRule =
     \<lparr> id' = str ''Thin-Routes'',
       name = str ''Thin Routes'',
       category = RoutesAndControllers,
       description = str ''Route handlers should be thin.'',
       examples = [],
       tags = [str ''route''],
       cleanCodeRefs = [],
       rationale = str ''Thin routes keep the API layer as a simple adapter.'',
       source = None \<rparr>"

section \<open>Unfolding the catalogs\<close>

lemmas RULES_entries =
  rule_domain_centric_modules_def rule_vertical_slice_per_module_def
  rule_standard_module_layout_def rule_self_contained_initialization_def
  rule_define_public_api_def rule_hide_implementation_details_def rule_dto_at_boundaries_def
  rule_stable_contracts_def rule_no_direct_module_imports_def
  rule_sync_via_service_interface_def rule_async_via_events_def
  rule_anti_corruption_layer_def rule_separate_module_data_def
  rule_no_cross_module_joins_def rule_logical_schema_separation_def
  rule_data_ownership_principle_def rule_acyclic_dependency_graph_def
  rule_depend_on_abstractions_def rule_dependency_direction_def rule_thin_routes_def
  rule_one_route_one_module_def rule_request_validation_at_edge_def
  rule_minimal_shared_code_def rule_prefer_duplication_over_coupling_def
  rule_shared_types_only_def rule_test_module_in_isolation_def
  rule_contract_tests_at_boundaries_def rule_mock_other_modules_def
  rule_isolated_integration_module_def rule_dedicated_client_wrapper_def
  rule_integration_change_isolation_def rule_strangler_fig_pattern_def
  rule_extract_module_gradually_def rule_start_monolith_first_def
  rule_measure_before_splitting_def

lemmas ANTI_PATTERNS_entries =
  antiPattern_shared_database_anti_pattern_def antiPattern_god_module_def
  antiPattern_circular_dependency_def antiPattern_business_logic_in_routes_def
  antiPattern_leaky_abstraction_def antiPattern_cross_module_direct_import_def
  antiPattern_cross_module_db_access_def antiPattern_distributed_monolith_def
  antiPattern_anemic_module_def antiPattern_feature_envy_module_def
  antiPattern_premature_extraction_def antiPattern_shared_everything_kernel_def
  antiPattern_event_soup_def antiPattern_tight_temporal_coupling_def
  antiPattern_hidden_dependency_def antiPattern_inconsistent_boundaries_def

section \<open>Properties of the string operations\<close>

lemma startsWith_iff: "startsWith s q = (\<exists>r. s = q @ r)"
  by (induction s q rule: startsWith.induct) auto

lemma includes'_iff: "includes' s q = (\<exists>p r. s = p @ q @ r)"
proof (induction s)
  case Nil
  then show ?case by auto
next
  case (Cons c s)
  show ?case
  proof
    assume "includes' (c # s) q"
    then consider "startsWith (c # s) q" | "includes' s q" by auto
    then show "\<exists>p r. c # s = p @ q @ r"
    proof cases
      case 1
      then obtain r where "c # s = q @ r" by (auto simp: startsWith_iff)
      then have "c # s = [] @ q @ r" by simp
      then show ?thesis by blast
    next
      case 2
      then obtain p r where "s = p @ q @ r" using Cons.IH by auto
      then have "c # s = (c # p) @ q @ r" by simp
      then show ?thesis by blast
    qed
  next
    assume "\<exists>p r. c # s = p @ q @ r"
    then obtain p r where e: "c # s = p @ q @ r" by blast
    show "includes' (c # s) q"
    proof (cases p)
      case Nil
      then have "startsWith (c # s) q" using e by (auto simp: startsWith_iff)
      then show ?thesis by simp
    next
      case (Cons a p')
      then have "s = p' @ q @ r" using e by simp
      then have "includes' s q" using Cons.IH by blast
      then show ?thesis by simp
    qed
  qed
qed

lemma includes'_empty [simp]: "includes' s []"
  by (induction s) auto

subsection \<open>The case tables\<close>

lemma lookupRange_SomeD:
  "lookupRange runs cp = Some q \<Longrightarrow>
   \<exists>(lo, hi, step, img) \<in> set runs. lo \<le> cp \<and> cp \<le> hi \<and> (cp - lo) mod step = 0 \<and> q = img + (cp - lo)"
  by (induction runs cp rule: lookupRange.induct) (auto split: if_splits)

lemma lookupRange_NoneI:
  "\<forall>(lo, hi, step, img) \<in> set runs. \<not> (lo \<le> q \<and> q \<le> hi \<and> (q - lo) mod step = 0) \<Longrightarrow>
   lookupRange runs q = None"
  by (induction runs q rule: lookupRange.induct) auto

lemma inRanges_FalseI:
  "\<forall>(lo, hi) \<in> set runs. cp < lo \<or> hi < cp \<Longrightarrow> \<not> inRanges runs cp"
  by (induction runs cp rule: inRanges.induct) auto

lemma mod_of_diff:
  fixes a b m :: nat
  assumes "a \<le> b" "(b - a) mod m = 0"
  shows "b mod m = a mod m"
proof -
  have "b = a + (b - a)" using assms(1) by simp
  then have "b mod m = (a + (b - a)) mod m" by simp
  also have "\<dots> = (a mod m + (b - a) mod m) mod m" by (simp add: mod_add_eq)
  also have "\<dots> = a mod m" using assms(2) by simp
  finally show ?thesis .
qed

lemma imagesClear_sound:
  assumes "imagesClear img e step runs" "img \<le> q" "q \<le> e" "q mod step = img mod step"
  shows "\<forall>(lo2, hi2, step2, img2) \<in> set runs. \<not> (lo2 \<le> q \<and> q \<le> hi2 \<and> (q - lo2) mod step2 = 0)"
  using assms(1)
proof (induction runs)
  case Nil
  then show ?case by simp
next
  case (Cons r runs)
  obtain lo2 hi2 step2 img2 where r: "r = (lo2, hi2, step2, img2)" by (cases r) auto
  have rest: "imagesClear img e step runs"
    using Cons.prems unfolding r by (simp split: if_splits)
  have head: "\<not> (lo2 \<le> q \<and> q \<le> hi2 \<and> (q - lo2) mod step2 = 0)"
  proof
    assume q: "lo2 \<le> q \<and> q \<le> hi2 \<and> (q - lo2) mod step2 = 0"
    then have a: "\<not> hi2 < img" "\<not> e < lo2" using assms(2,3) by auto
    have m: "q mod step2 = lo2 mod step2" using q by (simp add: mod_of_diff)
    have b: "\<not> (step = step2 \<and> img mod step \<noteq> lo2 mod step)"
      using m assms(4) by auto
    have c: "img = e \<and> (img < lo2 \<or> (img - lo2) mod step2 \<noteq> 0)"
      using Cons.prems a b unfolding r by (simp split: if_splits)
    then have "q = img" using assms(2,3) by simp
    then show False using q c by auto
  qed
  show ?case using Cons.IH [OF rest] head unfolding r by simp
qed

lemma imagesClear_cong:
  "img = img' \<Longrightarrow> e = e' \<Longrightarrow> step = step' \<Longrightarrow>
   imagesClear img e step runs = imagesClear img' e' step' runs"
  by simp

lemma LOWERCASE_clear_1:
  "list_all (\<lambda>(lo, hi, step, img). imagesClear img (img + (hi - lo)) step LOWERCASE)
     (take 45 LOWERCASE)"
  unfolding LOWERCASE_def by (simp cong: imagesClear_cong)

lemma LOWERCASE_clear_2:
  "list_all (\<lambda>(lo, hi, step, img). imagesClear img (img + (hi - lo)) step LOWERCASE)
     (take 45 (drop 45 LOWERCASE))"
  unfolding LOWERCASE_def by (simp cong: imagesClear_cong)

lemma LOWERCASE_clear_3:
  "list_all (\<lambda>(lo, hi, step, img). imagesClear img (img + (hi - lo)) step LOWERCASE)
     (take 45 (drop 90 LOWERCASE))"
  unfolding LOWERCASE_def by (simp cong: imagesClear_cong)

lemma LOWERCASE_clear_4:
  "list_all (\<lambda>(lo, hi, step, img). imagesClear img (img + (hi - lo)) step LOWERCASE)
     (drop 135 LOWERCASE)"
  unfolding LOWERCASE_def by (simp cong: imagesClear_cong)

lemma LOWERCASE_clear:
  "list_all (\<lambda>(lo, hi, step, img). imagesClear img (img + (hi - lo)) step LOWERCASE) LOWERCASE"
proof -
  let ?P = "(\<lambda>(lo, hi, step, img). imagesClear img (img + (hi - lo)) step LOWERCASE)"
  have "list_all ?P (take 45 (drop 90 LOWERCASE) @ drop 45 (drop 90 LOWERCASE))"
    unfolding list_all_append using LOWERCASE_clear_3 LOWERCASE_clear_4 by simp
  then have "list_all ?P (drop 90 LOWERCASE)" by (simp only: append_take_drop_id)
  then have "list_all ?P (take 45 (drop 45 LOWERCASE) @ drop 45 (drop 45 LOWERCASE))"
    unfolding list_all_append using LOWERCASE_clear_2 by simp
  then have "list_all ?P (drop 45 LOWERCASE)" by (simp only: append_take_drop_id)
  then have "list_all ?P (take 45 LOWERCASE @ drop 45 LOWERCASE)"
    unfolding list_all_append using LOWERCASE_clear_1 by simp
  then show ?thesis by (simp only: append_take_drop_id)
qed

lemma LOWERCASE_images:
  "list_all (\<lambda>(lo, hi, step, img). list_all (\<lambda>(a, b). b < img \<or> img + (hi - lo) < a)
           ([(0x130, 0x130), (0x3A3, 0x3A3), (0xD800, 0xDFFF)] @ WHITE_SPACE)) LOWERCASE"
  unfolding LOWERCASE_def WHITE_SPACE_def by simp

lemma LOWERCASE_domain:
  "list_all (\<lambda>(lo, hi, step, img). list_all (\<lambda>(a, b). b < lo \<or> hi < a)
           ([(0x69, 0x69), (0x307, 0x307), (0x3C2, 0x3C3), (0x3A3, 0x3A3), (0x130, 0x130),
             (0xD800, 0xDFFF), (0, 0x40), (0x5B, 0xBF), (0x2000, 0x20FF), (0x2190, 0x245F),
             (0x2500, 0x2BFF)] @ WHITE_SPACE)) LOWERCASE"
  unfolding LOWERCASE_def WHITE_SPACE_def by simp

lemma CASED_white:
  "list_all (\<lambda>(lo, hi). list_all (\<lambda>(a, b). b < lo \<or> hi < a) WHITE_SPACE) CASED"
  unfolding CASED_def WHITE_SPACE_def by simp

lemma isWhiteSpace_runs:
  "isWhiteSpace c \<longleftrightarrow> (\<exists>(a, b) \<in> set WHITE_SPACE. a \<le> c \<and> c \<le> b)"
proof -
  have r: "\<And>a. (a \<le> c \<and> c \<le> a) = (c = a)" by auto
  have s: "(9 \<le> c \<and> c \<le> 13) = (c = 9 \<or> c = 10 \<or> c = 11 \<or> c = 12 \<or> c = 13)" by arith
  have t: "(8232 \<le> c \<and> c \<le> 8233) = (c = 8232 \<or> c = 8233)" by arith
  show ?thesis unfolding isWhiteSpace_def WHITE_SPACE_def by (simp add: r s t disj_ac)
qed

lemma lookupRange_outside:
  assumes "list_all (\<lambda>(lo, hi, step, img). list_all (\<lambda>(a, b). b < lo \<or> hi < a) pts) runs"
    and "(a, b) \<in> set pts" "a \<le> x" "x \<le> b"
  shows "lookupRange runs x = None"
proof -
  have "\<not> (lo \<le> x \<and> x \<le> hi \<and> (x - lo) mod step = 0)"
    if r: "(lo, hi, step, img) \<in> set runs" for lo hi step img
  proof -
    have "list_all (\<lambda>(a, b). b < lo \<or> hi < a) pts"
      using assms(1) r by (auto simp: list_all_iff)
    then have "b < lo \<or> hi < a" using assms(2) by (auto simp: list_all_iff)
    then show ?thesis using assms(3,4) by auto
  qed
  then show ?thesis by (intro lookupRange_NoneI) auto
qed

lemma inRanges_outside:
  assumes "list_all (\<lambda>(lo, hi). list_all (\<lambda>(a, b). b < lo \<or> hi < a) pts) runs"
    and "(a, b) \<in> set pts" "a \<le> x" "x \<le> b"
  shows "\<not> inRanges runs x"
proof -
  have "x < lo \<or> hi < x" if r: "(lo, hi) \<in> set runs" for lo hi
  proof -
    have "list_all (\<lambda>(a, b). b < lo \<or> hi < a) pts"
      using assms(1) r by (auto simp: list_all_iff)
    then have "b < lo \<or> hi < a" using assms(2) by (auto simp: list_all_iff)
    then show ?thesis using assms(3,4) by auto
  qed
  then show ?thesis by (intro inRanges_FalseI) auto
qed

lemma images_outside:
  fixes q :: nat
  assumes "list_all (\<lambda>(lo, hi, step, img). list_all (\<lambda>(a, b). b < img \<or> img + (hi - lo) < a) pts) runs"
    and "(lo, hi, step, img) \<in> set runs" "(a, b) \<in> set pts" "img \<le> q" "q \<le> img + (hi - lo)"
  shows "b < q \<or> q < a"
proof -
  have "list_all (\<lambda>(a, b). b < img \<or> img + (hi - lo) < a) pts"
    using assms(1,2) by (auto simp: list_all_iff)
  then have "b < img \<or> img + (hi - lo) < a" using assms(3) by (auto simp: list_all_iff)
  then show ?thesis using assms(4,5) by auto
qed

lemma LOWERCASE_image:
  assumes "lookupRange LOWERCASE cp = Some q"
  shows "lookupRange LOWERCASE q = None"
    and "q \<noteq> 0x130" and "q \<noteq> 0x3A3" and "\<not> (0xD800 \<le> q \<and> q \<le> 0xDFFF)"
    and "\<not> isWhiteSpace q"
proof -
  from lookupRange_SomeD [OF assms]
  obtain lo hi step img where r: "(lo, hi, step, img) \<in> set LOWERCASE"
    and cp: "lo \<le> cp" "cp \<le> hi" "(cp - lo) mod step = 0" and q: "q = img + (cp - lo)"
    by auto
  have bounds: "img \<le> q" "q \<le> img + (hi - lo)" using cp q by simp_all
  have clear: "imagesClear img (img + (hi - lo)) step LOWERCASE"
    using LOWERCASE_clear r by (auto simp: list_all_iff)
  have qm: "q mod step = img mod step"
    using cp(3) q by (metis add.right_neutral mod_add_right_eq)
  show "lookupRange LOWERCASE q = None"
    by (rule lookupRange_NoneI) (rule imagesClear_sound [OF clear bounds qm])
  note miss = images_outside [OF LOWERCASE_images r _ bounds]
  show "q \<noteq> 0x130" using miss [of "0x130" "0x130"] by auto
  show "q \<noteq> 0x3A3" using miss [of "0x3A3" "0x3A3"] by auto
  show "\<not> (0xD800 \<le> q \<and> q \<le> 0xDFFF)" using miss [of "0xD800" "0xDFFF"] by auto
  show "\<not> isWhiteSpace q"
  proof
    assume "isWhiteSpace q"
    then obtain a b where ab: "(a, b) \<in> set WHITE_SPACE" "a \<le> q" "q \<le> b"
      unfolding isWhiteSpace_runs by blast
    then show False using miss [of a b] by auto
  qed
qed

lemma lookupRange_white: "isWhiteSpace w \<Longrightarrow> lookupRange LOWERCASE w = None"
proof -
  assume "isWhiteSpace w"
  then obtain a b where ab: "(a, b) \<in> set WHITE_SPACE" "a \<le> w" "w \<le> b"
    unfolding isWhiteSpace_runs by blast
  show ?thesis by (rule lookupRange_outside [OF LOWERCASE_domain _ ab(2,3)]) (use ab(1) in simp)
qed

lemma isCased_white: "isWhiteSpace w \<Longrightarrow> \<not> isCased w"
proof -
  assume "isWhiteSpace w"
  then obtain a b where ab: "(a, b) \<in> set WHITE_SPACE" "a \<le> w" "w \<le> b"
    unfolding isWhiteSpace_runs by blast
  show ?thesis unfolding isCased_def by (rule inRanges_outside [OF CASED_white ab])
qed

lemma lookupRange_surrogate:
  "isHighSurrogate c \<or> isLowSurrogate c \<Longrightarrow> lookupRange LOWERCASE c = None"
  by (rule lookupRange_outside [OF LOWERCASE_domain, of "0xD800" "0xDFFF"])
     (auto simp: isHighSurrogate_def isLowSurrogate_def)

lemma lookupRange_small:
  "x \<in> {0x69, 0x307, 0x3C2, 0x3C3, 0x3A3, 0x130} \<Longrightarrow> lookupRange LOWERCASE x = None"
  by (rule lookupRange_outside [OF LOWERCASE_domain, of "if x = 0x3C3 then 0x3C2 else x" "if x = 0x3C2 then 0x3C3 else x"])
     auto

subsection \<open>The lowercase of one code point\<close>

lemma toLowerFull_not_Nil [simp]: "toLowerFull cp \<noteq> []"
  by (simp add: toLowerFull_def split: option.split)

lemma toLowerFull_fixed:
  assumes "cp \<noteq> 0x3A3" "q \<in> set (toLowerFull cp)"
  shows "q \<noteq> 0x3A3 \<and> toLowerFull q = [q]"
proof (cases "cp = 0x130")
  case True
  then have "q = 0x69 \<or> q = 0x307" using assms(2) by (simp add: toLowerFull_def)
  then show ?thesis using lookupRange_small [of q] by (auto simp: toLowerFull_def)
next
  case False
  show ?thesis
  proof (cases "lookupRange LOWERCASE cp")
    case None
    then have "q = cp" using assms(2) False by (simp add: toLowerFull_def)
    then show ?thesis using None False assms(1) by (simp add: toLowerFull_def)
  next
    case (Some img)
    then have "q = img" using assms(2) False by (simp add: toLowerFull_def)
    then show ?thesis using LOWERCASE_image [OF Some] by (simp add: toLowerFull_def)
  qed
qed

lemma toLowerFull_sigma: "toLowerFull 0x3C2 = [0x3C2]" "toLowerFull 0x3C3 = [0x3C3]"
  using lookupRange_small [of "0x3C2"] lookupRange_small [of "0x3C3"]
  by (simp_all add: toLowerFull_def)

lemma toLowerFull_white: "isWhiteSpace w \<Longrightarrow> toLowerFull w = [w]"
  using lookupRange_white [of w] by (auto simp: toLowerFull_def isWhiteSpace_def)

lemma toLowerFull_not_white:
  assumes "\<not> isWhiteSpace cp" "q \<in> set (toLowerFull cp)"
  shows "\<not> isWhiteSpace q"
proof (cases "cp = 0x130")
  case True
  then have "q = 0x69 \<or> q = 0x307" using assms(2) by (simp add: toLowerFull_def)
  then show ?thesis by (auto simp: isWhiteSpace_def)
next
  case False
  show ?thesis
  proof (cases "lookupRange LOWERCASE cp")
    case None
    then show ?thesis using assms False by (simp add: toLowerFull_def)
  next
    case (Some img)
    then have "q = img" using assms(2) False by (simp add: toLowerFull_def)
    then show ?thesis using LOWERCASE_image(5) [OF Some] by simp
  qed
qed

lemma toLowerFull_surrogate:
  "isHighSurrogate c \<or> isLowSurrogate c \<Longrightarrow> toLowerFull c = [c]"
  using lookupRange_surrogate [of c]
  by (auto simp: toLowerFull_def isHighSurrogate_def isLowSurrogate_def)

lemma toLowerFull_not_surrogate:
  assumes "\<not> (isHighSurrogate cp \<or> isLowSurrogate cp)" "q \<in> set (toLowerFull cp)"
  shows "\<not> (isHighSurrogate q \<or> isLowSurrogate q)"
proof (cases "cp = 0x130")
  case True
  then have "q = 0x69 \<or> q = 0x307" using assms(2) by (simp add: toLowerFull_def)
  then show ?thesis by (auto simp: isHighSurrogate_def isLowSurrogate_def)
next
  case False
  show ?thesis
  proof (cases "lookupRange LOWERCASE cp")
    case None
    then show ?thesis using assms False by (simp add: toLowerFull_def)
  next
    case (Some img)
    then have "q = img" using assms(2) False by (simp add: toLowerFull_def)
    then show ?thesis using LOWERCASE_image(4) [OF Some]
      by (auto simp: isHighSurrogate_def isLowSurrogate_def)
  qed
qed

lemma toLowerAt_not_Nil [simp]: "toLowerAt b cp cps \<noteq> []"
  by (simp add: toLowerAt_def)

lemma toLowerAt_fixed:
  "q \<in> set (toLowerAt b cp cps) \<Longrightarrow> q \<noteq> 0x3A3 \<and> toLowerFull q = [q]"
  using toLowerFull_fixed [of cp q] toLowerFull_sigma
  by (auto simp: toLowerAt_def split: if_splits)

lemma toLowerAt_white: "isWhiteSpace w \<Longrightarrow> toLowerAt b w cps = [w]"
  using toLowerFull_white [of w] by (auto simp: toLowerAt_def isWhiteSpace_def)

lemma toLowerAt_not_white:
  "\<not> isWhiteSpace cp \<Longrightarrow> q \<in> set (toLowerAt b cp cps) \<Longrightarrow> \<not> isWhiteSpace q"
  using toLowerFull_not_white [of cp q]
  by (auto simp: toLowerAt_def isWhiteSpace_def split: if_splits)

lemma toLowerAt_surrogate:
  "isHighSurrogate c \<or> isLowSurrogate c \<Longrightarrow> toLowerAt b c cps = [c]"
  using toLowerFull_surrogate [of c]
  by (auto simp: toLowerAt_def isHighSurrogate_def isLowSurrogate_def)

lemma toLowerAt_not_surrogate:
  "\<not> (isHighSurrogate cp \<or> isLowSurrogate cp) \<Longrightarrow> q \<in> set (toLowerAt b cp cps) \<Longrightarrow>
   \<not> (isHighSurrogate q \<or> isLowSurrogate q)"
  using toLowerFull_not_surrogate [of cp q]
  by (auto simp: toLowerAt_def isHighSurrogate_def isLowSurrogate_def split: if_splits)

subsection \<open>The lowercase of a list of code points\<close>

lemma unicodeToLowercase_fixed:
  "\<forall>q \<in> set cps. q \<noteq> 0x3A3 \<and> toLowerFull q = [q] \<Longrightarrow> unicodeToLowercase b cps = cps"
  by (induction cps arbitrary: b) (auto simp: toLowerAt_def)

lemma unicodeToLowercase_out:
  "q \<in> set (unicodeToLowercase b cps) \<Longrightarrow> q \<noteq> 0x3A3 \<and> toLowerFull q = [q]"
proof (induction cps arbitrary: b)
  case Nil
  then show ?case by simp
next
  case (Cons cp cps)
  then show ?case using toLowerAt_fixed [of q b cp cps] by auto
qed

lemma unicodeToLowercase_idem:
  "unicodeToLowercase b' (unicodeToLowercase b cps) = unicodeToLowercase b cps"
  by (rule unicodeToLowercase_fixed) (use unicodeToLowercase_out in blast)

lemma unicodeToLowercase_Nil_iff [simp]: "unicodeToLowercase b cps = [] \<longleftrightarrow> cps = []"
  by (cases cps) simp_all

subsection \<open>Code points and code units\<close>

lemma pairFree_Cons:
  "pairFree (cp # cps) \<longleftrightarrow>
   (cps = [] \<or> \<not> (isHighSurrogate cp \<and> isLowSurrogate (hd cps))) \<and> pairFree cps"
  by (cases cps) auto

lemma pairFree_append:
  "pairFree (xs @ ys) \<longleftrightarrow>
   pairFree xs \<and> pairFree ys
   \<and> (xs = [] \<or> ys = [] \<or> \<not> (isHighSurrogate (last xs) \<and> isLowSurrogate (hd ys)))"
proof (induction xs)
  case Nil
  then show ?case by simp
next
  case (Cons x xs)
  then show ?case by (cases xs; cases ys) (auto simp: pairFree_Cons)
qed

lemma pairFree_no_high: "\<forall>q \<in> set xs. \<not> isHighSurrogate q \<Longrightarrow> pairFree xs"
  by (induction xs) (auto simp: pairFree_Cons)

lemma surrogatePairToCodePoint_ge: "0x10000 \<le> surrogatePairToCodePoint c d"
  by (simp add: surrogatePairToCodePoint_def)

lemma stringToCodePoints_hd:
  "stringToCodePoints (c # s) = cp # cps \<Longrightarrow> cp = c \<or> 0x10000 \<le> cp"
  by (cases s) (auto simp: surrogatePairToCodePoint_ge split: if_splits)

lemma stringToCodePoints_Nil_iff [simp]: "stringToCodePoints s = [] \<longleftrightarrow> s = []"
  by (induction s rule: stringToCodePoints.induct) auto

lemma pairFree_stringToCodePoints: "pairFree (stringToCodePoints s)"
proof (induction s rule: stringToCodePoints.induct)
  case 1
  then show ?case by simp
next
  case (2 c)
  then show ?case by simp
next
  case (3 c d s)
  show ?case
  proof (cases "isHighSurrogate c \<and> isLowSurrogate d")
    case True
    have "\<not> isHighSurrogate (surrogatePairToCodePoint c d)"
      using surrogatePairToCodePoint_ge [of c d] by (simp add: isHighSurrogate_def)
    moreover have "pairFree (stringToCodePoints s)" using "3.IH"(1) [OF True] .
    moreover have "stringToCodePoints (c # d # s) = surrogatePairToCodePoint c d # stringToCodePoints s"
      using True by simp
    ultimately show ?thesis by (simp add: pairFree_Cons del: stringToCodePoints.simps)
  next
    case False
    obtain cp cps where e: "stringToCodePoints (d # s) = cp # cps"
      by (cases "stringToCodePoints (d # s)") auto
    have "cp = d \<or> 0x10000 \<le> cp" using stringToCodePoints_hd [OF e] .
    then have "\<not> (isHighSurrogate c \<and> isLowSurrogate cp)"
      using False by (auto simp: isLowSurrogate_def)
    moreover have "pairFree (cp # cps)" using "3.IH"(2) [OF False] e by simp
    moreover have "stringToCodePoints (c # d # s) = c # cp # cps" using False e by auto
    ultimately show ?thesis by (simp del: stringToCodePoints.simps)
  qed
qed

lemma utf16EncodeCodePoint_pair:
  assumes "0x10000 \<le> cp" "cp < 0x110000"
  shows "\<exists>h l. utf16EncodeCodePoint cp = [h, l] \<and> isHighSurrogate h \<and> isLowSurrogate l
           \<and> surrogatePairToCodePoint h l = cp"
proof -
  let ?n = "cp - 0x10000"
  have n: "?n < 0x400 * 0x400" using assms by simp
  then have d: "?n div 0x400 < 0x400" by (simp add: div_less_iff_less_mult)
  have m: "?n mod 0x400 < 0x400" by simp
  have "?n div 0x400 * 0x400 + ?n mod 0x400 = ?n" by simp
  then have "surrogatePairToCodePoint (?n div 0x400 + 0xD800) (?n mod 0x400 + 0xDC00) = cp"
    using assms by (simp add: surrogatePairToCodePoint_def)
  then show ?thesis using assms d m
    by (auto simp: utf16EncodeCodePoint_def isHighSurrogate_def isLowSurrogate_def)
qed

lemma utf16EncodeCodePoint_single:
  "\<not> (0x10000 \<le> cp \<and> cp < 0x110000) \<Longrightarrow> utf16EncodeCodePoint cp = [cp]"
  by (simp add: utf16EncodeCodePoint_def)

lemma codePointsToString_hd:
  "\<exists>h t. codePointsToString (cp # cps) = h # t
     \<and> (if 0x10000 \<le> cp \<and> cp < 0x110000 then isHighSurrogate h else h = cp)"
proof (cases "0x10000 \<le> cp \<and> cp < 0x110000")
  case True
  then obtain h l where "utf16EncodeCodePoint cp = [h, l]" "isHighSurrogate h"
    using utf16EncodeCodePoint_pair [of cp] by auto
  then show ?thesis using True by (simp add: codePointsToString_def)
next
  case False
  then show ?thesis by (auto simp: codePointsToString_def utf16EncodeCodePoint_def)
qed

lemma codePointsToString_Cons:
  "codePointsToString (cp # cps) = utf16EncodeCodePoint cp @ codePointsToString cps"
  by (simp add: codePointsToString_def)

lemma stringToCodePoints_codePointsToString:
  "pairFree cps \<Longrightarrow> stringToCodePoints (codePointsToString cps) = cps"
proof (induction cps)
  case Nil
  then show ?case by (simp add: codePointsToString_def)
next
  case (Cons cp cps)
  have IH: "stringToCodePoints (codePointsToString cps) = cps"
    using Cons by (simp add: pairFree_Cons)
  show ?case
  proof (cases "0x10000 \<le> cp \<and> cp < 0x110000")
    case True
    then obtain h l where hl: "utf16EncodeCodePoint cp = [h, l]" "isHighSurrogate h"
      "isLowSurrogate l" "surrogatePairToCodePoint h l = cp"
      using utf16EncodeCodePoint_pair [of cp] by auto
    then show ?thesis using IH by (simp add: codePointsToString_Cons)
  next
    case False
    then have one: "utf16EncodeCodePoint cp = [cp]" by (rule utf16EncodeCodePoint_single)
    show ?thesis
    proof (cases cps)
      case Nil
      then show ?thesis using one by (simp add: codePointsToString_def)
    next
      case (Cons cq cqs)
      obtain h t where ht: "codePointsToString (cq # cqs) = h # t"
        and h: "if 0x10000 \<le> cq \<and> cq < 0x110000 then isHighSurrogate h else h = cq"
        using codePointsToString_hd [of cq cqs] by auto
      have nolow: "\<not> (isHighSurrogate cp \<and> isLowSurrogate h)"
      proof (cases "0x10000 \<le> cq \<and> cq < 0x110000")
        case True
        then have "isHighSurrogate h" using h by simp
        then show ?thesis by (auto simp: isHighSurrogate_def isLowSurrogate_def)
      next
        case False
        then have "h = cq" using h by simp
        then show ?thesis using Cons.prems Cons by (simp add: pairFree_Cons)
      qed
      have "stringToCodePoints (cp # h # t) = cp # stringToCodePoints (h # t)"
        using nolow by auto
      then show ?thesis using one ht IH Cons by (simp add: codePointsToString_Cons)
    qed
  qed
qed

lemma hd_unicodeToLowercase:
  assumes "cps \<noteq> []" "isLowSurrogate (hd (unicodeToLowercase b cps))"
  shows "isLowSurrogate (hd cps)"
proof -
  obtain cp rest where c: "cps = cp # rest" using assms(1) by (cases cps) auto
  have hd: "hd (unicodeToLowercase b cps) = hd (toLowerAt b cp rest)"
    unfolding c by simp
  show ?thesis
  proof (cases "isHighSurrogate cp \<or> isLowSurrogate cp")
    case True
    then show ?thesis using assms(2) hd c by (simp add: toLowerAt_surrogate)
  next
    case False
    have "hd (toLowerAt b cp rest) \<in> set (toLowerAt b cp rest)" by simp
    from toLowerAt_not_surrogate [OF False this]
    show ?thesis using assms(2) hd by simp
  qed
qed

lemma pairFree_unicodeToLowercase:
  "pairFree cps \<Longrightarrow> pairFree (unicodeToLowercase b cps)"
proof (induction cps arbitrary: b)
  case Nil
  then show ?case by simp
next
  case (Cons cp cps)
  let ?b = "if isCaseIgnorable cp then b else isCased cp"
  have rest: "pairFree (unicodeToLowercase ?b cps)" using Cons by (simp add: pairFree_Cons)
  show ?case
  proof (cases "isHighSurrogate cp \<or> isLowSurrogate cp")
    case True
    have "\<not> (isHighSurrogate cp \<and> isLowSurrogate (hd (unicodeToLowercase ?b cps)))" if "cps \<noteq> []"
      using hd_unicodeToLowercase [OF that, of ?b] Cons.prems that by (auto simp: pairFree_Cons)
    then show ?thesis using rest True
      by (auto simp: toLowerAt_surrogate pairFree_Cons)
  next
    case False
    have ns: "\<forall>q \<in> set (toLowerAt b cp cps). \<not> isHighSurrogate q"
      using toLowerAt_not_surrogate [OF False] by blast
    have "last (toLowerAt b cp cps) \<in> set (toLowerAt b cp cps)" by simp
    then have "\<not> isHighSurrogate (last (toLowerAt b cp cps))" using ns by blast
    then show ?thesis using rest pairFree_no_high [OF ns] by (simp add: pairFree_append)
  qed
qed

subsection \<open>Properties of \<open>toLowerCase\<close>\<close>

lemma toLowerCase_idem: "toLowerCase (toLowerCase s) = toLowerCase s"
  by (simp add: toLowerCase_def stringToCodePoints_codePointsToString
      pairFree_unicodeToLowercase pairFree_stringToCodePoints unicodeToLowercase_idem)

subsection \<open>\<open>toLowerCase\<close> and white space\<close>

lemma isWhiteSpace_unit:
  "isWhiteSpace w \<Longrightarrow> \<not> isHighSurrogate w \<and> \<not> isLowSurrogate w \<and> w < 0x10000"
  by (auto simp: isWhiteSpace_def isHighSurrogate_def isLowSurrogate_def)

lemma codePoint_not_white: "0x10000 \<le> cp \<Longrightarrow> \<not> isWhiteSpace cp"
  using isWhiteSpace_unit [of cp] by auto

lemma surrogate_not_white: "isHighSurrogate c \<or> isLowSurrogate c \<Longrightarrow> \<not> isWhiteSpace c"
  using isWhiteSpace_unit [of c] by auto

lemma stringToCodePoints_white:
  "isWhiteSpace w \<Longrightarrow> stringToCodePoints (w # s) = w # stringToCodePoints s"
  using isWhiteSpace_unit [of w] by (cases s) auto

lemma unicodeToLowercase_white:
  "isWhiteSpace w \<Longrightarrow> unicodeToLowercase False (w # cps) = w # unicodeToLowercase False cps"
  by (simp add: toLowerAt_white isCased_white)

lemma utf16EncodeCodePoint_white: "isWhiteSpace w \<Longrightarrow> utf16EncodeCodePoint w = [w]"
  using isWhiteSpace_unit [of w] by (simp add: utf16EncodeCodePoint_def)

lemma toLowerCase_Nil [simp]: "toLowerCase [] = []"
  by (simp add: toLowerCase_def codePointsToString_def)

lemma toLowerCase_white_Cons:
  assumes "isWhiteSpace w"
  shows "toLowerCase (w # s) = w # toLowerCase s"
proof -
  have "toLowerCase (w # s)
      = codePointsToString (unicodeToLowercase False (w # stringToCodePoints s))"
    by (simp only: toLowerCase_def stringToCodePoints_white [OF assms])
  also have "\<dots> = codePointsToString (w # unicodeToLowercase False (stringToCodePoints s))"
    by (simp only: unicodeToLowercase_white [OF assms])
  also have "\<dots> = w # toLowerCase s"
    by (simp add: toLowerCase_def codePointsToString_Cons utf16EncodeCodePoint_white [OF assms])
  finally show ?thesis .
qed

lemma toLowerCase_hd:
  assumes "\<not> isWhiteSpace c"
  shows "\<exists>h t. toLowerCase (c # s) = h # t \<and> \<not> isWhiteSpace h"
proof -
  obtain cp cps where dec: "stringToCodePoints (c # s) = cp # cps"
    by (cases "stringToCodePoints (c # s)") auto
  have cp: "\<not> isWhiteSpace cp"
    using stringToCodePoints_hd [OF dec] assms codePoint_not_white by auto
  obtain q qs where low: "toLowerAt False cp cps = q # qs"
    by (cases "toLowerAt False cp cps") auto
  have q: "\<not> isWhiteSpace q"
    using toLowerAt_not_white [OF cp, of q False cps] low by simp
  obtain h t where enc: "codePointsToString (q # qs @ unicodeToLowercase (if isCaseIgnorable cp then False else isCased cp) cps) = h # t"
    and h: "if 0x10000 \<le> q \<and> q < 0x110000 then isHighSurrogate h else h = q"
    using codePointsToString_hd by blast
  have "\<not> isWhiteSpace h"
    using h q surrogate_not_white [of h] by (auto split: if_splits)
  then show ?thesis using dec low enc by (simp add: toLowerCase_def)
qed

lemma dropWhile_toLowerCase:
  "dropWhile isWhiteSpace (toLowerCase s) = toLowerCase (dropWhile isWhiteSpace s)"
proof (induction s)
  case Nil
  then show ?case by simp
next
  case (Cons c s)
  show ?case
  proof (cases "isWhiteSpace c")
    case True
    then show ?thesis using Cons by (simp add: toLowerCase_white_Cons)
  next
    case False
    then obtain h t where "toLowerCase (c # s) = h # t" "\<not> isWhiteSpace h"
      using toLowerCase_hd by blast
    then show ?thesis using False by simp
  qed
qed

lemma stringToCodePoints_snoc_white:
  "isWhiteSpace w \<Longrightarrow> stringToCodePoints (s @ [w]) = stringToCodePoints s @ [w]"
  using isWhiteSpace_unit [of w]
  by (induction s rule: stringToCodePoints.induct) auto

lemma followedByCasedLetter_snoc_white:
  "isWhiteSpace w \<Longrightarrow> followedByCasedLetter (cps @ [w]) = followedByCasedLetter cps"
  by (induction cps) (auto simp: isCased_white)

lemma unicodeToLowercase_snoc_white:
  "isWhiteSpace w \<Longrightarrow> unicodeToLowercase b (cps @ [w]) = unicodeToLowercase b cps @ [w]"
proof (induction cps arbitrary: b)
  case Nil
  then show ?case by (simp add: toLowerAt_white)
next
  case (Cons cp cps)
  have "toLowerAt b cp (cps @ [w]) = toLowerAt b cp cps"
    using Cons.prems by (simp add: toLowerAt_def followedByCasedLetter_snoc_white)
  then show ?case using Cons by simp
qed

lemma toLowerCase_snoc_white: "isWhiteSpace w \<Longrightarrow> toLowerCase (s @ [w]) = toLowerCase s @ [w]"
  by (simp add: toLowerCase_def stringToCodePoints_snoc_white unicodeToLowercase_snoc_white
      codePointsToString_def utf16EncodeCodePoint_white)

lemma stringToCodePoints_last:
  "s \<noteq> [] \<Longrightarrow> last (stringToCodePoints s) = last s \<or> 0x10000 \<le> last (stringToCodePoints s)"
proof (induction s rule: stringToCodePoints.induct)
  case 1
  then show ?case by simp
next
  case (2 c)
  then show ?case by simp
next
  case (3 c d s)
  show ?case
  proof (cases "isHighSurrogate c \<and> isLowSurrogate d")
    case True
    then have e: "stringToCodePoints (c # d # s) = surrogatePairToCodePoint c d # stringToCodePoints s"
      by simp
    show ?thesis
    proof (cases s)
      case Nil
      then show ?thesis using e surrogatePairToCodePoint_ge [of c d] by simp
    next
      case (Cons a list)
      then show ?thesis using e "3.IH"(1) [OF True] by simp
    qed
  next
    case False
    then have e: "stringToCodePoints (c # d # s) = c # stringToCodePoints (d # s)" by auto
    have "stringToCodePoints (d # s) \<noteq> []" by simp
    then show ?thesis using e "3.IH"(2) [OF False] by (simp del: stringToCodePoints.simps)
  qed
qed

lemma unicodeToLowercase_last:
  "cps \<noteq> [] \<Longrightarrow> \<exists>b'. last (unicodeToLowercase b cps) = last (toLowerAt b' (last cps) [])"
proof (induction cps arbitrary: b)
  case Nil
  then show ?case by simp
next
  case (Cons cp cps)
  show ?case
  proof (cases cps)
    case Nil
    then show ?thesis by auto
  next
    case (Cons a list)
    then show ?thesis using Cons.IH by simp
  qed
qed

lemma codePointsToString_last:
  assumes "cps \<noteq> []" "\<not> isWhiteSpace (last cps)"
  shows "codePointsToString cps \<noteq> [] \<and> \<not> isWhiteSpace (last (codePointsToString cps))"
proof -
  obtain xs x where c: "cps = xs @ [x]" using assms(1) by (cases cps rule: rev_cases) auto
  have e: "codePointsToString cps = codePointsToString xs @ utf16EncodeCodePoint x"
    unfolding c by (simp add: codePointsToString_def)
  have x: "\<not> isWhiteSpace x" using assms(2) c by simp
  show ?thesis
  proof (cases "0x10000 \<le> x \<and> x < 0x110000")
    case True
    then obtain h l where "utf16EncodeCodePoint x = [h, l]" "isLowSurrogate l"
      using utf16EncodeCodePoint_pair [of x] by auto
    then show ?thesis using e surrogate_not_white [of l] by simp
  next
    case False
    then show ?thesis using e x by (simp add: utf16EncodeCodePoint_single)
  qed
qed

lemma toLowerCase_last:
  assumes "\<not> isWhiteSpace c"
  shows "toLowerCase (s @ [c]) \<noteq> [] \<and> \<not> isWhiteSpace (last (toLowerCase (s @ [c])))"
proof -
  let ?cps = "stringToCodePoints (s @ [c])"
  have ne: "?cps \<noteq> []" by simp
  have "last ?cps = c \<or> 0x10000 \<le> last ?cps"
    using stringToCodePoints_last [of "s @ [c]"] by simp
  then have l1: "\<not> isWhiteSpace (last ?cps)" using assms codePoint_not_white by auto
  obtain b' where "last (unicodeToLowercase False ?cps) = last (toLowerAt b' (last ?cps) [])"
    using unicodeToLowercase_last [OF ne] by blast
  moreover have "last (toLowerAt b' (last ?cps) []) \<in> set (toLowerAt b' (last ?cps) [])"
    by simp
  ultimately have l2: "\<not> isWhiteSpace (last (unicodeToLowercase False ?cps))"
    using toLowerAt_not_white [OF l1] by metis
  have "unicodeToLowercase False ?cps \<noteq> []" using ne by simp
  from codePointsToString_last [OF this l2] show ?thesis by (simp add: toLowerCase_def)
qed

lemma trimEnd_snoc: "\<not> isWhiteSpace x \<Longrightarrow> trimEnd (ys @ [x]) = ys @ [x]"
  by (simp add: trimEnd_def)

lemma trimEnd_snoc_white: "isWhiteSpace x \<Longrightarrow> trimEnd (ys @ [x]) = trimEnd ys"
  by (simp add: trimEnd_def)

lemma trimEnd_toLowerCase: "trimEnd (toLowerCase s) = toLowerCase (trimEnd s)"
proof (induction s rule: rev_induct)
  case Nil
  then show ?case by (simp add: trimEnd_def)
next
  case (snoc c s)
  show ?case
  proof (cases "isWhiteSpace c")
    case True
    then show ?thesis using snoc by (simp add: toLowerCase_snoc_white trimEnd_snoc_white)
  next
    case False
    obtain ys y where e: "toLowerCase (s @ [c]) = ys @ [y]"
      using toLowerCase_last [OF False, of s] by (cases "toLowerCase (s @ [c])" rule: rev_cases) auto
    then have "\<not> isWhiteSpace y" using toLowerCase_last [OF False, of s] by simp
    then show ?thesis using e False by (simp add: trimEnd_snoc)
  qed
qed

lemma trim_toLowerCase: "trim (toLowerCase s) = toLowerCase (trim s)"
  by (simp add: trim_def trimStart_def dropWhile_toLowerCase trimEnd_toLowerCase)

subsection \<open>Evaluating \<open>toLowerCase\<close>\<close>

lemma lookupRange_cong: "cp = cp' \<Longrightarrow> lookupRange runs cp = lookupRange runs cp'"
  by simp

lemma inRanges_cong: "cp = cp' \<Longrightarrow> inRanges runs cp = inRanges runs cp'"
  by simp

lemma lookupRange_capital:
  "0x41 \<le> cp \<Longrightarrow> cp \<le> 0x5A \<Longrightarrow> lookupRange LOWERCASE cp = Some (cp + 0x20)"
  unfolding LOWERCASE_def by (simp cong: lookupRange_cong)

lemma toLowerFull_plain: "plainUnit c \<Longrightarrow> toLowerFull c = [lowerAscii c]"
proof (cases "0x41 \<le> c \<and> c \<le> 0x5A")
  case True
  then show ?thesis by (simp add: toLowerFull_def lowerAscii_def lookupRange_capital)
next
  case False
  assume "plainUnit c"
  then consider "c \<le> 0x40" | "0x5B \<le> c \<and> c \<le> 0xBF" | "0x2000 \<le> c \<and> c \<le> 0x20FF"
    | "0x2190 \<le> c \<and> c \<le> 0x245F" | "0x2500 \<le> c \<and> c \<le> 0x2BFF"
    using False unfolding plainUnit_def by linarith
  then have "lookupRange LOWERCASE c = None"
  proof cases
    case 1
    then show ?thesis by (intro lookupRange_outside [OF LOWERCASE_domain, of 0 "0x40"]) auto
  next
    case 2
    then show ?thesis by (intro lookupRange_outside [OF LOWERCASE_domain, of "0x5B" "0xBF"]) auto
  next
    case 3
    then show ?thesis by (intro lookupRange_outside [OF LOWERCASE_domain, of "0x2000" "0x20FF"]) auto
  next
    case 4
    then show ?thesis by (intro lookupRange_outside [OF LOWERCASE_domain, of "0x2190" "0x245F"]) auto
  next
    case 5
    then show ?thesis by (intro lookupRange_outside [OF LOWERCASE_domain, of "0x2500" "0x2BFF"]) auto
  qed
  moreover have "c \<noteq> 0x130" using \<open>plainUnit c\<close> by (auto simp: plainUnit_def)
  ultimately show ?thesis using False by (simp add: toLowerFull_def lowerAscii_def)
qed

lemma unicodeToLowercase_no_sigma:
  "0x3A3 \<notin> set cps \<Longrightarrow> unicodeToLowercase b cps = concat (map toLowerFull cps)"
  by (induction cps arbitrary: b) (auto simp: toLowerAt_def)

lemma stringToCodePoints_no_high:
  "list_all (\<lambda>c. \<not> isHighSurrogate c) s \<Longrightarrow> stringToCodePoints s = s"
  by (induction s rule: stringToCodePoints.induct) auto

lemma toLowerCase_no_sigma:
  "0x3A3 \<notin> set (stringToCodePoints s) \<Longrightarrow>
   toLowerCase s = codePointsToString (concat (map toLowerFull (stringToCodePoints s)))"
  by (simp add: toLowerCase_def unicodeToLowercase_no_sigma)

lemma toLowerCase_plain:
  assumes "list_all plainUnit s"
  shows "toLowerCase s = map lowerAscii s"
proof -
  have p: "\<forall>c \<in> set s. plainUnit c" using assms by (simp add: list_all_iff)
  have "list_all (\<lambda>c. \<not> isHighSurrogate c) s"
    using p by (auto simp: list_all_iff plainUnit_def isHighSurrogate_def)
  then have dec: "stringToCodePoints s = s" by (rule stringToCodePoints_no_high)
  have "0x3A3 \<notin> set s" using p by (auto simp: plainUnit_def)
  then have low: "unicodeToLowercase False s = concat (map toLowerFull s)"
    by (rule unicodeToLowercase_no_sigma)
  have "concat (map toLowerFull s) = map lowerAscii s"
    using p by (induction s) (auto simp: toLowerFull_plain)
  moreover have "codePointsToString (map lowerAscii s) = map lowerAscii s"
    using p by (induction s)
      (auto simp: codePointsToString_def utf16EncodeCodePoint_def plainUnit_def lowerAscii_def)
  ultimately show ?thesis by (simp add: toLowerCase_def dec low)
qed

lemmas toLowerCase_eval =
  toLowerCase_def toLowerAt_def toLowerFull_def [unfolded LOWERCASE_def]
  isCased_def [unfolded CASED_def] isCaseIgnorable_def [unfolded CASE_IGNORABLE_def]
  codePointsToString_def utf16EncodeCodePoint_def isHighSurrogate_def isLowSurrogate_def
  surrogatePairToCodePoint_def

text \<open>
  Some values of \<open>toLowerCase\<close>: the Kelvin sign, the capital I with dot above, a Greek
  word that ends in sigma and one that has it inside, a sigma without a letter before
  it, a Cyrillic and a Cherokee letter, a Deseret letter (a surrogate pair) and a lone
  surrogate.
\<close>

lemma toLowerCase_examples:
  "toLowerCase [0x212A] = [0x6B]"
  "toLowerCase [0x130] = [0x69, 0x307]"
  "toLowerCase [0x39F, 0x394, 0x39F, 0x3A3] = [0x3BF, 0x3B4, 0x3BF, 0x3C2]"
  "toLowerCase [0x39C, 0x395, 0x3A3, 0x391] = [0x3BC, 0x3B5, 0x3C3, 0x3B1]"
  "toLowerCase [0x41, 0x27, 0x3A3, 0x2E, 0x20] = [0x61, 0x27, 0x3C2, 0x2E, 0x20]"
  "toLowerCase [0x20, 0x3A3] = [0x20, 0x3C3]"
  "toLowerCase [0x416, 0x13A0] = [0x436, 0xAB70]"
  "toLowerCase [0xD801, 0xDC00, 0xD801, 0x41] = [0xD801, 0xDC28, 0xD801, 0x61]"
  by (simp_all add: toLowerCase_eval cong: lookupRange_cong inRanges_cong)

lemma toLowerCase_kelvin: "toLowerCase (0x212A # str ''ERNEL'') = str ''kernel''"
  by (simp add: toLowerCase_eval str_def cong: lookupRange_cong inRanges_cong)

subsection \<open>\<open>trim\<close>\<close>

lemma dropWhile_snoc_keep: "\<not> P x \<Longrightarrow> dropWhile P (ys @ [x]) = dropWhile P ys @ [x]"
  by (induction ys) auto

lemma trimStart_trimEnd:
  assumes "t = [] \<or> \<not> isWhiteSpace (hd t)"
  shows "trimStart (trimEnd t) = trimEnd t"
proof (cases t)
  case Nil
  then show ?thesis by (simp add: trimStart_def trimEnd_def)
next
  case (Cons x t')
  with assms have nx: "\<not> isWhiteSpace x" by simp
  have "dropWhile isWhiteSpace (rev t) = dropWhile isWhiteSpace (rev t') @ [x]"
    using nx by (simp add: Cons dropWhile_snoc_keep)
  then have "trimEnd t = x # rev (dropWhile isWhiteSpace (rev t'))"
    by (simp add: trimEnd_def)
  then show ?thesis using nx by (simp add: trimStart_def)
qed

lemma trimStart_head: "trimStart s = [] \<or> \<not> isWhiteSpace (hd (trimStart s))"
  unfolding trimStart_def by (metis hd_dropWhile)

lemma trimEnd_idem: "trimEnd (trimEnd s) = trimEnd s"
  by (simp add: trimEnd_def)

lemma trim_idem: "trim (trim s) = trim s"
  unfolding trim_def
  by (simp add: trimStart_trimEnd [OF trimStart_head] trimEnd_idem)

lemma normalize_idem: "trim (toLowerCase (trim (toLowerCase q))) = trim (toLowerCase q)"
  by (simp add: trim_toLowerCase toLowerCase_idem trim_idem)

section \<open>Properties of \<open>slice\<close> and \<open>trimEnd\<close>\<close>

lemma slice_from_0: "0 \<le> m \<Longrightarrow> slice xs 0 m = take (nat m) xs"
  by (simp add: slice_def Let_def min_def)


lemma length_trimEnd: "length (trimEnd s) \<le> length s"
  unfolding trimEnd_def length_rev
  by (rule order_trans [OF length_dropWhile_le]) simp

section \<open>Properties of the catalog ids\<close>

lemma dropWhile_none: "\<forall>c\<in>set xs. \<not> P c \<Longrightarrow> dropWhile P xs = xs"
  by (cases xs) auto

lemma normalized_id:
  assumes "toLowerCase i = i" and "\<forall>c\<in>set i. \<not> isWhiteSpace c"
  shows "trim (toLowerCase i) = i"
proof -
  have "dropWhile isWhiteSpace i = i"
    using assms(2) by (rule dropWhile_none)
  moreover have "dropWhile isWhiteSpace (rev i) = rev i"
    by (rule dropWhile_none) (simp add: assms(2))
  ultimately show ?thesis
    using assms(1) by (simp add: trim_def trimStart_def trimEnd_def)
qed

lemma RULES_ids:
  "map id' RULES = map str [
     ''domain-centric-modules'', ''vertical-slice-per-module'', ''standard-module-layout'',
     ''self-contained-initialization'', ''define-public-api'',
     ''hide-implementation-details'', ''dto-at-boundaries'', ''stable-contracts'',
     ''no-direct-module-imports'', ''sync-via-service-interface'', ''async-via-events'',
     ''anti-corruption-layer'', ''separate-module-data'', ''no-cross-module-joins'',
     ''logical-schema-separation'', ''data-ownership-principle'',
     ''acyclic-dependency-graph'', ''depend-on-abstractions'', ''dependency-direction'',
     ''thin-routes'', ''one-route-one-module'', ''request-validation-at-edge'',
     ''minimal-shared-code'', ''prefer-duplication-over-coupling'', ''shared-types-only'',
     ''test-module-in-isolation'', ''contract-tests-at-boundaries'', ''mock-other-modules'',
     ''isolated-integration-module'', ''dedicated-client-wrapper'',
     ''integration-change-isolation'', ''strangler-fig-pattern'',
     ''extract-module-gradually'', ''start-monolith-first'', ''measure-before-splitting'']"
  by (simp add: RULES_def RULES_entries)

lemma ANTI_PATTERNS_ids:
  "map id' ANTI_PATTERNS = map str [
     ''shared-database-anti-pattern'', ''god-module'', ''circular-dependency'',
     ''business-logic-in-routes'', ''leaky-abstraction'', ''cross-module-direct-import'',
     ''cross-module-db-access'', ''distributed-monolith'', ''anemic-module'',
     ''feature-envy-module'', ''premature-extraction'', ''shared-everything-kernel'',
     ''event-soup'', ''tight-temporal-coupling'', ''hidden-dependency'',
     ''inconsistent-boundaries'']"
  by (simp add: ANTI_PATTERNS_def ANTI_PATTERNS_entries)

lemma RULES_ids_ok:
  "\<forall>i\<in>set (map id' RULES).
     i \<noteq> [] \<and> toLowerCase i = i \<and> (\<forall>c\<in>set i. \<not> isWhiteSpace c)"
  unfolding RULES_ids
  by (simp add: str_def toLowerCase_plain plainUnit_def lowerAscii_def isWhiteSpace_def)

lemma ANTI_PATTERNS_ids_ok:
  "\<forall>i\<in>set (map id' ANTI_PATTERNS).
     i \<noteq> [] \<and> toLowerCase i = i \<and> (\<forall>c\<in>set i. \<not> isWhiteSpace c)"
  unfolding ANTI_PATTERNS_ids
  by (simp add: str_def toLowerCase_plain plainUnit_def lowerAscii_def isWhiteSpace_def)

lemma RULES_ids_distinct: "distinct (map id' RULES)"
  unfolding RULES_ids by (simp add: str_def)

lemma ANTI_PATTERNS_ids_distinct: "distinct (map id' ANTI_PATTERNS)"
  unfolding ANTI_PATTERNS_ids by (simp add: str_def)

section \<open>Properties of the scorer\<close>

lemma tag_loop_sum:
  "foldl (\<lambda>score tag.
            if tag = q then score + a
            else if includes' tag q \<or> includes' q tag then score + b
            else score) s0 ts
   = s0 + sum_list (map (\<lambda>tag. if tag = q then a
                                 else if includes' tag q \<or> includes' q tag then b else 0) ts)"
  for s0 a b :: int
  by (induction ts arbitrary: s0) auto

lemma token_loop_sum:
  "foldl (\<lambda>score token. score + f token) s0 ts = s0 + sum_list (map f ts)"
  for s0 :: int
  by (induction ts arbitrary: s0) auto

lemma scoreRuleByQuery_unfold:
  "scoreRuleByQuery rule query =
     (let q = trim (toLowerCase query) in
      if id' rule = q then 100
      else (if includes' (toLowerCase (name rule)) q then 80 else 0)
           + sum_list (map (\<lambda>tag. if tag = q then 70
                                     else if includes' tag q \<or> includes' q tag then 50 else 0)
                           (tags rule))
           + (if includes' (toLowerCase (description rule)) q then 30 else 0)
           + (if includes' (categoryString (category rule)) q then 20 else 0))"
  unfolding scoreRuleByQuery_def Let_def tag_loop_sum
    EXACT_ID_MATCH_def NAME_CONTAINS_def TAG_EXACT_def TAG_PARTIAL_def
    DESCRIPTION_CONTAINS_def CATEGORY_MATCH_def
  by simp

lemma scoreRuleByQuery_normalized:
  "trim (toLowerCase Q') = trim (toLowerCase Q) \<Longrightarrow> scoreRuleByQuery E Q' = scoreRuleByQuery E Q"
  by (simp add: scoreRuleByQuery_def)

lemmas string_eval =
  str_def toLowerCase_plain plainUnit_def lowerAscii_def trim_def trimStart_def trimEnd_def
  isWhiteSpace_def

section \<open>Properties of the ranker\<close>

lemma set_insertBy: "set (insertBy cmp x ys) = insert x (set ys)"
  by (induction ys) auto

lemma length_insertBy: "length (insertBy cmp x ys) = Suc (length ys)"
  by (induction ys) auto

lemma sorted_insertBy:
  fixes key :: "'a \<Rightarrow> int"
  assumes "sorted_wrt (\<lambda>a b. key b \<le> key a) ys"
  shows "sorted_wrt (\<lambda>a b. key b \<le> key a) (insertBy (\<lambda>a b. key b - key a) x ys)"
  using assms
proof (induction ys)
  case Nil
  then show ?case by simp
next
  case (Cons y ys)
  show ?case
  proof (cases "key y - key x \<le> 0")
    case True
    then have "\<forall>z\<in>set (y # ys). key z \<le> key x"
      using Cons.prems by fastforce
    then show ?thesis using True Cons.prems by simp
  next
    case False
    then have "key x \<le> key y" by simp
    moreover have "sorted_wrt (\<lambda>a b. key b \<le> key a) (insertBy (\<lambda>a b. key b - key a) x ys)"
      using Cons by simp
    ultimately show ?thesis using False Cons.prems by (simp add: set_insertBy)
  qed
qed

lemma set_arraySort: "set (arraySort cmp xs) = set xs"
  by (induction xs) (simp_all add: arraySort_def set_insertBy)

lemma length_arraySort: "length (arraySort cmp xs) = length xs"
  by (induction xs) (simp_all add: arraySort_def length_insertBy)


lemma sorted_arraySort:
  fixes key :: "'a \<Rightarrow> int"
  shows "sorted_wrt (\<lambda>a b. key b \<le> key a) (arraySort (\<lambda>a b. key b - key a) xs)"
proof (induction xs)
  case Nil
  then show ?case by (simp add: arraySort_def)
next
  case (Cons x xs)
  have "arraySort (\<lambda>a b. key b - key a) (x # xs)
      = insertBy (\<lambda>a b. key b - key a) x (arraySort (\<lambda>a b. key b - key a) xs)"
    by (simp add: arraySort_def)
  then show ?case
    using sorted_insertBy [OF Cons.IH] by simp
qed

lemma kept_entries:
  "map fst (filter (\<lambda>(rule, score). score > 0) (map (\<lambda>rule. (rule, scoreFn rule)) rules))
   = filter (\<lambda>rule. 0 < scoreFn rule) rules"
  by (induction rules) simp_all

lemma set_rankRules: "set (rankRules rules scoreFn) = {r \<in> set rules. 0 < scoreFn r}"
proof -
  have "set (rankRules rules scoreFn)
      = set (map fst (filter (\<lambda>(rule, score). score > 0)
                        (map (\<lambda>rule. (rule, scoreFn rule)) rules)))"
    by (simp only: rankRules_def set_map set_arraySort)
  then show ?thesis
    by (simp only: kept_entries set_filter)
qed

lemma length_rankRules_eq:
  "length (rankRules rules scoreFn) = length (filter (\<lambda>rule. 0 < scoreFn rule) rules)"
proof -
  have "length (rankRules rules scoreFn)
      = length (map fst (filter (\<lambda>(rule, score). score > 0)
                           (map (\<lambda>rule. (rule, scoreFn rule)) rules)))"
    by (simp only: rankRules_def length_map length_arraySort)
  then show ?thesis by (simp only: kept_entries)
qed

lemma length_rankRules: "length (rankRules rules scoreFn) \<le> length rules"
proof -
  have "length (rankRules rules scoreFn)
      = length (filter (\<lambda>(rule, score). score > 0) (map (\<lambda>rule. (rule, scoreFn rule)) rules))"
    by (simp only: rankRules_def length_map length_arraySort)
  also have "\<dots> \<le> length (map (\<lambda>rule. (rule, scoreFn rule)) rules)"
    by (rule length_filter_le)
  finally show ?thesis by simp
qed


lemma sorted_rankRules:
  "sorted_wrt (\<lambda>x y. scoreFn y \<le> scoreFn x) (rankRules rules scoreFn)"
proof -
  define ps where
    "ps = filter (\<lambda>(rule, score). score > 0) (map (\<lambda>rule. (rule, scoreFn rule)) rules)"
  define ss where "ss = arraySort (\<lambda>a b. snd b - snd a) ps"
  have s: "sorted_wrt (\<lambda>a b. snd b \<le> snd a) ss"
    unfolding ss_def by (rule sorted_arraySort)
  have e: "snd p = scoreFn (fst p)" if "p \<in> set ss" for p
  proof -
    from that have "p \<in> set ps" by (simp only: ss_def set_arraySort)
    then show ?thesis unfolding ps_def by auto
  qed
  have "sorted_wrt (\<lambda>a b. scoreFn (fst b) \<le> scoreFn (fst a)) ss"
  proof (rule sorted_wrt_mono_rel [OF _ s])
    fix a b
    assume "a \<in> set ss" "b \<in> set ss" "snd b \<le> snd a"
    then show "scoreFn (fst b) \<le> scoreFn (fst a)"
      using e [of a] e [of b] by simp
  qed
  then have "sorted_wrt (\<lambda>x y. scoreFn y \<le> scoreFn x) (map fst ss)"
    by (simp only: sorted_wrt_map)
  then show ?thesis
    by (simp only: rankRules_def ss_def ps_def)
qed





lemma rankRules_heap_eq:
  "rankRules_heap rules scoreFn h =
     (length (ruleArrays h),
      h\<lparr> ruleArrays := ruleArrays h @ [rankRules (ruleArrays h ! rules) scoreFn],
         scoredArrays := scoredArrays h
           @ [map (\<lambda>rule. (rule, scoreFn rule)) (ruleArrays h ! rules),
              arraySort (\<lambda>a b. snd b - snd a)
                (filter (\<lambda>(rule, score). score > 0)
                   (map (\<lambda>rule. (rule, scoreFn rule)) (ruleArrays h ! rules)))] \<rparr>)"
proof -
  define S where "S = scoredArrays h"
  define m where "m = map (\<lambda>rule. (rule, scoreFn rule)) (ruleArrays h ! rules)"
  define k where "k = filter (\<lambda>(rule, score). score > 0) m"
  have 1: "(S @ [m]) ! length S = m" by simp
  have 2: "(S @ [m] @ [k]) ! Suc (length S) = k"
    by (simp add: nth_append)
  have 3: "(S @ [m] @ [k])[Suc (length S) := v] = S @ [m] @ [v]" for v
    by (simp add: list_update_append)
  have 4: "(S @ [m] @ [v]) ! Suc (length S) = v" for v
    by (simp add: nth_append)
  show ?thesis
    unfolding rankRules_heap_def mapToScored_def filterScored_def sortScored_def
      mapToRules_def rankRules_def Let_def
    using 1 2 3 4
    by (simp add: S_def m_def k_def)
qed

section \<open>Properties of the result formatter\<close>


text \<open>
  A summary list of one catalog entry, whose description of 175 characters is cut to 100,
  and the first line of a detailed block.
\<close>

lemma formatRuleList_example:
  "formatRuleList [antiPattern_god_module] =
     join [ str ''Found **1** rule(s):'',
            [],
            str ''- **God Module** (`god-module`) '' @ [8212]
              @ str '' A single module that handles too many responsibilities with no clear boundary. It grows indefinitely...'' ]
          [10]"
  by (simp add: formatRuleList_def truncateDescription_def slice_def trimEnd_def isWhiteSpace_def
      antiPattern_god_module_def str_def Let_def)

lemma formatRuleAsMarkdown_heading:
  "\<exists>rest. formatRuleAsMarkdown rule = str ''## '' @ name rule @ [10] @ rest"
  by (simp add: formatRuleAsMarkdown_def Let_def split: option.splits)

lemma formatAntiPatternAsMarkdown_heading:
  "\<exists>rest. formatAntiPatternAsMarkdown ap
     = str ''## '' @ [9888] @ str '' Anti-Pattern: '' @ name ap @ [10] @ rest"
  by (simp add: formatAntiPatternAsMarkdown_def Let_def)

section \<open>Evaluating the tokenizer\<close>

lemma splitWhiteSpace_Nil: "splitWhiteSpace [] = [[]]"
  by (subst splitWhiteSpace.simps) simp

lemma splitWhiteSpace_Cons:
  "splitWhiteSpace (c # s) =
     (if isWhiteSpace c then [] # splitWhiteSpace (dropWhile isWhiteSpace s)
      else (case splitWhiteSpace s of p # ps \<Rightarrow> (c # p) # ps | [] \<Rightarrow> [[c]]))"
proof (cases "isWhiteSpace c")
  case True
  then show ?thesis by (subst splitWhiteSpace.simps) simp
next
  case False
  have "splitWhiteSpace (c # s) =
      (case splitWhiteSpace s of p # ps \<Rightarrow> (c # p) # ps | [] \<Rightarrow> [[c]])"
    by (subst splitWhiteSpace.simps, subst (2) splitWhiteSpace.simps)
      (simp add: False Let_def)
  with False show ?thesis by simp
qed

lemmas tokenizer_eval =
  tokenize_def removeStopWords_def STOP_WORDS_def isTokenChar_def
  splitWhiteSpace_Nil splitWhiteSpace_Cons

lemma tokenize_example:
  "tokenize (str ''My modules are importing internal files from each other'') =
     map str [''my'', ''modules'', ''are'', ''importing'', ''internal'', ''files'', ''from'',
              ''each'', ''other'']
   \<and> removeStopWords
        (tokenize (str ''My modules are importing internal files from each other'')) =
     map str [''modules'', ''importing'', ''internal'', ''files'', ''each'']"
  by (simp add: tokenizer_eval string_eval)

lemma tokenize_punctuation:
  "tokenize (str ''  A thin-route, I/O & x!'') = map str [''thin-route'']"
  by (simp add: tokenizer_eval string_eval)

section \<open>Evaluating a search\<close>





section \<open>The scorer\<close>

text \<open>
  C1. For every entry of the static catalogs (a rule, or an anti-pattern as
  \<open>antiPatternsAsRules\<close> hands it to the scorer) and every query, \<open>scoreRuleByQuery\<close> is
  the specification's additive rule system on the normalized query: 100 and nothing else
  when the id equals the normalized query, case-insensitively and trimmed; otherwise 80
  for the name, 70 (equal) or 50 (contained either way) for each tag, 30 for the
  description and 20 for the category. The code compares the stored id as it is, so the
  same holds for any entry whose stored id is already lowercase and trimmed, as all ids of
  the catalogs are.
\<close>

theorem scoreRuleByQuery_refines_spec:
  "(E \<in> set RULES \<union> set (antiPatternsAsRules ANTI_PATTERNS) \<longrightarrow>
      scoreRuleByQuery E Q = spec_score E Q)
   \<and> (trim (toLowerCase (id' E)) = id' E \<longrightarrow> scoreRuleByQuery E Q = spec_score E Q)"
proof -
  have sp: "spec_tag_points q =
      (\<lambda>tag. if tag = q then 70 else if includes' tag q \<or> includes' q tag then 50 else 0)" for q
    by (rule ext) (simp add: spec_tag_points_def)
  have n: "scoreRuleByQuery E Q = spec_score E Q" if "trim (toLowerCase (id' E)) = id' E"
    unfolding scoreRuleByQuery_unfold spec_score_def spec_normalize_def sp
    using that by simp
  have c: "trim (toLowerCase (id' E)) = id' E"
    if "E \<in> set RULES \<union> set (antiPatternsAsRules ANTI_PATTERNS)"
  proof -
    have "map id' (antiPatternsAsRules ANTI_PATTERNS) = map id' ANTI_PATTERNS"
      by (simp add: antiPatternsAsRules_def comp_def)
    then have "id' E \<in> set (map id' RULES) \<union> set (map id' ANTI_PATTERNS)"
      using that by (metis Un_iff imageI set_map)
    then have "toLowerCase (id' E) = id' E \<and> (\<forall>c\<in>set (id' E). \<not> isWhiteSpace c)"
      using RULES_ids_ok ANTI_PATTERNS_ids_ok by blast
    then show ?thesis using normalized_id by blast
  qed
  from n c show ?thesis by blast
qed

theorem scoreRuleByQuery_refines_spec_witness:
  "rule_thin_routes \<in> set RULES \<union> set (antiPatternsAsRules ANTI_PATTERNS)
   \<and> trim (toLowerCase (id' rule_thin_routes)) = id' rule_thin_routes
   \<and> scoreRuleByQuery rule_thin_routes (str '' Route '') = spec_score rule_thin_routes (str '' Route '')
   \<and> scoreRuleByQuery rule_thin_routes (str '' Route '') = 200"
proof -
  have m: "rule_thin_routes \<in> set RULES \<union> set (antiPatternsAsRules ANTI_PATTERNS)"
    by (simp add: RULES_def)
  have h: "trim (toLowerCase (id' rule_thin_routes)) = id' rule_thin_routes"
    by (simp add: rule_thin_routes_def string_eval)
  have v: "scoreRuleByQuery rule_thin_routes (str '' Route '') = 200"
    by (simp add: scoreRuleByQuery_unfold rule_thin_routes_def string_eval)
  show ?thesis
    using m h v scoreRuleByQuery_refines_spec [of rule_thin_routes "str '' Route ''"]
    by simp
qed

text \<open>
  Outside the catalogs the condition on the id matters: on an entry whose stored id is
  \<open>Thin-Routes\<close>, the query \<open>thin-routes\<close> gets only the 50 of the one tag it contains,
  not the 100 of an id that matches.
\<close>

lemma scoreRuleByQuery_capital_id:
  "scoreRuleByQuery capitalIdRule (str ''thin-routes'') = 50"
  by (simp add: scoreRuleByQuery_unfold capitalIdRule_def string_eval)

text \<open>
  C2. For every entry, scoring with the empty token list and the boosts of the empty
  token list gives 0. Scoring with the empty query does not: the empty string is contained
  in every name, tag, description and category, so an entry with a non-empty id scores
  80 + 30 + 20 and 50 more for each non-empty tag (70 for an empty one); only on an entry
  whose id is empty does the exact-id rule fire, and then the score is 100; no entry of the
  static catalogs has an empty id.
\<close>

theorem empty_query_and_empty_tokens:
  "scoreRuleByTokens E [] (detectCategoryBoosts []) = 0
   \<and> scoreRuleByQuery E [] =
       (if id' E = [] then 100
        else 130 + sum_list (map (\<lambda>tag. if tag = [] then 70 else 50) (tags E)))
   \<and> [] \<notin> set (map id' RULES) \<and> [] \<notin> set (map id' ANTI_PATTERNS)"
proof -
  have n: "trim (toLowerCase []) = []"
    by (simp add: string_eval)
  have "scoreRuleByTokens E [] (detectCategoryBoosts []) = 0"
    by (simp add: scoreRuleByTokens_def detectCategoryBoosts_def)
  moreover have "scoreRuleByQuery E [] =
       (if id' E = [] then 100
        else 130 + sum_list (map (\<lambda>tag. if tag = [] then 70 else 50) (tags E)))"
    unfolding scoreRuleByQuery_unfold n by (simp cong: if_cong)
  moreover have "[] \<notin> set (map id' RULES)"
    using RULES_ids_ok by blast
  moreover have "[] \<notin> set (map id' ANTI_PATTERNS)"
    using ANTI_PATTERNS_ids_ok by blast
  ultimately show ?thesis by simp
qed

text \<open>
  The claim as stated fails: the catalog's \<open>thin-routes\<close> rule, with its six tags,
  scores 430 on the empty query, not 0.
\<close>

theorem empty_query_counterexample:
  "scoreRuleByQuery rule_thin_routes [] = 430 \<and> scoreRuleByQuery rule_thin_routes [] \<noteq> 0"
  by (simp add: scoreRuleByQuery_unfold rule_thin_routes_def string_eval)

text \<open>
  C4. For every entry, token list and boost map, \<open>scoreRuleByTokens\<close> is the sum of
  \<open>scoreRuleByQuery\<close> over the tokens plus 15 times the boost of the entry's category,
  with 0 for a category the map does not have; in particular for the two tokens
  \<open>boundary\<close> and \<open>coupling\<close>.
\<close>

theorem scoreRuleByTokens_additive:
  "scoreRuleByTokens E T B =
     sum_list (map (scoreRuleByQuery E) T)
     + (case B (category E) of Some b \<Rightarrow> b | None \<Rightarrow> 0) * 15
   \<and> scoreRuleByTokens E [str ''boundary'', str ''coupling''] B =
     scoreRuleByQuery E (str ''boundary'') + scoreRuleByQuery E (str ''coupling'')
     + (case B (category E) of Some b \<Rightarrow> b | None \<Rightarrow> 0) * 15"
  by (simp add: scoreRuleByTokens_def token_loop_sum CATEGORY_BOOST_MULTIPLIER_def)

text \<open>
  C8. The score does not change when the query is replaced by its normal form (lowercased,
  then trimmed), nor when it is lowercased or trimmed alone; and two queries that differ
  only in letter case, or only in surrounding white space, score alike on every entry.
\<close>

theorem scoreRuleByQuery_normalization_invariant:
  "scoreRuleByQuery E Q = scoreRuleByQuery E (trim (toLowerCase Q))
   \<and> scoreRuleByQuery E (toLowerCase Q) = scoreRuleByQuery E Q
   \<and> scoreRuleByQuery E (trim Q) = scoreRuleByQuery E Q
   \<and> (toLowerCase Q' = toLowerCase Q \<longrightarrow> scoreRuleByQuery E Q' = scoreRuleByQuery E Q)
   \<and> (trim Q' = trim Q \<longrightarrow> scoreRuleByQuery E Q' = scoreRuleByQuery E Q)"
proof -
  have 1: "scoreRuleByQuery E Q = scoreRuleByQuery E (trim (toLowerCase Q))"
    by (rule scoreRuleByQuery_normalized) (simp add: normalize_idem)
  have 2: "scoreRuleByQuery E (toLowerCase Q) = scoreRuleByQuery E Q"
    by (rule scoreRuleByQuery_normalized) (simp add: toLowerCase_idem)
  have 3: "scoreRuleByQuery E (trim Q) = scoreRuleByQuery E Q"
    by (rule scoreRuleByQuery_normalized) (simp add: trim_toLowerCase trim_idem)
  have 4: "scoreRuleByQuery E Q' = scoreRuleByQuery E Q" if "toLowerCase Q' = toLowerCase Q"
    by (rule scoreRuleByQuery_normalized) (simp add: that)
  have 5: "scoreRuleByQuery E Q' = scoreRuleByQuery E Q" if "trim Q' = trim Q"
    by (rule scoreRuleByQuery_normalized) (simp add: trim_toLowerCase that)
  from 1 2 3 4 5 show ?thesis by blast
qed

theorem scoreRuleByQuery_normalization_invariant_witness:
  "toLowerCase (str ''ROUTE'') = toLowerCase (str ''Route'')
   \<and> trim (str ''  Route'') = trim (str ''Route '')
   \<and> scoreRuleByQuery rule_thin_routes (str ''ROUTE'') = scoreRuleByQuery rule_thin_routes (str ''Route'')
   \<and> scoreRuleByQuery rule_thin_routes (str ''  Route'') = scoreRuleByQuery rule_thin_routes (str ''Route '')
   \<and> scoreRuleByQuery rule_thin_routes (str ''Route'') = 200"
proof -
  have a: "toLowerCase (str ''ROUTE'') = toLowerCase (str ''Route'')"
    by (simp add: string_eval)
  have b: "trim (str ''  Route'') = trim (str ''Route '')"
    by (simp add: string_eval)
  have c: "scoreRuleByQuery rule_thin_routes (str ''Route'') = 200"
    by (simp add: scoreRuleByQuery_unfold rule_thin_routes_def string_eval)
  show ?thesis
    using a b c
      scoreRuleByQuery_normalization_invariant
        [of rule_thin_routes "str ''Route''" "str ''ROUTE''"]
      scoreRuleByQuery_normalization_invariant
        [of rule_thin_routes "str ''Route ''" "str ''  Route''"]
    by simp
qed

section \<open>The ranker\<close>

text \<open>
  C3. For every array of entries in the store and every scoring function, \<open>rankRules\<close>
  returns a new array that holds the entries of its argument with a positive score, so
  none whose score is 0, no more entries than the argument has, in non-increasing order
  of score; the argument and every other array that existed before the call are left as
  they were.
\<close>

theorem rankRules_heap_correct:
  assumes "rules < length (ruleArrays h)"
  shows "case rankRules_heap rules scoreFn h of (result, h') \<Rightarrow>
           ruleArrays h' ! rules = ruleArrays h ! rules
         \<and> take (length (ruleArrays h)) (ruleArrays h') = ruleArrays h
         \<and> take (length (scoredArrays h)) (scoredArrays h') = scoredArrays h
         \<and> result = length (ruleArrays h)
         \<and> ruleArrays h' ! result = rankRules (ruleArrays h ! rules) scoreFn
         \<and> (\<forall>e \<in> set (ruleArrays h' ! result). scoreFn e \<noteq> 0)
         \<and> set (ruleArrays h' ! result) = {e \<in> set (ruleArrays h ! rules). 0 < scoreFn e}
         \<and> length (ruleArrays h' ! result)
             = length (filter (\<lambda>e. 0 < scoreFn e) (ruleArrays h ! rules))
         \<and> length (ruleArrays h' ! result) \<le> length (ruleArrays h ! rules)
         \<and> sorted_wrt (\<lambda>x y. scoreFn y \<le> scoreFn x) (ruleArrays h' ! result)"
proof -
  define out where "out = rankRules (ruleArrays h ! rules) scoreFn"
  have a: "(ruleArrays h @ [out]) ! rules = ruleArrays h ! rules"
    using assms by (simp add: nth_append)
  have b: "(ruleArrays h @ [out]) ! length (ruleArrays h) = out"
    by simp
  have c: "\<forall>e \<in> set out. scoreFn e \<noteq> 0"
    unfolding out_def set_rankRules by simp
  have d: "set out = {e \<in> set (ruleArrays h ! rules). 0 < scoreFn e}"
    unfolding out_def by (rule set_rankRules)
  have e: "length out \<le> length (ruleArrays h ! rules)"
    unfolding out_def by (rule length_rankRules)
  have g: "length out = length (filter (\<lambda>e. 0 < scoreFn e) (ruleArrays h ! rules))"
    unfolding out_def by (rule length_rankRules_eq)
  have f: "sorted_wrt (\<lambda>x y. scoreFn y \<le> scoreFn x) out"
    unfolding out_def by (rule sorted_rankRules)
  show ?thesis
    unfolding rankRules_heap_eq out_def [symmetric]
    using a b c d e f g by simp
qed

theorem rankRules_heap_correct_witness:
  "(0::nat) < length (ruleArrays \<lparr> ruleArrays = [[3, 0, 5, 1, 3 :: int]], scoredArrays = [] \<rparr>)
   \<and> (case rankRules_heap 0 (\<lambda>n. n - 1) \<lparr> ruleArrays = [[3, 0, 5, 1, 3 :: int]], scoredArrays = [] \<rparr>
       of (result, h') \<Rightarrow>
         result = 1 \<and> ruleArrays h' ! 0 = [3, 0, 5, 1, 3] \<and> ruleArrays h' ! result = [5, 3, 3])"
proof -
  define h0 :: "int heap" where "h0 = \<lparr> ruleArrays = [[3, 0, 5, 1, 3]], scoredArrays = [] \<rparr>"
  have l: "(0::nat) < length (ruleArrays h0)" by (simp add: h0_def)
  have r: "rankRules (ruleArrays h0 ! 0) (\<lambda>n. n - 1) = [5, 3, 3]"
    by (simp add: h0_def rankRules_def arraySort_def)
  have i: "ruleArrays h0 ! 0 = [3, 0, 5, 1, 3]" by (simp add: h0_def)
  have "case rankRules_heap 0 (\<lambda>n. n - 1) h0 of (result, h') \<Rightarrow>
         result = 1 \<and> ruleArrays h' ! 0 = [3, 0, 5, 1, 3] \<and> ruleArrays h' ! result = [5, 3, 3]"
    using rankRules_heap_correct [OF l, of "\<lambda>n. n - 1"] r i
    by (auto simp: h0_def split: prod.splits)
  with l show ?thesis unfolding h0_def by simp
qed

section \<open>The result formatter and the search tools\<close>



text \<open>
  C9. \<open>antiPatternsAsRules\<close> gives a list of the same length and order in which each
  record has the id, name, category, description, tags, examples and references of the
  anti-pattern at its position, and that anti-pattern's description as its rationale.
\<close>

theorem antiPatternsAsRules_frame:
  "length (antiPatternsAsRules aps) = length aps
   \<and> map rationale (antiPatternsAsRules aps) = map description aps
   \<and> map id' (antiPatternsAsRules aps) = map id' aps
   \<and> map name (antiPatternsAsRules aps) = map name aps
   \<and> map category (antiPatternsAsRules aps) = map category aps
   \<and> map description (antiPatternsAsRules aps) = map description aps
   \<and> map tags (antiPatternsAsRules aps) = map tags aps
   \<and> map examples (antiPatternsAsRules aps) = map examples aps
   \<and> map cleanCodeRefs (antiPatternsAsRules aps) = map cleanCodeRefs aps"
  by (simp add: antiPatternsAsRules_def comp_def)

text \<open>
  C7. \<open>truncateDescription\<close> returns a string no longer than the limit unchanged. A longer
  string, for a limit that is not negative, becomes its prefix of the limit's length with
  the trailing white space trimmed, followed by three full stops; so a 10-character string
  with limit 5 becomes exactly its first 5 characters and the three full stops when its
  fifth character is not white space, and fewer than 5 characters and the three full stops
  when it is.
\<close>

theorem truncateDescription_behaviour:
  "(int (length d) \<le> limit \<longrightarrow> truncateDescription d limit = d)
   \<and> (0 \<le> limit \<and> limit < int (length d) \<longrightarrow>
        truncateDescription d limit = trimEnd (take (nat limit) d) @ str ''...'')
   \<and> (length d = 10 \<and> \<not> isWhiteSpace (d ! 4) \<longrightarrow>
        truncateDescription d 5 = take 5 d @ str ''...'')
   \<and> (length d = 10 \<and> isWhiteSpace (d ! 4) \<longrightarrow>
        truncateDescription d 5 = trimEnd (take 4 d) @ str ''...''
        \<and> length (trimEnd (take 4 d)) < 5)"
proof -
  have 1: "truncateDescription d limit = d" if "int (length d) \<le> limit"
    using that by (simp add: truncateDescription_def)
  have 2: "truncateDescription d limit = trimEnd (take (nat limit) d) @ str ''...''"
    if "0 \<le> limit" "limit < int (length d)"
    using that by (simp add: truncateDescription_def slice_from_0)
  have t: "take 5 d = take 4 d @ [d ! 4]" if "length d = 10"
    using that by (simp add: take_Suc_conv_app_nth [symmetric])
  have u: "truncateDescription d 5 = trimEnd (take 5 d) @ str ''...''" if "length d = 10"
    using that by (simp add: truncateDescription_def slice_from_0)
  have 3: "truncateDescription d 5 = take 5 d @ str ''...''"
    if len: "length d = 10" and nw: "\<not> isWhiteSpace (d ! 4)"
  proof -
    have "trimEnd (take 5 d) = take 5 d"
      unfolding t [OF len] using nw by (rule trimEnd_snoc)
    then show ?thesis using u [OF len] by simp
  qed
  have 4: "truncateDescription d 5 = trimEnd (take 4 d) @ str ''...''
      \<and> length (trimEnd (take 4 d)) < 5"
    if len: "length d = 10" and w: "isWhiteSpace (d ! 4)"
  proof -
    have "trimEnd (take 5 d) = trimEnd (take 4 d)"
      unfolding t [OF len] using w by (rule trimEnd_snoc_white)
    moreover have "length (trimEnd (take 4 d)) \<le> length (take 4 d)"
      by (rule length_trimEnd)
    ultimately show ?thesis using u [OF len] len by simp
  qed
  from 1 2 3 4 show ?thesis by blast
qed

theorem truncateDescription_behaviour_witness:
  "int (length (str ''abc'')) \<le> 5
   \<and> truncateDescription (str ''abc'') 5 = str ''abc''
   \<and> (0::int) \<le> 5 \<and> 5 < int (length (str ''abcdefghij''))
   \<and> length (str ''abcdefghij'') = 10 \<and> \<not> isWhiteSpace (str ''abcdefghij'' ! 4)
   \<and> truncateDescription (str ''abcdefghij'') 5 = str ''abcde...''
   \<and> length (str ''abc  fghij'') = 10 \<and> isWhiteSpace (str ''abc  fghij'' ! 4)
   \<and> truncateDescription (str ''abc  fghij'') 5 = str ''abc...''"
proof -
  have a: "int (length (str ''abc'')) \<le> 5" by (simp add: str_def)
  have b: "length (str ''abcdefghij'') = 10" by (simp add: str_def)
  have c: "\<not> isWhiteSpace (str ''abcdefghij'' ! 4)" by (simp add: str_def isWhiteSpace_def)
  have d: "take 5 (str ''abcdefghij'') @ str ''...'' = str ''abcde...''" by (simp add: str_def)
  have e: "truncateDescription (str ''abc'') 5 = str ''abc''"
    using a truncateDescription_behaviour [of "str ''abc''" 5] by blast
  have f: "truncateDescription (str ''abcdefghij'') 5 = take 5 (str ''abcdefghij'') @ str ''...''"
    using b c truncateDescription_behaviour [of "str ''abcdefghij''" 5] by blast
  have g: "length (str ''abc  fghij'') = 10" by (simp add: str_def)
  have h: "isWhiteSpace (str ''abc  fghij'' ! 4)" by (simp add: str_def isWhiteSpace_def)
  have i: "trimEnd (take 4 (str ''abc  fghij'')) @ str ''...'' = str ''abc...''"
    by (simp add: str_def trimEnd_def isWhiteSpace_def)
  have j: "truncateDescription (str ''abc  fghij'') 5
      = trimEnd (take 4 (str ''abc  fghij'')) @ str ''...''"
    using g h truncateDescription_behaviour [of "str ''abc  fghij''" 5] by blast
  show ?thesis
    using a b c e f d g h i j by simp
qed

text \<open>
  The claim as stated fails on a 10-character string whose fifth character is a space:
  4 characters and the three full stops come back, not 5.
\<close>

theorem truncateDescription_counterexample:
  "length (str ''abcd efghi'') = 10
   \<and> truncateDescription (str ''abcd efghi'') 5 = str ''abcd...''
   \<and> truncateDescription (str ''abcd efghi'') 5 \<noteq> take 5 (str ''abcd efghi'') @ str ''...''"
  by (simp add: truncateDescription_def slice_def str_def trimEnd_def isWhiteSpace_def)



section \<open>The catalog ids\<close>

text \<open>
  C10. Every id in the static \<open>RULES\<close> and \<open>ANTI_PATTERNS\<close> catalogs is a non-empty
  string that lowercasing leaves unchanged and that has no white space, and the ids of
  each catalog are pairwise distinct; so for every query, the stored id equals the
  normalized query exactly when the normalized id does.
\<close>

theorem catalog_ids_normalized:
  "(\<forall>i \<in> set (map id' RULES) \<union> set (map id' ANTI_PATTERNS).
      i \<noteq> [] \<and> toLowerCase i = i \<and> (\<forall>c\<in>set i. \<not> isWhiteSpace c)
      \<and> (\<forall>Q. (i = trim (toLowerCase Q)) = (trim (toLowerCase i) = trim (toLowerCase Q))))
   \<and> distinct (map id' RULES) \<and> distinct (map id' ANTI_PATTERNS)"
proof -
  have "i \<noteq> [] \<and> toLowerCase i = i \<and> (\<forall>c\<in>set i. \<not> isWhiteSpace c)
      \<and> (\<forall>Q. (i = trim (toLowerCase Q)) = (trim (toLowerCase i) = trim (toLowerCase Q)))"
    if "i \<in> set (map id' RULES) \<union> set (map id' ANTI_PATTERNS)" for i
  proof -
    have ok: "i \<noteq> [] \<and> toLowerCase i = i \<and> (\<forall>c\<in>set i. \<not> isWhiteSpace c)"
      using that RULES_ids_ok ANTI_PATTERNS_ids_ok by blast
    then have "trim (toLowerCase i) = i" using normalized_id by blast
    with ok show ?thesis by simp
  qed
  then show ?thesis
    using RULES_ids_distinct ANTI_PATTERNS_ids_distinct by blast
qed

theorem catalog_ids_normalized_witness:
  "id' rule_thin_routes \<in> set (map id' RULES) \<union> set (map id' ANTI_PATTERNS)
   \<and> id' rule_thin_routes = str ''thin-routes''
   \<and> id' rule_thin_routes \<noteq> []
   \<and> toLowerCase (id' rule_thin_routes) = id' rule_thin_routes
   \<and> id' rule_thin_routes = trim (toLowerCase (str '' Thin-Routes ''))
   \<and> trim (toLowerCase (id' rule_thin_routes)) = trim (toLowerCase (str '' Thin-Routes ''))"
proof -
  have i: "id' rule_thin_routes = str ''thin-routes''"
    by (simp add: rule_thin_routes_def)
  have m: "id' rule_thin_routes \<in> set (map id' RULES) \<union> set (map id' ANTI_PATTERNS)"
    unfolding RULES_ids i by (simp add: str_def)
  have q: "id' rule_thin_routes = trim (toLowerCase (str '' Thin-Routes ''))"
    unfolding i by (simp add: string_eval)
  from catalog_ids_normalized m
  have "id' rule_thin_routes \<noteq> [] \<and> toLowerCase (id' rule_thin_routes) = id' rule_thin_routes
      \<and> (\<forall>Q. (id' rule_thin_routes = trim (toLowerCase Q))
             = (trim (toLowerCase (id' rule_thin_routes)) = trim (toLowerCase Q)))"
    by blast
  with i m q show ?thesis by metis
qed

end
